theory Spec2Isabelle
  imports Complex_Main "HOL-Library.Word" "HOL-Library.Sublist" "HOL-Library.Log_Nat"
begin

unbundle bit_operations_syntax

section \<open>JavaScript values used by sogni-gen.mjs\<close>

text \<open>
  The command line tool keeps every setting in one mutable object, \<open>options\<close>.  A field
  that holds \<open>null\<close>/\<open>undefined\<close> or a string is a \<open>string option\<close>; a string is
  the list of its UTF-8 bytes.  A number that comes out of \<open>parseInt\<close> is an integer or
  \<open>NaN\<close> (\<open>jsnum\<close>); a number that comes out of \<open>parseFloat\<close>/\<open>Number\<close> and has
  passed the \<open>Number.isFinite\<close> checks (guidance, LoRA strengths) is only copied and
  compared by the code modelled here, and is a rational.
\<close>

datatype jsnum = Num int | NaN

text \<open>Truthiness of a string-or-null value: \<open>null\<close>, \<open>undefined\<close> and \<open>''\<close> are falsy.\<close>

fun truthy :: "string option \<Rightarrow> bool" where
  "truthy None = False"
| "truthy (Some s) = (s \<noteq> [])"

text \<open>Truthiness of a number-or-null value: \<open>null\<close>, \<open>0\<close> and \<open>NaN\<close> are falsy.\<close>

fun truthyNum :: "jsnum option \<Rightarrow> bool" where
  "truthyNum None = False"
| "truthyNum (Some NaN) = False"
| "truthyNum (Some (Num n)) = (n \<noteq> 0)"

text \<open>\<open>a || b\<close> on string-or-null values.\<close>

definition orElse :: "string option \<Rightarrow> string option \<Rightarrow> string option" where
  "orElse a b = (if truthy a then a else b)"

text \<open>\<open>Array.prototype.indexOf\<close>: the first position of a value, \<open>None\<close> for \<open>-1\<close>.\<close>

fun indexOf :: "'a list \<Rightarrow> 'a \<Rightarrow> nat option" where
  "indexOf [] v = None"
| "indexOf (x # xs) v = (if x = v then Some 0 else map_option Suc (indexOf xs v))"

text \<open>\<open>String.prototype.includes\<close>: the needle occurs as a contiguous run.\<close>

definition str_includes :: "string \<Rightarrow> string \<Rightarrow> bool" where
  "str_includes s needle =
     list_ex (\<lambda>i. take (length needle) (drop i s) = needle) [0..<Suc (length s)]"

text \<open>The value of \<open>--angles-360-video\<close>: absent, the bare flag (\<open>true\<close>), or a path.\<close>

datatype flag_or_path = Unset | Flag | Path string

fun truthyFlag :: "flag_or_path \<Rightarrow> bool" where
  "truthyFlag Unset = False"
| "truthyFlag Flag = True"
| "truthyFlag (Path p) = (p \<noteq> [])"

section \<open>The options object\<close>

record options =
  prompt :: "string option"
  outputPath :: "string option"
  model :: "string option"
  width :: jsnum
  height :: jsnum
  count :: jsnum
  json :: bool
  quiet :: bool
  timeout :: jsnum
  tokenType :: "string option"
  steps :: "jsnum option"
  guidance :: "rat option"
  outputFormat :: "string option"
  sampler :: "string option"
  scheduler :: "string option"
  loras :: "string list"
  loraStrengths :: "rat list"
  multiAngle :: bool
  angles360 :: bool
  azimuth :: "string option"
  elevation :: "string option"
  distance :: "string option"
  angleStrength :: "rat option"
  angleDescription :: "string option"
  seed :: "jsnum option"
  lastSeed :: bool
  seedStrategy :: "string option"
  video :: bool
  videoWorkflow :: "string option"
  fps :: jsnum
  duration :: jsnum
  frames :: "jsnum option"
  autoResizeVideoAssets :: "bool option"
  estimateVideoCost :: bool
  angles360Video :: flag_or_path
  refImage :: "string option"
  refImageEnd :: "string option"
  refAudio :: "string option"
  refVideo :: "string option"
  contextImages :: "string list"
  lastImagePath :: "string option"
  videoModel :: "string option"

text \<open>The literal the script starts from (lines 213-254), before any argument is read.\<close>

definition initialOptions :: options where
  "initialOptions =
     \<lparr> prompt = None, outputPath = None, model = None,
       width = Num 512, height = Num 512, count = Num 1,
       json = False, quiet = False, timeout = Num 30000,
       tokenType = None, steps = None, guidance = None, outputFormat = None,
       sampler = None, scheduler = None, loras = [], loraStrengths = [],
       multiAngle = False, angles360 = False,
       azimuth = Some ''front'', elevation = Some ''eye-level'', distance = Some ''medium'',
       angleStrength = None, angleDescription = Some [],
       seed = None, lastSeed = False, seedStrategy = None,
       video = False, videoWorkflow = None, fps = Num 16, duration = Num 5, frames = None,
       autoResizeVideoAssets = None, estimateVideoCost = False, angles360Video = Unset,
       refImage = None, refImageEnd = None, refAudio = None, refVideo = None,
       contextImages = [], lastImagePath = None, videoModel = None \<rparr>"

text \<open>
  A failed check writes its lines to the error stream with \<open>console.error\<close> and ends the
  process with \<open>process.exit(1)\<close>.  The model returns the lines written.
\<close>

type_synonym failure = "string list"

section \<open>Multi-angle LoRA normalisation (lines 659-693) and the LoRA checks (lines 709-718)\<close>

text \<open>
  Lines 659-668: strengths given without any LoRA id.  More than one is an error; a single
  one becomes the angle strength unless \<open>--angle-strength\<close> was given, and the list is
  emptied.
\<close>

definition loneStrength :: "options \<Rightarrow> failure + options" where
  "loneStrength opts =
     (if length (loras opts) = 0 \<and> length (loraStrengths opts) > 0 then
        if length (loraStrengths opts) > 1 then
          Inl [''Error: --lora-strengths requires explicit --loras when using --multi-angle.'']
        else
          Inr ((if angleStrength opts = None
                then opts\<lparr>angleStrength := Some (loraStrengths opts ! 0)\<rparr>
                else opts) \<lparr>loraStrengths := []\<rparr>)
      else Inr opts)"

text \<open>
  Lines 669-671: the guidance default of the multi-angle mode.  The model name is set by
  then (lines 640-646).
\<close>

definition angleGuidance :: "bool \<Rightarrow> options \<Rightarrow> options" where
  "angleGuidance cliSet_guidance opts =
     (if \<not> cliSet_guidance \<and> guidance opts = None then
        opts\<lparr>guidance :=
          Some (if str_includes (case model opts of Some m \<Rightarrow> m | None \<Rightarrow> []) ''lightning''
                then 1 else 4)\<rparr>
      else opts)"

text \<open>Lines 672-674: the default angle strength.\<close>

definition defaultAngleStrength :: "options \<Rightarrow> options" where
  "defaultAngleStrength opts =
     (if angleStrength opts = None then opts\<lparr>angleStrength := Some (9 / 10)\<rparr> else opts)"

text \<open>
  Lines 676-684: make sure the LoRA \<open>multiple_angles\<close> is listed; the result carries
  \<open>multiAngleIndex\<close>.  A strength is appended only when strengths are listed already.
\<close>

definition ensureAngleLora :: "rat \<Rightarrow> options \<Rightarrow> nat \<times> options" where
  "ensureAngleLora multiAngleStrength opts =
     (case indexOf (loras opts) ''multiple_angles'' of
        Some i \<Rightarrow> (i, opts)
      | None \<Rightarrow>
          (let opts1 = opts\<lparr>loras := loras opts @ [''multiple_angles'']\<rparr>
           in (length (loras opts1) - 1,
               if length (loraStrengths opts1) > 0
               then opts1\<lparr>loraStrengths := loraStrengths opts1 @ [multiAngleStrength]\<rparr>
               else opts1)))"

text \<open>
  Lines 686-692: with no strengths listed, every LoRA gets one (the angle strength for
  \<open>multiple_angles\<close>, 1.0 for the others).  With as many strengths as ids, the entry at
  \<open>multiAngleIndex\<close> is filled in only if it is \<open>undefined\<close> or \<open>null\<close>.  The entries
  are numbers, so that happens only past the end of the list, where the assignment would
  extend the array (the holes are written 0 here); \<open>multiAngleIndex_in_range\<close> below
  shows that the index is never past the end.
\<close>

definition fillStrengths :: "rat \<Rightarrow> nat \<Rightarrow> options \<Rightarrow> options" where
  "fillStrengths multiAngleStrength multiAngleIndex opts =
     (if length (loraStrengths opts) = 0 \<and> length (loras opts) > 0 then
        opts\<lparr>loraStrengths :=
          map (\<lambda>id. if id = ''multiple_angles'' then multiAngleStrength else 1) (loras opts)\<rparr>
      else if length (loraStrengths opts) = length (loras opts) then
        (if multiAngleIndex < length (loraStrengths opts) then opts
         else opts\<lparr>loraStrengths :=
                loraStrengths opts @ replicate (multiAngleIndex - length (loraStrengths opts)) 0
                  @ [multiAngleStrength]\<rparr>)
      else opts)"

text \<open>Lines 659-693 in order.\<close>

definition multiAngleLoras :: "bool \<Rightarrow> options \<Rightarrow> failure + options" where
  "multiAngleLoras cliSet_guidance opts =
     (case loneStrength opts of
        Inl e \<Rightarrow> Inl e
      | Inr opts1 \<Rightarrow>
          (let opts2 = defaultAngleStrength (angleGuidance cliSet_guidance opts1);
               multiAngleStrength = (case angleStrength opts2 of Some s \<Rightarrow> s | None \<Rightarrow> 0);
               (multiAngleIndex, opts3) = ensureAngleLora multiAngleStrength opts2
           in Inr (fillStrengths multiAngleStrength multiAngleIndex opts3)))"

text \<open>Lines 709-718: the LoRA checks every run goes through after the multi-angle block.\<close>

definition checkLoras :: "options \<Rightarrow> failure + options" where
  "checkLoras opts =
     (if length (loraStrengths opts) > 0 \<and> length (loras opts) = 0 then
        Inl [''Error: --lora-strength requires at least one --lora.'']
      else if length (loraStrengths opts) > 0 \<and> length (loras opts) > 0 \<and>
              length (loraStrengths opts) \<noteq> length (loras opts) then
        Inl [''Error: --lora-strengths count must match --loras count.'']
      else Inr opts)"

text \<open>The multi-angle normalisation has succeeded when both steps let the run go on.\<close>

definition normalizeAngleLoras :: "bool \<Rightarrow> options \<Rightarrow> failure + options" where
  "normalizeAngleLoras cliSet_guidance opts =
     (case multiAngleLoras cliSet_guidance opts of
        Inl e \<Rightarrow> Inl e
      | Inr opts' \<Rightarrow> checkLoras opts')"


section \<open>The generation client's events\<close>

text \<open>
  The client is an event emitter.  Its registry is the list of \<open>(event, handler)\<close> pairs
  in the order of the \<open>client.on\<close> calls; a handler is a closure, named here after the
  function that creates it (and, for \<open>runImageEditProjectWithEvents\<close>, the number of the
  call that created it).  \<open>removeClientListener\<close> (lines 957-963) calls \<open>off\<close> or
  \<open>removeListener\<close>, which take out the most recently added instance.
\<close>

datatype event_name = JOB_COMPLETED | JOB_FAILED | PROJECT_PROGRESS

datatype handler =
  EditOnCompleted nat | EditOnFailed nat | MainOnCompleted | MainOnFailed | MainOnProgress

type_synonym registry = "(event_name \<times> handler) list"

definition removeClientListener :: "event_name \<times> handler \<Rightarrow> registry \<Rightarrow> registry" where
  "removeClientListener l ls = rev (remove1 l (rev ls))"

text \<open>The payload of a \<open>JOB_COMPLETED\<close> and of a \<open>JOB_FAILED\<close> event, as the handlers read it.\<close>

record completion_data =
  d_projectId :: "string option"
  d_imageUrl :: "string option"
  d_videoUrl :: "string option"
  d_seed :: "jsnum option"
  d_jobIndex :: "jsnum option"

record failure_data =
  f_projectId :: "string option"
  f_error :: "string option"

text \<open>
  What can happen while an orchestration waits: a client event, the timer set with
  \<open>setTimeout\<close>, and the end of the awaited \<open>create...Project\<close> call, which either
  resolves (with the project's id, if the response has one) or rejects.
\<close>

datatype event =
  JobCompleted completion_data
| JobFailed failure_data
| ProjectProgress "jsnum option"
| TimerFired
| SubmitResolved "string option"
| SubmitRejected string

text \<open>The entries pushed on \<open>results\<close>.\<close>

record job_result =
  r_imageUrl :: "string option"
  r_videoUrl :: "string option"
  r_seed :: "jsnum option"
  r_jobIndex :: "jsnum option"
  r_projectId :: "string option"

text \<open>
  The errors an orchestration ends with: \<open>Timeout after ${timeoutMs / 1000}s\<close>,
  \<open>data.error || 'Job failed'\<close>, and the error thrown by the submission itself.
\<close>

datatype orch_error = TimeoutAfter jsnum | JobError string | Thrown string

datatype 'a promise = Pending | Resolved 'a | Rejected orch_error

datatype submission = Awaiting | Acked | Threw string

text \<open>\<open>completed >= expectedCount\<close>; a comparison with \<open>NaN\<close> is false.\<close>

fun reached :: "nat \<Rightarrow> jsnum \<Rightarrow> bool" where
  "reached c (Num n) = (n \<le> int c)"
| "reached c NaN = False"

definition jobError :: "failure_data \<Rightarrow> orch_error" where
  "jobError d = JobError (if truthy (f_error d) then the (f_error d) else ''Job failed'')"

section \<open>runImageEditProjectWithEvents (lines 1032-1092)\<close>

record edit_state =
  results :: "job_result list"
  completed :: nat
  projectId :: "string option"
  completionPromise :: "(job_result list \<times> string option) promise"
  timeoutArmed :: bool
  listeners :: registry
  submitted :: submission

text \<open>A promise settles once; a later \<open>resolve\<close> or \<open>reject\<close> does nothing.\<close>

definition resolvePromise :: "edit_state \<Rightarrow> edit_state" where
  "resolvePromise st =
     (if completionPromise st = Pending
      then st\<lparr>completionPromise := Resolved (results st, projectId st)\<rparr> else st)"

definition rejectPromise :: "orch_error \<Rightarrow> edit_state \<Rightarrow> edit_state" where
  "rejectPromise e st =
     (if completionPromise st = Pending then st\<lparr>completionPromise := Rejected e\<rparr> else st)"

text \<open>Lines 1069-1073.\<close>

definition cleanup :: "nat \<Rightarrow> edit_state \<Rightarrow> edit_state" where
  "cleanup call st =
     st\<lparr>timeoutArmed := False,
        listeners :=
          removeClientListener (JOB_FAILED, EditOnFailed call)
            (removeClientListener (JOB_COMPLETED, EditOnCompleted call) (listeners st))\<rparr>"

text \<open>Lines 1048-1053: the entry pushed for one completed unit.\<close>

definition editResult :: "completion_data \<Rightarrow> job_result" where
  "editResult d =
     \<lparr>r_imageUrl = d_imageUrl d, r_videoUrl = None, r_seed = d_seed d,
      r_jobIndex = d_jobIndex d, r_projectId = d_projectId d\<rparr>"

text \<open>Lines 1044-1060.\<close>

definition onCompleted :: "nat \<Rightarrow> jsnum \<Rightarrow> completion_data \<Rightarrow> edit_state \<Rightarrow> edit_state" where
  "onCompleted call expectedCount d st =
     (if truthy (projectId st) \<and> d_projectId d \<noteq> projectId st then st
      else
        let st1 = (if \<not> truthy (projectId st) then st\<lparr>projectId := d_projectId d\<rparr> else st);
            st2 = st1\<lparr>results := results st1 @ [editResult d],
                      completed := completed st1 + 1\<rparr>
        in if reached (completed st2) expectedCount
           then resolvePromise (cleanup call st2) else st2)"

text \<open>Lines 1062-1067.\<close>

definition onFailed :: "nat \<Rightarrow> failure_data \<Rightarrow> edit_state \<Rightarrow> edit_state" where
  "onFailed call d st =
     (if truthy (projectId st) \<and> f_projectId d \<noteq> projectId st then st
      else
        let st1 = (if \<not> truthy (projectId st) then st\<lparr>projectId := f_projectId d\<rparr> else st)
        in rejectPromise (jobError d) (cleanup call st1))"

text \<open>
  Lines 1033-1042 and 1075-1081: the state when the function reaches its \<open>await\<close>, on a
  client whose registry was \<open>ls\<close>.
\<close>

definition editStart :: "nat \<Rightarrow> registry \<Rightarrow> edit_state" where
  "editStart call ls =
     \<lparr> results = [], completed = 0, projectId = None, completionPromise = Pending,
       timeoutArmed = True,
       listeners = ls @ [(JOB_COMPLETED, EditOnCompleted call), (JOB_FAILED, EditOnFailed call)],
       submitted = Awaiting \<rparr>"

text \<open>
  One step of the event loop.  An event reaches a handler only while the handler is in the
  registry, the timer callback runs only while the timer is armed, and the awaited call
  ends once (lines 1083-1089).
\<close>

definition editStep :: "nat \<Rightarrow> jsnum \<Rightarrow> jsnum \<Rightarrow> edit_state \<Rightarrow> event \<Rightarrow> edit_state" where
  "editStep call expectedCount timeoutMs st ev =
     (case ev of
        JobCompleted d \<Rightarrow>
          if (JOB_COMPLETED, EditOnCompleted call) \<in> set (listeners st)
          then onCompleted call expectedCount d st else st
      | JobFailed d \<Rightarrow>
          if (JOB_FAILED, EditOnFailed call) \<in> set (listeners st)
          then onFailed call d st else st
      | ProjectProgress p \<Rightarrow> st
      | TimerFired \<Rightarrow>
          if timeoutArmed st
          then rejectPromise (TimeoutAfter timeoutMs) (cleanup call st) else st
      | SubmitResolved pid \<Rightarrow>
          if submitted st = Awaiting
          then st\<lparr>projectId := orElse pid (projectId st), submitted := Acked\<rparr> else st
      | SubmitRejected e \<Rightarrow>
          if submitted st = Awaiting
          then (cleanup call st)\<lparr>submitted := Threw e\<rparr> else st)"

definition editRun :: "nat \<Rightarrow> jsnum \<Rightarrow> jsnum \<Rightarrow> edit_state \<Rightarrow> event list \<Rightarrow> edit_state" where
  "editRun call expectedCount timeoutMs st evs =
     foldl (editStep call expectedCount timeoutMs) st evs"

text \<open>
  The promise the \<open>async\<close> function hands to its caller: pending while the submission is
  awaited, rejected with the submission's error if that throws (line 1088), and
  \<open>completionPromise\<close> otherwise (line 1091).
\<close>

definition editOutcome :: "edit_state \<Rightarrow> (job_result list \<times> string option) promise" where
  "editOutcome st =
     (case submitted st of
        Awaiting \<Rightarrow> Pending
      | Threw e \<Rightarrow> Rejected (Thrown e)
      | Acked \<Rightarrow> completionPromise st)"

text \<open>
  While the function still awaits the submission nobody has a handler on
  \<open>completionPromise\<close> (it is handed out at line 1091 only).  If it is rejected in that
  time, by a failure event or by the timer, the rejection is unhandled and Node ends the
  process with status 1 as soon as the callback has returned.
\<close>

definition unhandled :: "edit_state \<Rightarrow> bool" where
  "unhandled st \<longleftrightarrow>
     submitted st = Awaiting \<and>
     (case completionPromise st of Rejected e \<Rightarrow> True | _ \<Rightarrow> False)"

text \<open>The events of a call, up to the end of the trace or of the process.\<close>

fun editProcess :: "nat \<Rightarrow> jsnum \<Rightarrow> jsnum \<Rightarrow> edit_state \<Rightarrow> event list \<Rightarrow> edit_state" where
  "editProcess call expectedCount timeoutMs st [] = st"
| "editProcess call expectedCount timeoutMs st (ev # evs) =
     (if unhandled (editStep call expectedCount timeoutMs st ev)
      then editStep call expectedCount timeoutMs st ev
      else editProcess call expectedCount timeoutMs (editStep call expectedCount timeoutMs st ev) evs)"

section \<open>The orchestration in main (lines 1412-1451)\<close>

record main_state =
  resultsM :: "job_result list"
  completedJobs :: nat
  completionPromiseM :: "unit promise"
  timeoutArmedM :: bool
  listenersM :: registry
  submittedM :: submission

text \<open>
  Lines 1415-1451: the timer and the handlers; the progress handler is registered for a
  video only.  Nothing here is ever taken out of the registry.
\<close>

definition mainStart :: "bool \<Rightarrow> registry \<Rightarrow> main_state" where
  "mainStart isVideo ls =
     \<lparr> resultsM = [], completedJobs = 0, completionPromiseM = Pending, timeoutArmedM = True,
       listenersM = ls @ [(JOB_COMPLETED, MainOnCompleted), (JOB_FAILED, MainOnFailed)]
                      @ (if isVideo then [(PROJECT_PROGRESS, MainOnProgress)] else []),
       submittedM = Awaiting \<rparr>"

definition settleM :: "unit promise \<Rightarrow> main_state \<Rightarrow> main_state" where
  "settleM p st = (if completionPromiseM st = Pending then st\<lparr>completionPromiseM := p\<rparr> else st)"

text \<open>Lines 1422-1428: the entry pushed for one completed unit.\<close>

definition mainResult :: "completion_data \<Rightarrow> job_result" where
  "mainResult d =
     \<lparr>r_imageUrl = d_imageUrl d, r_videoUrl = d_videoUrl d, r_seed = d_seed d,
      r_jobIndex = d_jobIndex d, r_projectId = d_projectId d\<rparr>"

text \<open>Lines 1420-1436.\<close>

definition mainOnCompleted :: "jsnum \<Rightarrow> completion_data \<Rightarrow> main_state \<Rightarrow> main_state" where
  "mainOnCompleted cnt d st =
     (let st1 = st\<lparr>resultsM := resultsM st @ [mainResult d],
                    completedJobs := completedJobs st + 1\<rparr>
      in if reached (completedJobs st1) cnt
         then settleM (Resolved ()) (st1\<lparr>timeoutArmedM := False\<rparr>) else st1)"

text \<open>Lines 1438-1441.\<close>

definition mainOnFailed :: "failure_data \<Rightarrow> main_state \<Rightarrow> main_state" where
  "mainOnFailed d st = settleM (Rejected (jobError d)) (st\<lparr>timeoutArmedM := False\<rparr>)"

definition mainStep :: "jsnum \<Rightarrow> jsnum \<Rightarrow> main_state \<Rightarrow> event \<Rightarrow> main_state" where
  "mainStep cnt timeoutMs st ev =
     (case ev of
        JobCompleted d \<Rightarrow>
          if (JOB_COMPLETED, MainOnCompleted) \<in> set (listenersM st)
          then mainOnCompleted cnt d st else st
      | JobFailed d \<Rightarrow>
          if (JOB_FAILED, MainOnFailed) \<in> set (listenersM st)
          then mainOnFailed d st else st
      | ProjectProgress p \<Rightarrow> st
      | TimerFired \<Rightarrow>
          if timeoutArmedM st
          then settleM (Rejected (TimeoutAfter timeoutMs)) (st\<lparr>timeoutArmedM := False\<rparr>)
          else st
      | SubmitResolved pid \<Rightarrow>
          if submittedM st = Awaiting then st\<lparr>submittedM := Acked\<rparr> else st
      | SubmitRejected e \<Rightarrow>
          if submittedM st = Awaiting then st\<lparr>submittedM := Threw e\<rparr> else st)"

definition mainRun :: "jsnum \<Rightarrow> jsnum \<Rightarrow> main_state \<Rightarrow> event list \<Rightarrow> main_state" where
  "mainRun cnt timeoutMs st evs = foldl (mainStep cnt timeoutMs) st evs"

text \<open>
  What \<open>await completionPromise\<close> (line 1606) sees: the submission's error if the awaited
  \<open>create...Project\<close> call threw first, otherwise the promise.
\<close>

definition mainOutcome :: "main_state \<Rightarrow> unit promise" where
  "mainOutcome st =
     (case submittedM st of
        Awaiting \<Rightarrow> Pending
      | Threw e \<Rightarrow> Rejected (Thrown e)
      | Acked \<Rightarrow> completionPromiseM st)"

text \<open>The \<open>JOB_COMPLETED\<close> payloads of a trace, in the order of arrival.\<close>

fun completionsOf :: "event list \<Rightarrow> completion_data list" where
  "completionsOf [] = []"
| "completionsOf (JobCompleted d # evs) = d # completionsOf evs"
| "completionsOf (ev # evs) = completionsOf evs"

section \<open>Plugin configuration and request objects\<close>

text \<open>
  The part of the OpenClaw plugin configuration (\<open>openclawConfig\<close>, lines 193-209 and
  540) that the code modelled here reads; the object itself may be \<open>null\<close>.
\<close>

record model_defaults =
  md_steps :: "jsnum option"
  md_guidance :: "rat option"

record plugin_config =
  defaultImageModel :: "string option"
  defaultEditModel :: "string option"
  defaultVideoWorkflow :: "string option"
  videoModels :: "string \<Rightarrow> string option"
  modelDefaults :: "(string \<Rightarrow> model_defaults option) option"
  configSeedStrategy :: "string option"

text \<open>
  Lines 119-124.  \<open>config.modelDefaults[modelId]\<close> is a property lookup on a plain
  object: a key the object does not hold itself is looked up in \<open>Object.prototype\<close>,
  where \<open>__proto__\<close> gives the prototype itself, an object with neither \<open>steps\<close> nor
  \<open>guidance\<close>, and every other inherited key gives a function, which is not an object.
\<close>

definition getModelDefaults :: "string option \<Rightarrow> plugin_config option \<Rightarrow> model_defaults option" where
  "getModelDefaults modelId config =
     (case config of
        None \<Rightarrow> None
      | Some c \<Rightarrow>
          (case modelDefaults c of
             None \<Rightarrow> None
           | Some table \<Rightarrow>
               if \<not> truthy modelId then None
               else (case table (the modelId) of
                       Some entry \<Rightarrow> Some entry
                     | None \<Rightarrow> if the modelId = ''__proto__''
                               then Some \<lparr>md_steps = None, md_guidance = None\<rparr> else None)))"

text \<open>
  The argument of \<open>createImageEditProject\<close> and of \<open>createVideoProject\<close>.  A property the
  code leaves out is \<open>None\<close>; a buffer is named by the path or URL it was read from.
\<close>

record edit_config =
  e_modelId :: "string option"
  e_positivePrompt :: string
  e_contextImages :: "string list"
  e_numberOfMedia :: jsnum
  e_width :: jsnum
  e_height :: jsnum
  e_steps :: jsnum
  e_guidance :: rat
  e_tokenType :: string
  e_waitForCompletion :: "bool option"
  e_outputFormat :: "string option"
  e_sampler :: "string option"
  e_scheduler :: "string option"
  e_loras :: "string list option"
  e_loraStrengths :: "rat list option"
  e_seed :: "jsnum option"

record video_config =
  v_modelId :: "string option"
  v_positivePrompt :: "string option"
  v_negativePrompt :: string
  v_stylePrompt :: string
  v_numberOfMedia :: jsnum
  v_referenceImage :: "string option"
  v_referenceImageEnd :: "string option"
  v_referenceAudio :: "string option"
  v_referenceVideo :: "string option"
  v_fps :: jsnum
  v_width :: jsnum
  v_height :: jsnum
  v_tokenType :: string
  v_waitForCompletion :: bool
  v_outputFormat :: "string option"
  v_autoResizeVideoAssets :: "bool option"
  v_frames :: "jsnum option"
  v_duration :: "jsnum option"
  v_seed :: "jsnum option"
  v_steps :: "jsnum option"
  v_guidance :: "rat option"

datatype job = EditJob edit_config | VideoJob video_config

section \<open>Multi-angle prompts (lines 126-148 and 184-191)\<close>

definition MULTI_ANGLE_AZIMUTHS :: "(string \<times> string) list" where
  "MULTI_ANGLE_AZIMUTHS =
     [(''front'', ''front view''), (''front-right'', ''front-right quarter view''),
      (''right'', ''right side view''), (''back-right'', ''back-right quarter view''),
      (''back'', ''back view''), (''back-left'', ''back-left quarter view''),
      (''left'', ''left side view''), (''front-left'', ''front-left quarter view'')]"

definition MULTI_ANGLE_ELEVATIONS :: "(string \<times> string) list" where
  "MULTI_ANGLE_ELEVATIONS =
     [(''low-angle'', ''low-angle shot''), (''eye-level'', ''eye-level shot''),
      (''elevated'', ''elevated shot''), (''high-angle'', ''high-angle shot'')]"

definition MULTI_ANGLE_DISTANCES :: "(string \<times> string) list" where
  "MULTI_ANGLE_DISTANCES =
     [(''close-up'', ''close-up''), (''medium'', ''medium shot''), (''wide'', ''wide shot'')]"

text \<open>\<open>table.find((a) => a.key === key)?.prompt\<close>.\<close>

definition findPrompt :: "(string \<times> string) list \<Rightarrow> string option \<Rightarrow> string option" where
  "findPrompt table key = (case key of None \<Rightarrow> None | Some k \<Rightarrow> map_of table k)"

text \<open>\<open>parts.join(' ')\<close>.\<close>

fun joinWith :: "string \<Rightarrow> string list \<Rightarrow> string" where
  "joinWith sep [] = []"
| "joinWith sep [x] = x"
| "joinWith sep (x # y # ys) = x @ sep @ joinWith sep (y # ys)"

definition buildMultiAnglePrompt ::
  "string option \<Rightarrow> string option \<Rightarrow> string option \<Rightarrow> string option \<Rightarrow> string" where
  "buildMultiAnglePrompt az el di description =
     joinWith '' ''
       (map the (filter truthy
          [Some ''<sks>'', findPrompt MULTI_ANGLE_AZIMUTHS az,
           findPrompt MULTI_ANGLE_ELEVATIONS el, findPrompt MULTI_ANGLE_DISTANCES di])
        @ (if truthy description then [the description] else []))"

section \<open>runMultiAngleFlow (lines 1094-1340)\<close>

text \<open>
  Decimal digits of a natural number, for \<open>`-${i + 1}`\<close> and \<open>`segment-${i + 1}.mp4`\<close>.
\<close>

definition digitChar :: "nat \<Rightarrow> char" where
  "digitChar n = char_of (48 + n)"

function decimal :: "nat \<Rightarrow> string" where
  "decimal n = (if n < 10 then [digitChar n] else decimal (n div 10) @ [digitChar (n mod 10)])"
  by pat_completeness auto
termination
  by (relation "measure id") auto

declare decimal.simps [simp del]

text \<open>
  What the flow leaves behind: the files written (in order), the jobs handed to the client
  with how each one ended, the calls of \<open>buildConcatVideoFromClips\<close>, and the client's
  registry.
\<close>

datatype job_status = Succeeded | Failed | Unsettled

record world =
  w_files :: "string list"
  w_jobs :: "(job \<times> job_status) list"
  w_concat :: "(string \<times> string list) list"
  w_listeners :: registry

text \<open>
  What the flow cannot decide by itself: whether the reference image can be read, the
  events that arrive during the \<open>k\<close>-th angle job, whether a download from a URL works,
  the temporary directory \<open>mkdtempSync\<close> makes for the clips, how the \<open>i\<close>-th
  \<open>createVideoProject\<close> call ends (it rejects, or it resolves with or without a first
  video URL), and whether ffmpeg is there and whether it succeeds.
\<close>

record env =
  readable :: "string \<Rightarrow> bool"
  angleEvents :: "nat \<Rightarrow> event list"
  downloadOk :: "string \<Rightarrow> bool"
  clipDir :: string
  segmentJob :: "nat \<Rightarrow> string + string option"
  ffmpegAvailable :: bool
  ffmpegRuns :: bool

text \<open>
  How the flow can end other than by success.  An unreadable reference image, a rejected
  angle job, \<open>azimuth.replace\<close> on \<open>null\<close>, a failed download, a rejected or empty
  segment job are exceptions that reach the \<open>catch\<close> of \<open>main\<close> (lines
  1729-1739); no frames (line 1238) and ffmpeg trouble (lines 969, 1027) call
  \<open>process.exit(1)\<close> on the spot, and an angle job that is rejected before its submission
  has returned ends the process through the unhandled rejection.  An angle job whose
  promise never settles keeps the flow waiting for ever.
\<close>

datatype flow_error =
  ContextUnreadable string
| AngleJobFailed orch_error
| UnhandledRejection orch_error
| TypeErrorThrown
| DownloadFailed string
| SegmentJobFailed string
| NoVideoUrl
| NoFrames
| FfmpegFailed
| NeverSettles

record output_config =
  oc_dir :: string
  oc_prefix :: string
  oc_ext :: string

record angle_result =
  a_azimuth :: "string option"
  a_prompt :: string
  a_urls :: "string list"
  a_seeds :: "jsnum option list"

text \<open>
  \<open>join(dir, name)\<close> of \<open>node:path\<close> on a POSIX system: the arguments that are not
  empty are put together with \<open>/\<close> and the result is normalised, that is, empty and
  \<open>.\<close> segments go, \<open>..\<close> takes the segment before it away (above the start of a
  relative path it stays), and an empty result is \<open>.\<close>.
\<close>

fun splitSlash :: "string \<Rightarrow> string list" where
  "splitSlash [] = [[]]"
| "splitSlash (c # cs) =
     (if c = CHR ''/'' then [] # splitSlash cs
      else (case splitSlash cs of [] \<Rightarrow> [[c]] | s # ss \<Rightarrow> (c # s) # ss))"

definition normalizeStep :: "bool \<Rightarrow> string list \<Rightarrow> string \<Rightarrow> string list" where
  "normalizeStep allowAboveRoot res seg =
     (if seg = [] \<or> seg = ''.'' then res
      else if seg = ''..'' then
        (if res \<noteq> [] \<and> last res \<noteq> ''..'' then butlast res
         else if allowAboveRoot then res @ [''..''] else res)
      else res @ [seg])"

definition normalizePath :: "string \<Rightarrow> string" where
  "normalizePath path =
     (if path = [] then ''.''
      else
        let isAbsolute = (hd path = CHR ''/'');
            trailingSeparator = (last path = CHR ''/'');
            body = joinWith ''/'' (foldl (normalizeStep (\<not> isAbsolute)) [] (splitSlash path))
        in if body = [] then (if isAbsolute then ''/'' else if trailingSeparator then ''./'' else ''.'')
           else (if isAbsolute then ''/'' else []) @ body @ (if trailingSeparator then ''/'' else []))"

definition joinPath :: "string \<Rightarrow> string \<Rightarrow> string" where
  "joinPath dir name =
     (if dir = [] \<and> name = [] then ''.''
      else normalizePath (joinWith ''/'' (filter (\<lambda>part. part \<noteq> []) [dir, name])))"

text \<open>\<open>azimuth.replace(/[^a-z0-9-]/gi, '-')\<close>.\<close>

definition safeChar :: "char \<Rightarrow> char" where
  "safeChar c =
     (let n = (of_char c :: nat)
      in if (97 \<le> n \<and> n \<le> 122) \<or> (65 \<le> n \<and> n \<le> 90) \<or> (48 \<le> n \<and> n \<le> 57) \<or> n = 45
         then c else CHR ''-'')"

text \<open>Lines 1150-1179.\<close>

definition angleEditConfig ::
  "plugin_config option \<Rightarrow> options \<Rightarrow> string option \<Rightarrow> edit_config" where
  "angleEditConfig config opts az =
     (let md = getModelDefaults (model opts) config;
          lightning = str_includes (case model opts of Some m \<Rightarrow> m | None \<Rightarrow> []) ''lightning''
      in \<lparr> e_modelId = model opts,
            e_positivePrompt =
              buildMultiAnglePrompt az (elevation opts) (distance opts) (angleDescription opts),
            e_contextImages = [contextImages opts ! 0],
            e_numberOfMedia = count opts,
            e_width = width opts,
            e_height = height opts,
            e_steps = (case steps opts of Some s \<Rightarrow> s
                       | None \<Rightarrow> (case Option.bind md md_steps of Some s \<Rightarrow> s
                                   | None \<Rightarrow> if lightning then Num 4 else Num 20)),
            e_guidance = (case guidance opts of Some g \<Rightarrow> g
                          | None \<Rightarrow> (case Option.bind md md_guidance of Some g \<Rightarrow> g
                                      | None \<Rightarrow> if lightning then 1 else 4)),
            e_tokenType = (if truthy (tokenType opts) then the (tokenType opts) else ''spark''),
            e_waitForCompletion = Some False,
            e_outputFormat = (if truthy (outputFormat opts) then outputFormat opts else None),
            e_sampler = (if truthy (sampler opts) then sampler opts else None),
            e_scheduler = (if truthy (scheduler opts) then scheduler opts else None),
            e_loras = (if length (loras opts) > 0 then Some (loras opts) else None),
            e_loraStrengths =
              (if length (loraStrengths opts) > 0 then Some (loraStrengths opts) else None),
            e_seed = seed opts \<rparr>)"

text \<open>Lines 1195-1198: the file of the \<open>i\<close>-th of the \<open>n\<close> URLs of an angle.\<close>

definition angleFilePath :: "output_config \<Rightarrow> string \<Rightarrow> nat \<Rightarrow> nat \<Rightarrow> string" where
  "angleFilePath oc az n i =
     (let suffix = (if n > 1 then ''-'' @ decimal (i + 1) else []);
          prefix = (if oc_prefix oc \<noteq> [] then oc_prefix oc @ ''-'' else []);
          filename = prefix @ map safeChar az @ suffix @ ''.'' @ oc_ext oc
      in joinPath (oc_dir oc) filename)"

text \<open>
  Lines 1192-1204: the downloads of one angle, \<open>i\<close> counting the URLs already handled.
  The first file of the angle becomes a video frame when a 360 video was asked for.
\<close>

fun saveAngle ::
  "env \<Rightarrow> options \<Rightarrow> output_config \<Rightarrow> string \<Rightarrow> nat \<Rightarrow> nat \<Rightarrow> string list \<Rightarrow>
   world \<times> string list \<Rightarrow> flow_error \<times> world + world \<times> string list" where
  "saveAngle env opts oc az n i [] (w, videoFrames) = Inr (w, videoFrames)"
| "saveAngle env opts oc az n i (url # urls) (w, videoFrames) =
     (let filePath = angleFilePath oc az n i
      in if \<not> downloadOk env url then Inl (DownloadFailed url, w)
         else saveAngle env opts oc az n (i + 1) urls
                (w\<lparr>w_files := w_files w @ [filePath]\<rparr>,
                 if truthyFlag (angles360Video opts) \<and> i = 0
                 then videoFrames @ [filePath] else videoFrames))"

text \<open>
  Lines 1143-1214, for the \<open>k\<close>-th azimuth: the job runs through
  \<open>runImageEditProjectWithEvents\<close> on the events that arrive for it; an unhandled
  rejection ends the process, a rejection handed to the caller is thrown on, the results
  of a resolved promise are downloaded.
\<close>

definition angleStep ::
  "plugin_config option \<Rightarrow> env \<Rightarrow> options \<Rightarrow> output_config option \<Rightarrow> nat \<Rightarrow> string option \<Rightarrow>
   world \<times> string list \<times> angle_result list \<Rightarrow>
   flow_error \<times> world + world \<times> string list \<times> angle_result list" where
  "angleStep config env opts outputConfig k az acc =
     (case acc of (w, videoFrames, angleResults) \<Rightarrow>
      let editConfig = angleEditConfig config opts az;
          st = editProcess k (count opts) (timeout opts) (editStart k (w_listeners w))
                 (angleEvents env k);
          w1 = w\<lparr>w_listeners := listeners st\<rparr>
      in if unhandled st
         then Inl (UnhandledRejection (case completionPromise st of Rejected e \<Rightarrow> e),
                   w1\<lparr>w_jobs := w_jobs w1 @ [(EditJob editConfig, Failed)]\<rparr>)
         else
         case editOutcome st of
           Pending \<Rightarrow>
             Inl (NeverSettles, w1\<lparr>w_jobs := w_jobs w1 @ [(EditJob editConfig, Unsettled)]\<rparr>)
         | Rejected e \<Rightarrow>
             Inl (AngleJobFailed e, w1\<lparr>w_jobs := w_jobs w1 @ [(EditJob editConfig, Failed)]\<rparr>)
         | Resolved (rs, pid) \<Rightarrow>
             (let w2 = w1\<lparr>w_jobs := w_jobs w1 @ [(EditJob editConfig, Succeeded)]\<rparr>;
                  urls = map the (filter truthy (map r_imageUrl rs));
                  seeds = map (\<lambda>r. case r_seed r of Some x \<Rightarrow> Some x | None \<Rightarrow> seed opts) rs;
                  angle = \<lparr>a_azimuth = az, a_prompt = e_positivePrompt editConfig,
                           a_urls = urls, a_seeds = seeds\<rparr>
              in case outputConfig of
                   None \<Rightarrow> Inr (w2, videoFrames, angleResults @ [angle])
                 | Some oc \<Rightarrow>
                     (case az of
                        None \<Rightarrow> Inl (TypeErrorThrown, w2)
                      | Some a \<Rightarrow>
                          (case saveAngle env opts oc a (length urls) 0 urls (w2, videoFrames) of
                             Inl err \<Rightarrow> Inl err
                           | Inr (w3, videoFrames') \<Rightarrow>
                               Inr (w3, videoFrames', angleResults @ [angle])))))"

text \<open>The \<open>for (const azimuth of azimuths)\<close> loop, \<open>k\<close> counting the angles done.\<close>

fun angleLoop ::
  "plugin_config option \<Rightarrow> env \<Rightarrow> options \<Rightarrow> output_config option \<Rightarrow> nat \<Rightarrow>
   string option list \<Rightarrow> world \<times> string list \<times> angle_result list \<Rightarrow>
   flow_error \<times> world + world \<times> string list \<times> angle_result list" where
  "angleLoop config env opts outputConfig k [] acc = Inr acc"
| "angleLoop config env opts outputConfig k (az # azs) acc =
     (case angleStep config env opts outputConfig k az acc of
        Inl err \<Rightarrow> Inl err
      | Inr acc' \<Rightarrow> angleLoop config env opts outputConfig (k + 1) azs acc')"

text \<open>
  JavaScript numbers are IEEE 754 doubles.  \<open>a / b\<close> for an integer \<open>a\<close> and a positive
  count \<open>b\<close> is the exact quotient rounded to 53 significant bits, a tie going to the even
  neighbour: with \<open>2^e\<close> the weight of the last of the 53 bits, the quotient is a multiple
  \<open>m * 2^e\<close> with \<open>2^52 \<le> m < 2^53\<close>, and \<open>m\<close> is rounded to an integer.  (The
  quotients here are far from the overflow and underflow thresholds.)
\<close>

definition pow2 :: "int \<Rightarrow> rat" where
  "pow2 e = (if 0 \<le> e then 2 ^ nat e else 1 / 2 ^ nat (- e))"

definition roundHalfEven :: "rat \<Rightarrow> int" where
  "roundHalfEven m =
     (if m - of_int \<lfloor>m\<rfloor> < 1 / 2 then \<lfloor>m\<rfloor>
      else if 1 / 2 < m - of_int \<lfloor>m\<rfloor> then \<lfloor>m\<rfloor> + 1
      else if even \<lfloor>m\<rfloor> then \<lfloor>m\<rfloor> else \<lfloor>m\<rfloor> + 1)"

text \<open>The exponent \<open>g\<close> with \<open>2^g \<le> a / b < 2^(g + 1)\<close>, for positive \<open>a\<close> and \<open>b\<close>.\<close>

definition quotientExponent :: "int \<Rightarrow> int \<Rightarrow> int" where
  "quotientExponent a b =
     (if pow2 (bitlen a - bitlen b) \<le> of_int a / of_int b
      then bitlen a - bitlen b else bitlen a - bitlen b - 1)"

definition jsDivide :: "int \<Rightarrow> nat \<Rightarrow> rat" where
  "jsDivide a b =
     (if a = 0 then 0
      else of_int (sgn a)
           * of_int (roundHalfEven (of_int \<bar>a\<bar> / of_nat b / pow2 (quotientExponent \<bar>a\<bar> (int b) - 52)))
           * pow2 (quotientExponent \<bar>a\<bar> (int b) - 52))"

text \<open>\<open>Math.round\<close>: the nearest integer, a tie going up.\<close>

definition mathRound :: "rat \<Rightarrow> int" where
  "mathRound x = \<lfloor>x + 1 / 2\<rfloor>"

text \<open>
  Lines 1246-1253: the frame count or the duration of every segment.  \<open>Math.max\<close> and
  \<open>Math.round\<close> of \<open>NaN\<close> are \<open>NaN\<close>.
\<close>

definition segmentFrames :: "options \<Rightarrow> nat \<Rightarrow> jsnum option" where
  "segmentFrames opts segmentCount =
     (case frames opts of
        Some (Num f) \<Rightarrow>
          if f \<noteq> 0 then Some (Num (max 17 (mathRound (jsDivide f segmentCount))))
          else None
      | _ \<Rightarrow> None)"

definition segmentDuration :: "options \<Rightarrow> nat \<Rightarrow> jsnum" where
  "segmentDuration opts segmentCount =
     (if truthyNum (frames opts) then duration opts
      else case duration opts of
             Num d \<Rightarrow> Num (max 1 (mathRound (jsDivide d segmentCount)))
           | NaN \<Rightarrow> NaN)"

text \<open>Lines 1242-1245 and 1254.\<close>

definition VIDEO_WORKFLOW_DEFAULT_i2v :: string where
  "VIDEO_WORKFLOW_DEFAULT_i2v = ''wan_v2.2-14b-fp8_i2v_lightx2v''"

definition videoModelId :: "plugin_config option \<Rightarrow> options \<Rightarrow> string" where
  "videoModelId config opts =
     the (orElse (videoModel opts)
            (orElse (case config of None \<Rightarrow> None | Some c \<Rightarrow> videoModels c ''i2v'')
               (Some VIDEO_WORKFLOW_DEFAULT_i2v)))"

definition videoPrompt :: "options \<Rightarrow> string" where
  "videoPrompt opts =
     the (orElse (angleDescription opts) (orElse (prompt opts) (Some ''smooth camera rotation'')))"

text \<open>Lines 1258-1287: the request of segment \<open>i\<close>.\<close>

definition clipConfig ::
  "plugin_config option \<Rightarrow> options \<Rightarrow> string list \<Rightarrow> nat \<Rightarrow> video_config" where
  "clipConfig config opts videoFrames i =
     (let segmentCount = length videoFrames;
          defaults = getModelDefaults (Some (videoModelId config opts)) config;
          videoSteps = (case steps opts of Some s \<Rightarrow> Some s
                        | None \<Rightarrow> Option.bind defaults md_steps);
          videoGuidance = (case guidance opts of Some g \<Rightarrow> Some g
                           | None \<Rightarrow> Option.bind defaults md_guidance);
          startPath = videoFrames ! i;
          endPath = videoFrames ! ((i + 1) mod length videoFrames)
      in \<lparr> v_modelId = Some (videoModelId config opts),
            v_positivePrompt = Some (videoPrompt opts),
            v_negativePrompt = [],
            v_stylePrompt = [],
            v_numberOfMedia = Num 1,
            v_referenceImage = Some startPath,
            v_referenceImageEnd = Some endPath,
            v_referenceAudio = None,
            v_referenceVideo = None,
            v_fps = fps opts,
            v_width = width opts,
            v_height = height opts,
            v_tokenType = (if truthy (tokenType opts) then the (tokenType opts) else ''spark''),
            v_waitForCompletion = True,
            v_outputFormat = None,
            v_autoResizeVideoAssets = autoResizeVideoAssets opts,
            v_frames = segmentFrames opts segmentCount,
            v_duration = (if truthyNum (segmentFrames opts segmentCount) then None
                          else Some (segmentDuration opts segmentCount)),
            v_seed = None,
            v_steps = (if truthyNum videoSteps then videoSteps else None),
            v_guidance = videoGuidance \<rparr>)"

text \<open>Line 1293: the file of the clip of segment \<open>i\<close>.\<close>

definition clipPathOf :: "env \<Rightarrow> nat \<Rightarrow> string" where
  "clipPathOf env i = joinPath (clipDir env) (''segment-'' @ decimal (i + 1) @ ''.mp4'')"

text \<open>
  Lines 1258-1295, one turn of the segment loop: the request, the awaited
  \<open>createVideoProject\<close> call, the check of the URL, the download; \<open>clipPaths\<close> collects the
  downloaded clips.
\<close>

definition segmentStep ::
  "plugin_config option \<Rightarrow> env \<Rightarrow> options \<Rightarrow> string list \<Rightarrow> nat \<Rightarrow>
   world \<times> string list \<Rightarrow> flow_error \<times> world + world \<times> string list" where
  "segmentStep config env opts videoFrames i acc =
     (case acc of (w, clipPaths) \<Rightarrow>
      let cfg = clipConfig config opts videoFrames i
      in case segmentJob env i of
           Inl e \<Rightarrow> Inl (SegmentJobFailed e, w\<lparr>w_jobs := w_jobs w @ [(VideoJob cfg, Failed)]\<rparr>)
         | Inr clipUrl \<Rightarrow>
             if \<not> truthy clipUrl
             then Inl (NoVideoUrl, w\<lparr>w_jobs := w_jobs w @ [(VideoJob cfg, Failed)]\<rparr>)
             else
               (let w1 = w\<lparr>w_jobs := w_jobs w @ [(VideoJob cfg, Succeeded)]\<rparr>
                in if \<not> downloadOk env (the clipUrl) then Inl (DownloadFailed (the clipUrl), w1)
                   else Inr (w1\<lparr>w_files := w_files w1 @ [clipPathOf env i]\<rparr>,
                             clipPaths @ [clipPathOf env i])))"

text \<open>Lines 1257-1296: the loop over the indices still to do.\<close>

fun segmentLoop ::
  "plugin_config option \<Rightarrow> env \<Rightarrow> options \<Rightarrow> string list \<Rightarrow> nat list \<Rightarrow>
   world \<times> string list \<Rightarrow> flow_error \<times> world + world \<times> string list" where
  "segmentLoop config env opts videoFrames [] acc = Inr acc"
| "segmentLoop config env opts videoFrames (i # is) acc =
     (case segmentStep config env opts videoFrames i acc of
        Inl err \<Rightarrow> Inl err
      | Inr acc' \<Rightarrow> segmentLoop config env opts videoFrames is acc')"

text \<open>\<open>outputPath.replace(/\.mp4$/i, '')\<close>.\<close>

definition stripMp4 :: "string \<Rightarrow> string" where
  "stripMp4 path =
     (let n = length path - 4; ending = drop n path
      in if length path \<ge> 4 \<and> ending ! 0 = CHR ''.'' \<and>
            (ending ! 1 = CHR ''m'' \<or> ending ! 1 = CHR ''M'') \<and>
            (ending ! 2 = CHR ''p'' \<or> ending ! 2 = CHR ''P'') \<and> ending ! 3 = CHR ''4''
         then take n path else path)"

text \<open>
  Lines 1010-1030: \<open>buildConcatVideoFromClips\<close>.  Its call is recorded; without ffmpeg it
  ends the process before anything is written, otherwise it writes the list of clips and
  runs ffmpeg, which writes the video or fails.
\<close>

definition buildConcatVideoFromClips ::
  "env \<Rightarrow> string \<Rightarrow> string list \<Rightarrow> world \<Rightarrow> flow_error \<times> world + world" where
  "buildConcatVideoFromClips env outPath clips w =
     (let w1 = w\<lparr>w_concat := w_concat w @ [(outPath, clips)]\<rparr>
      in if \<not> ffmpegAvailable env then Inl (FfmpegFailed, w1)
         else
           (let w2 = w1\<lparr>w_files := w_files w1 @ [stripMp4 outPath @ ''.concat.txt'']\<rparr>
            in if \<not> ffmpegRuns env then Inl (FfmpegFailed, w2)
               else Inr (w2\<lparr>w_files := w_files w2 @ [outPath]\<rparr>)))"

text \<open>Lines 1235-1302: the 360 video, built from the frames the angle loop has saved.\<close>

definition videoStage ::
  "plugin_config option \<Rightarrow> env \<Rightarrow> options \<Rightarrow> string option \<Rightarrow> string list \<Rightarrow> world \<Rightarrow>
   flow_error \<times> world + world" where
  "videoStage config env opts videoOutputPath videoFrames w =
     (if \<not> truthy videoOutputPath then Inr w
      else if length videoFrames = 0 then Inl (NoFrames, w)
      else case segmentLoop config env opts videoFrames [0..<length videoFrames] (w, []) of
             Inl err \<Rightarrow> Inl err
           | Inr (w1, clipPaths) \<Rightarrow>
               buildConcatVideoFromClips env (the videoOutputPath) clipPaths w1)"

text \<open>Lines 1096-1098.\<close>

definition azimuthsOf :: "options \<Rightarrow> string option list" where
  "azimuthsOf opts =
     (if angles360 opts then map (\<lambda>a. Some (fst a)) MULTI_ANGLE_AZIMUTHS else [azimuth opts])"

text \<open>
  The flow from line 1095 on (the reference image \<open>contextImages[0]\<close> exists: line 624
  has checked it).  \<open>outputConfig\<close> and \<open>videoOutputPath\<close> are the values that
  lines 1103-1139 compute from the output options (with \<open>path\<close> and a fresh temporary
  directory); \<open>w\<close> is the world the flow starts in.
\<close>

definition runMultiAngleFlow ::
  "plugin_config option \<Rightarrow> env \<Rightarrow> options \<Rightarrow> output_config option \<Rightarrow> string option \<Rightarrow> world \<Rightarrow>
   flow_error \<times> world + world \<times> angle_result list" where
  "runMultiAngleFlow config env opts outputConfig videoOutputPath w =
     (if \<not> readable env (contextImages opts ! 0)
      then Inl (ContextUnreadable (contextImages opts ! 0), w)
      else
        case angleLoop config env opts outputConfig 0 (azimuthsOf opts) (w, [], []) of
             Inl err \<Rightarrow> Inl err
           | Inr (w1, videoFrames, angleResults) \<Rightarrow>
               (case videoStage config env opts videoOutputPath videoFrames w1 of
                  Inl err \<Rightarrow> Inl err
                | Inr w2 \<Rightarrow> Inr (w2, angleResults)))"

section \<open>The checks between argument parsing and main (lines 579-856)\<close>

text \<open>
  Every check below ends the process by \<open>console.error\<close> and \<open>process.exit(1)\<close>, whatever
  \<open>options.json\<close> says.  Warnings, which are written to the error stream without ending
  the process (lines 634-636 and 771-773), are left out.  \<open>toLowerCase\<close> is modelled on
  ASCII letters; the strings it is compared with are ASCII.
\<close>

definition lowerChar :: "char \<Rightarrow> char" where
  "lowerChar c =
     (let n = (of_char c :: nat) in if 65 \<le> n \<and> n \<le> 90 then char_of (n + 32) else c)"

definition toLowerCase :: "string \<Rightarrow> string" where
  "toLowerCase s = map lowerChar s"

text \<open>A text between double quotes, for the messages.\<close>

definition quoted :: "string \<Rightarrow> string" where
  "quoted s = CHR 0x22 # s @ [CHR 0x22]"

text \<open>Runs the checks in order; the first failure ends the run.\<close>

fun runChecks :: "(options \<Rightarrow> failure + options) list \<Rightarrow> options \<Rightarrow> failure + options" where
  "runChecks [] opts = Inr opts"
| "runChecks (f # fs) opts =
     (case f opts of Inl e \<Rightarrow> Inl e | Inr opts' \<Rightarrow> runChecks fs opts')"

text \<open>
  The flags of \<open>cliSet\<close> that the checks read, and \<open>timeoutFromConfig\<close> (line 541).
\<close>

record cli_set =
  cliSet_steps :: bool
  cliSet_guidance :: bool
  cliSet_timeout :: bool
  timeoutFromConfig :: bool

text \<open>Lines 579-586.\<close>

definition checkTokenType :: "options \<Rightarrow> failure + options" where
  "checkTokenType opts =
     (if truthy (tokenType opts) then
        (let token = toLowerCase (the (tokenType opts))
         in if token \<noteq> ''spark'' \<and> token \<noteq> ''sogni''
            then Inl [''Error: --token-type must be '' @ quoted ''spark'' @ '' or '' @ quoted ''sogni'' @ ''.'']
            else Inr (opts\<lparr>tokenType := Some token\<rparr>))
      else Inr opts)"

text \<open>Lines 58-64.\<close>

definition normalizeSeedStrategy :: "string option \<Rightarrow> string option" where
  "normalizeSeedStrategy v =
     (if \<not> truthy v then None
      else let normalized = toLowerCase (the v)
           in if normalized = ''random'' then Some ''random''
              else if normalized = ''prompt-hash'' \<or> normalized = ''prompt_hash''
              then Some ''prompt-hash'' else None)"

text \<open>Lines 588-595.\<close>

definition checkSeedStrategy :: "options \<Rightarrow> failure + options" where
  "checkSeedStrategy opts =
     (if truthy (seedStrategy opts) then
        (let normalizedStrategy = normalizeSeedStrategy (seedStrategy opts)
         in if \<not> truthy normalizedStrategy
            then Inl [''Error: --seed-strategy must be '' @ quoted ''random'' @ '' or ''
                   @ quoted ''prompt-hash'' @ ''.'']
            else Inr (opts\<lparr>seedStrategy := normalizedStrategy\<rparr>))
      else Inr opts)"

text \<open>
  Lines 597-600; \<open>Number.isFinite\<close> is false for \<open>NaN\<close> and for \<open>null\<close>.  (The same check
  for the guidance, lines 602-605, cannot fail here: a guidance is a finite number in
  this model.)
\<close>

definition checkSteps :: "cli_set \<Rightarrow> options \<Rightarrow> failure + options" where
  "checkSteps cliSet opts =
     (if cliSet_steps cliSet \<and> (case steps opts of Some (Num n) \<Rightarrow> False | _ \<Rightarrow> True)
      then Inl [''Error: --steps must be a number.'']
      else Inr opts)"

section \<open>The multi-angle block (lines 607-693)\<close>

text \<open>
  Lines 150-171, the aliases, and lines 173-182.  \<open>\s\<close> is modelled on the ASCII white
  space characters.
\<close>

definition MULTI_ANGLE_AZIMUTH_ALIASES :: "(string \<times> string) list" where
  "MULTI_ANGLE_AZIMUTH_ALIASES =
     [(''front-right quarter'', ''front-right''), (''front right quarter'', ''front-right''),
      (''back-right quarter'', ''back-right''), (''back right quarter'', ''back-right''),
      (''back-left quarter'', ''back-left''), (''back left quarter'', ''back-left''),
      (''front-left quarter'', ''front-left''), (''front left quarter'', ''front-left'')]"

definition MULTI_ANGLE_ELEVATION_ALIASES :: "(string \<times> string) list" where
  "MULTI_ANGLE_ELEVATION_ALIASES =
     [(''low angle'', ''low-angle''), (''eye level'', ''eye-level''),
      (''high angle'', ''high-angle'')]"

definition MULTI_ANGLE_DISTANCE_ALIASES :: "(string \<times> string) list" where
  "MULTI_ANGLE_DISTANCE_ALIASES =
     [(''close up'', ''close-up''), (''medium shot'', ''medium''), (''wide shot'', ''wide'')]"

definition isSpace :: "char \<Rightarrow> bool" where
  "isSpace c = (let n = (of_char c :: nat) in n = 32 \<or> (9 \<le> n \<and> n \<le> 13))"

text \<open>
  \<open>.replace(/\s+/g, ' ')\<close>: every run of white space becomes one blank; \<open>inRun\<close> says
  that the character before was white space.
\<close>

fun collapseRun :: "bool \<Rightarrow> string \<Rightarrow> string" where
  "collapseRun inRun [] = []"
| "collapseRun inRun (c # cs) =
     (if isSpace c then (if inRun then collapseRun True cs else CHR '' '' # collapseRun True cs)
      else c # collapseRun False cs)"

definition collapseSpaces :: "string \<Rightarrow> string" where
  "collapseSpaces s = collapseRun False s"

definition trim :: "string \<Rightarrow> string" where
  "trim s = rev (dropWhile isSpace (rev (dropWhile isSpace s)))"

definition joinKeys :: "string list \<Rightarrow> string" where
  "joinKeys keys = joinWith '', '' keys"

definition normalizeMultiAngleValue ::
  "string option \<Rightarrow> (string \<times> string) list \<Rightarrow> string list \<Rightarrow> string \<Rightarrow>
   failure + string option" where
  "normalizeMultiAngleValue v aliases allowedKeys label =
     (if \<not> truthy v then Inr None
      else
        let normalized =
              trim (collapseSpaces
                (map (\<lambda>c. if c = CHR ''_'' then CHR ''-'' else c) (toLowerCase (the v))));
            aliased = (if truthy (map_of aliases normalized) then the (map_of aliases normalized)
                       else normalized)
        in if aliased \<notin> set allowedKeys
           then Inl [''Error: Invalid '' @ label @ '' '' @ quoted (the v) @ ''. Valid options: ''
                       @ joinKeys allowedKeys]
           else Inr (Some aliased))"

text \<open>Lines 608-627.\<close>

definition multiAngleRequirements :: "options \<Rightarrow> failure + options" where
  "multiAngleRequirements opts =
     (if video opts then Inl [''Error: --multi-angle is only for image editing.'']
      else if truthyFlag (angles360Video opts) \<and> \<not> angles360 opts
      then Inl [''Error: --angles-360-video requires --angles-360.'']
      else if truthyFlag (angles360Video opts) \<and> count opts \<noteq> Num 1
      then Inl [''Error: --angles-360-video requires --count 1.'']
      else
        let opts1 = (if truthy (lastImagePath opts) \<and> length (contextImages opts) = 0
                     then opts\<lparr>contextImages := contextImages opts @ [the (lastImagePath opts)],
                               lastImagePath := None\<rparr>
                     else opts)
        in if length (contextImages opts1) = 0
           then Inl [''Error: --multi-angle requires a reference image (--context or --last-image).'']
           else Inr opts1)"

text \<open>Lines 628-638.\<close>

definition multiAngleKeys :: "options \<Rightarrow> failure + options" where
  "multiAngleKeys opts =
     (case (if \<not> angles360 opts
            then normalizeMultiAngleValue (azimuth opts) MULTI_ANGLE_AZIMUTH_ALIASES
                   (map fst MULTI_ANGLE_AZIMUTHS) ''azimuth''
            else Inr (azimuth opts)) of
        Inl e \<Rightarrow> Inl e
      | Inr az \<Rightarrow>
          (case normalizeMultiAngleValue (elevation opts) MULTI_ANGLE_ELEVATION_ALIASES
                  (map fst MULTI_ANGLE_ELEVATIONS) ''elevation'' of
             Inl e \<Rightarrow> Inl e
           | Inr el \<Rightarrow>
               (case normalizeMultiAngleValue (distance opts) MULTI_ANGLE_DISTANCE_ALIASES
                       (map fst MULTI_ANGLE_DISTANCES) ''distance'' of
                  Inl e \<Rightarrow> Inl e
                | Inr di \<Rightarrow> Inr (opts\<lparr>azimuth := az, elevation := el, distance := di\<rparr>))))"

text \<open>Lines 640-658.\<close>

definition multiAngleDefaults :: "options \<Rightarrow> failure + options" where
  "multiAngleDefaults opts =
     (if truthy (model opts) \<and> \<not> str_includes (the (model opts)) ''qwen_image_edit_2511''
      then Inl [''Error: --multi-angle requires a Qwen Image Edit 2511 model.'']
      else
        let opts1 = (if \<not> truthy (model opts)
                     then opts\<lparr>model := Some ''qwen_image_edit_2511_fp8_lightning''\<rparr> else opts);
            opts2 = (if \<not> truthy (outputFormat opts1)
                     then opts1\<lparr>outputFormat := Some ''jpg''\<rparr> else opts1);
            opts3 = (if \<not> truthy (sampler opts2) then opts2\<lparr>sampler := Some ''euler''\<rparr> else opts2);
            opts4 = (if \<not> truthy (scheduler opts3)
                     then opts3\<lparr>scheduler := Some ''simple''\<rparr> else opts3)
        in Inr (if \<not> truthy (angleDescription opts4) \<and> truthy (prompt opts4)
                then opts4\<lparr>angleDescription := prompt opts4\<rparr> else opts4))"

text \<open>Lines 607-693.\<close>

definition multiAngleBlock :: "cli_set \<Rightarrow> options \<Rightarrow> failure + options" where
  "multiAngleBlock cliSet opts =
     (if multiAngle opts
      then runChecks [multiAngleRequirements, multiAngleKeys, multiAngleDefaults,
                      multiAngleLoras (cliSet_guidance cliSet)] opts
      else Inr opts)"


section \<open>The checks of lines 695-856\<close>

text \<open>Lines 695-707.\<close>

definition checkOutputFormat :: "options \<Rightarrow> failure + options" where
  "checkOutputFormat opts =
     (if truthy (outputFormat opts) then
        (let normalized = toLowerCase (the (outputFormat opts));
             opts1 = opts\<lparr>outputFormat := Some (if normalized = ''jpeg'' then ''jpg'' else normalized)\<rparr>
         in if video opts1 then
              (if outputFormat opts1 \<noteq> Some ''mp4''
               then Inl [''Error: Video output format must be '' @ quoted ''mp4'' @ ''.'']
               else Inr opts1)
            else if the (outputFormat opts1) \<notin> set [''png'', ''jpg'']
            then Inl [''Error: Image output format must be '' @ quoted ''png'' @ '' or ''
                        @ quoted ''jpg'' @ ''.'']
            else Inr opts1)
      else Inr opts)"

text \<open>Lines 720-743 (lines 709-718 are \<open>checkLoras\<close>).\<close>

definition checkImageOnly :: "options \<Rightarrow> failure + options" where
  "checkImageOnly opts =
     (if video opts \<and> length (loras opts) > 0
      then Inl [''Error: --lora options are image-only.'']
      else if video opts \<and> (truthy (sampler opts) \<or> truthy (scheduler opts))
      then Inl [''Error: --sampler/--scheduler are image-only options.'']
      else if \<not> video opts \<and> autoResizeVideoAssets opts \<noteq> None
      then Inl [''Error: --auto-resize-assets is only valid with --video.'']
      else if estimateVideoCost opts \<and> \<not> video opts
      then Inl [''Error: --estimate-video-cost requires --video.'']
      else if truthyFlag (angles360Video opts) \<and> \<not> angles360 opts
      then Inl [''Error: --angles-360-video requires --angles-360.'']
      else Inr opts)"

text \<open>Lines 25-34.\<close>

definition normalizeVideoWorkflow :: "string option \<Rightarrow> string option" where
  "normalizeVideoWorkflow v =
     (if \<not> truthy v then None
      else let normalized = toLowerCase (the v)
           in if normalized = ''t2v'' \<or> normalized = ''text-to-video'' then Some ''t2v''
              else if normalized = ''i2v'' \<or> normalized = ''image-to-video'' then Some ''i2v''
              else if normalized = ''s2v'' \<or> normalized = ''sound-to-video'' then Some ''s2v''
              else if normalized = ''animate-move'' \<or> normalized = ''animate_move''
              then Some ''animate-move''
              else if normalized = ''animate-replace'' \<or> normalized = ''animate_replace''
              then Some ''animate-replace''
              else None)"

text \<open>Lines 36-45.\<close>

definition inferVideoWorkflowFromModel :: "string option \<Rightarrow> string option" where
  "inferVideoWorkflowFromModel modelId =
     (if \<not> truthy modelId then None
      else let id = toLowerCase (the modelId)
           in if str_includes id ''animate-move'' then Some ''animate-move''
              else if str_includes id ''animate-replace'' then Some ''animate-replace''
              else if str_includes id ''_t2v'' \<or> str_includes id ''-t2v'' then Some ''t2v''
              else if str_includes id ''_i2v'' \<or> str_includes id ''-i2v'' then Some ''i2v''
              else if str_includes id ''_s2v'' \<or> str_includes id ''-s2v'' then Some ''s2v''
              else None)"

text \<open>Lines 47-52.\<close>

definition inferVideoWorkflowFromAssets :: "options \<Rightarrow> string option" where
  "inferVideoWorkflowFromAssets opts =
     (if truthy (refVideo opts) then Some ''animate-move''
      else if truthy (refAudio opts) then Some ''s2v''
      else if truthy (refImage opts) \<or> truthy (refImageEnd opts) then Some ''i2v''
      else None)"

text \<open>Lines 54-56.\<close>

definition workflowRequiresImage :: "string option \<Rightarrow> bool" where
  "workflowRequiresImage workflow \<longleftrightarrow>
     workflow = Some ''i2v'' \<or> workflow = Some ''s2v'' \<or> workflow = Some ''animate-move'' \<or>
     workflow = Some ''animate-replace''"

text \<open>Lines 745-764.\<close>

definition resolveWorkflow :: "plugin_config option \<Rightarrow> options \<Rightarrow> failure + options" where
  "resolveWorkflow config opts =
     (if video opts then
        (case (if truthy (videoWorkflow opts) then
                 (let normalized = normalizeVideoWorkflow (videoWorkflow opts)
                  in if \<not> truthy normalized
                     then Inl [''Error: Unknown workflow '' @ quoted (the (videoWorkflow opts))
                                 @ ''. Use t2v|i2v|s2v|animate-move|animate-replace.'']
                     else Inr (opts\<lparr>videoWorkflow := normalized\<rparr>))
               else Inr opts) of
           Inl e \<Rightarrow> Inl e
         | Inr opts1 \<Rightarrow>
             (let workflowFromModel = inferVideoWorkflowFromModel (model opts1)
              in if truthy (videoWorkflow opts1) \<and> truthy workflowFromModel \<and>
                    videoWorkflow opts1 \<noteq> workflowFromModel
                 then Inl [''Error: Workflow '' @ quoted (the (videoWorkflow opts1))
                             @ '' does not match model '' @ quoted (the (model opts1)) @ ''.'']
                 else if \<not> truthy (videoWorkflow opts1)
                 then Inr (opts1\<lparr>videoWorkflow :=
                        orElse workflowFromModel
                          (orElse (inferVideoWorkflowFromAssets opts1)
                             (orElse (case config of None \<Rightarrow> None
                                      | Some c \<Rightarrow> defaultVideoWorkflow c)
                                (Some ''t2v'')))\<rparr>)
                 else Inr opts1))
      else Inr opts)"

text \<open>Lines 766-778.\<close>

definition resolveLastImage :: "options \<Rightarrow> failure + options" where
  "resolveLastImage opts =
     (if truthy (lastImagePath opts) then
        Inr ((if video opts then
                (if workflowRequiresImage (videoWorkflow opts) \<and> \<not> truthy (refImage opts)
                 then opts\<lparr>refImage := lastImagePath opts\<rparr> else opts)
              else opts\<lparr>contextImages := contextImages opts @ [the (lastImagePath opts)]\<rparr>)
             \<lparr>lastImagePath := None\<rparr>)
      else Inr opts)"

text \<open>Lines 17-23.\<close>

definition VIDEO_WORKFLOW_DEFAULT_MODELS :: "(string \<times> string) list" where
  "VIDEO_WORKFLOW_DEFAULT_MODELS =
     [(''t2v'', ''wan_v2.2-14b-fp8_t2v_lightx2v''), (''i2v'', ''wan_v2.2-14b-fp8_i2v_lightx2v''),
      (''s2v'', ''wan_v2.2-14b-fp8_s2v_lightx2v''),
      (''animate-move'', ''wan_v2.2-14b-fp8_animate-move_lightx2v''),
      (''animate-replace'', ''wan_v2.2-14b-fp8_animate-replace_lightx2v'')]"

text \<open>Lines 780-796.\<close>

definition applyDefaults :: "plugin_config option \<Rightarrow> cli_set \<Rightarrow> options \<Rightarrow> failure + options" where
  "applyDefaults config cliSet opts =
     (let untouched = (\<not> cliSet_timeout cliSet \<and> \<not> timeoutFromConfig cliSet \<and>
                       timeout opts = Num 30000)
      in if video opts then
           (let cfgModel = (case config of
                              None \<Rightarrow> None
                            | Some c \<Rightarrow> if truthy (videoWorkflow opts)
                                        then videoModels c (the (videoWorkflow opts)) else None);
                opts1 = opts\<lparr>model :=
                          orElse (model opts)
                            (orElse cfgModel
                               (orElse (case videoWorkflow opts of None \<Rightarrow> None
                                        | Some w \<Rightarrow> map_of VIDEO_WORKFLOW_DEFAULT_MODELS w)
                                  (Some ''wan_v2.2-14b-fp8_i2v_lightx2v'')))\<rparr>
            in Inr (if untouched then opts1\<lparr>timeout := Num 300000\<rparr> else opts1))
         else if length (contextImages opts) > 0 then
           (let opts1 = opts\<lparr>model :=
                          orElse (model opts)
                            (orElse (case config of None \<Rightarrow> None | Some c \<Rightarrow> defaultEditModel c)
                               (Some ''qwen_image_edit_2511_fp8_lightning''))\<rparr>
            in Inr (if untouched then opts1\<lparr>timeout := Num 60000\<rparr> else opts1))
         else
           Inr (opts\<lparr>model :=
                  orElse (model opts)
                    (orElse (case config of None \<Rightarrow> None | Some c \<Rightarrow> defaultImageModel c)
                       (Some ''z_image_turbo_bf16''))\<rparr>))"

text \<open>Lines 798-806.\<close>

definition checkPrompt :: "options \<Rightarrow> failure + options" where
  "checkPrompt opts =
     (if \<not> truthy (prompt opts) \<and> \<not> estimateVideoCost opts \<and> \<not> multiAngle opts
      then Inl [''Error: No prompt provided. Use --help for usage.'']
      else if \<not> video opts \<and> (truthy (refAudio opts) \<or> truthy (refVideo opts) \<or>
                               truthy (videoWorkflow opts) \<or> truthyNum (frames opts))
      then Inl [''Error: Video-only options (--workflow/--frames/--ref-audio/--ref-video) require --video'']
      else Inr opts)"

text \<open>Lines 808-842.\<close>

definition checkWorkflowAssets :: "options \<Rightarrow> failure + options" where
  "checkWorkflowAssets opts =
     (if video opts then
        (if videoWorkflow opts = Some ''t2v'' then
           (if truthy (refImage opts) \<or> truthy (refImageEnd opts) \<or> truthy (refAudio opts) \<or>
               truthy (refVideo opts)
            then Inl [''Error: t2v does not accept reference image/audio/video.'']
            else Inr opts)
         else if videoWorkflow opts = Some ''i2v'' then
           (if \<not> truthy (refImage opts) \<and> \<not> truthy (refImageEnd opts)
            then Inl [''Error: i2v requires --ref and/or --ref-end.'']
            else if truthy (refAudio opts) \<or> truthy (refVideo opts)
            then Inl [''Error: i2v does not accept reference audio/video.'']
            else Inr opts)
         else if videoWorkflow opts = Some ''s2v'' then
           (if \<not> truthy (refImage opts) \<or> \<not> truthy (refAudio opts)
            then Inl [''Error: s2v requires both --ref and --ref-audio.'']
            else if truthy (refVideo opts)
            then Inl [''Error: s2v does not accept reference video.'']
            else Inr opts)
         else if videoWorkflow opts = Some ''animate-move'' \<or>
                 videoWorkflow opts = Some ''animate-replace'' then
           (if \<not> truthy (refImage opts) \<or> \<not> truthy (refVideo opts)
            then Inl [''Error: animate workflows require both --ref and --ref-video.'']
            else if truthy (refAudio opts)
            then Inl [''Error: animate workflows do not accept reference audio.'']
            else Inr opts)
         else Inr opts)
      else Inr opts)"

text \<open>
  Lines 844-856.  \<open>getMaxContextImages\<close> comes from the client library; it is a parameter
  here.
\<close>

definition checkContextImages :: "(string \<Rightarrow> nat) \<Rightarrow> options \<Rightarrow> failure + options" where
  "checkContextImages getMaxContextImages opts =
     (if length (contextImages opts) > 0 \<and> \<not> video opts then
        (let maxImages = getMaxContextImages (the (model opts))
         in if maxImages = 0
            then Inl [''Error: Model '' @ the (model opts) @ '' does not support context images.'',
                      ''Try: qwen_image_edit_2511_fp8 or qwen_image_edit_2511_fp8_lightning'']
            else if length (contextImages opts) > maxImages
            then Inl [''Error: Model '' @ the (model opts) @ '' supports max '' @ decimal maxImages
                        @ '' context images, got '' @ decimal (length (contextImages opts))]
            else Inr opts)
      else Inr opts)"

text \<open>Lines 579-856 in order.\<close>

definition checkOptions ::
  "(string \<Rightarrow> nat) \<Rightarrow> plugin_config option \<Rightarrow> cli_set \<Rightarrow> options \<Rightarrow> failure + options" where
  "checkOptions getMaxContextImages config cliSet =
     runChecks
       [checkTokenType, checkSeedStrategy, checkSteps cliSet, multiAngleBlock cliSet,
        checkOutputFormat, checkLoras, checkImageOnly, resolveWorkflow config, resolveLastImage,
        applyDefaults config cliSet, checkPrompt, checkWorkflowAssets,
        checkContextImages getMaxContextImages]"

section \<open>The seed derived from the request (lines 70-98)\<close>

subsection \<open>SHA-256, the digest behind \<open>createHash('sha256')\<close>\<close>

text \<open>
  The digest of Node's \<open>crypto\<close> module, written out after the standard: it works on
  32-bit words, and a message is a list of bytes, each a number below 256.  The round
  constants are the first 32 bits of the fractional parts of the cube roots of the first
  64 primes, the initial state those of the square roots of the first 8 primes.
\<close>

definition roundConstants :: "32 word list" where
  "roundConstants =
     [1116352408, 1899447441, 3049323471, 3921009573, 961987163, 1508970993,
      2453635748, 2870763221, 3624381080, 310598401, 607225278, 1426881987,
      1925078388, 2162078206, 2614888103, 3248222580, 3835390401, 4022224774,
      264347078, 604807628, 770255983, 1249150122, 1555081692, 1996064986,
      2554220882, 2821834349, 2952996808, 3210313671, 3336571891, 3584528711,
      113926993, 338241895, 666307205, 773529912, 1294757372, 1396182291,
      1695183700, 1986661051, 2177026350, 2456956037, 2730485921, 2820302411,
      3259730800, 3345764771, 3516065817, 3600352804, 4094571909, 275423344,
      430227734, 506948616, 659060556, 883997877, 958139571, 1322822218,
      1537002063, 1747873779, 1955562222, 2024104815, 2227730452, 2361852424,
      2428436474, 2756734187, 3204031479, 3329325298]"

definition initialState :: "32 word list" where
  "initialState =
     [1779033703, 3144134277, 1013904242, 2773480762, 1359893119, 2600822924,
      528734635, 1541459225]"

definition rotr :: "nat \<Rightarrow> 32 word \<Rightarrow> 32 word" where
  "rotr n x = drop_bit n x OR push_bit (32 - n) x"

definition chooseBits :: "32 word \<Rightarrow> 32 word \<Rightarrow> 32 word \<Rightarrow> 32 word" where
  "chooseBits x y z = (x AND y) XOR (NOT x AND z)"

definition majorityBits :: "32 word \<Rightarrow> 32 word \<Rightarrow> 32 word \<Rightarrow> 32 word" where
  "majorityBits x y z = (x AND y) XOR (x AND z) XOR (y AND z)"

definition bigSigma0 :: "32 word \<Rightarrow> 32 word" where
  "bigSigma0 x = rotr 2 x XOR rotr 13 x XOR rotr 22 x"

definition bigSigma1 :: "32 word \<Rightarrow> 32 word" where
  "bigSigma1 x = rotr 6 x XOR rotr 11 x XOR rotr 25 x"

definition smallSigma0 :: "32 word \<Rightarrow> 32 word" where
  "smallSigma0 x = rotr 7 x XOR rotr 18 x XOR drop_bit 3 x"

definition smallSigma1 :: "32 word \<Rightarrow> 32 word" where
  "smallSigma1 x = rotr 17 x XOR rotr 19 x XOR drop_bit 10 x"

text \<open>The \<open>k\<close> low bytes of a number, most significant first.\<close>

definition bigEndian :: "nat \<Rightarrow> nat \<Rightarrow> nat list" where
  "bigEndian k n = map (\<lambda>i. (n div 256 ^ (k - 1 - i)) mod 256) [0..<k]"

text \<open>
  Padding: the byte 128, zero bytes up to 56 modulo 64, and the length of the message in
  bits as eight bytes.
\<close>

definition padMessage :: "nat list \<Rightarrow> nat list" where
  "padMessage msg =
     msg @ [128] @ replicate ((119 - length msg mod 64) mod 64) 0
       @ bigEndian 8 (8 * length msg)"

text \<open>Four bytes as one word, and the words of a byte list.\<close>

definition wordOf :: "nat \<Rightarrow> nat \<Rightarrow> nat \<Rightarrow> nat \<Rightarrow> 32 word" where
  "wordOf a b c d = word_of_nat (((a * 256 + b) * 256 + c) * 256 + d)"

fun wordsOf :: "nat list \<Rightarrow> 32 word list" where
  "wordsOf (a # b # c # d # rest) = wordOf a b c d # wordsOf rest"
| "wordsOf rest = []"

function blocksOf :: "32 word list \<Rightarrow> 32 word list list" where
  "blocksOf ws = (if length ws < 16 then [] else take 16 ws # blocksOf (drop 16 ws))"
  by pat_completeness auto
termination
  by (relation "measure length") auto

declare blocksOf.simps [simp del]

text \<open>
  The message schedule, built newest word first: each further word comes from the
  sixteen before it, and there is one for each round constant after the first sixteen.
\<close>

definition nextWord :: "32 word list \<Rightarrow> 32 word" where
  "nextWord r = smallSigma1 (r ! 1) + r ! 6 + smallSigma0 (r ! 14) + r ! 15"

fun expandSchedule :: "'a list \<Rightarrow> 32 word list \<Rightarrow> 32 word list" where
  "expandSchedule [] r = r"
| "expandSchedule (k # ks) r = expandSchedule ks (nextWord r # r)"

definition schedule :: "32 word list \<Rightarrow> 32 word list" where
  "schedule block = rev (expandSchedule (drop 16 roundConstants) (rev block))"

text \<open>One round on the eight working variables.\<close>

definition shiftIn :: "32 word \<Rightarrow> 32 word \<Rightarrow> 32 word list \<Rightarrow> 32 word list" where
  "shiftIn t1 t2 v = [t1 + t2, v ! 0, v ! 1, v ! 2, v ! 3 + t1, v ! 4, v ! 5, v ! 6]"

definition roundStep :: "32 word list \<Rightarrow> 32 word \<times> 32 word \<Rightarrow> 32 word list" where
  "roundStep v kw =
     shiftIn (v ! 7 + bigSigma1 (v ! 4) + chooseBits (v ! 4) (v ! 5) (v ! 6) + fst kw + snd kw)
             (bigSigma0 (v ! 0) + majorityBits (v ! 0) (v ! 1) (v ! 2)) v"

definition compress :: "32 word list \<Rightarrow> 32 word list \<Rightarrow> 32 word list" where
  "compress state block =
     map2 (+) state (foldl roundStep state (zip roundConstants (schedule block)))"

definition sha256 :: "nat list \<Rightarrow> nat list" where
  "sha256 msg =
     concat (map (\<lambda>w. bigEndian 4 (unat w))
       (foldl compress initialState (blocksOf (wordsOf (padMessage msg)))))"

subsection \<open>\<open>JSON.stringify\<close> of the payload\<close>

text \<open>
  A string of the program is modelled by its UTF-8 bytes, which is what \<open>update\<close> feeds
  to the digest.  \<open>JSON.stringify\<close> escapes the quote, the backslash and the control
  characters and leaves every other character as it is, so on a well-formed string the
  escaping can be done byte by byte.
\<close>

definition hexDigit :: "nat \<Rightarrow> char" where
  "hexDigit n = (if n < 10 then char_of (48 + n) else char_of (87 + n))"

definition jsonChar :: "char \<Rightarrow> string" where
  "jsonChar c =
     (let n = (of_char c :: nat)
      in if n = 34 then [CHR 0x5C, CHR 0x22]
         else if n = 92 then [CHR 0x5C, CHR 0x5C]
         else if n = 8 then [CHR 0x5C, CHR ''b'']
         else if n = 12 then [CHR 0x5C, CHR ''f'']
         else if n = 10 then [CHR 0x5C, CHR ''n'']
         else if n = 13 then [CHR 0x5C, CHR ''r'']
         else if n = 9 then [CHR 0x5C, CHR ''t'']
         else if n < 32 then [CHR 0x5C, CHR ''u'', CHR ''0'', CHR ''0'', hexDigit (n div 16), hexDigit (n mod 16)]
         else [c])"

definition jsonString :: "string \<Rightarrow> string" where
  "jsonString s = CHR 0x22 # concat (map jsonChar s) @ [CHR 0x22]"

text \<open>
  Numbers.  An integer is written in decimal (JavaScript does so below \<open>10^21\<close>), \<open>NaN\<close>
  as \<open>null\<close>.  A number with a fraction is written with its decimal digits; this is
  what JavaScript prints for a number that was given with up to 15 significant digits and
  lies between \<open>10^-6\<close> and \<open>10^21\<close>, at most 20 digits are produced.
\<close>

definition jsonInt :: "int \<Rightarrow> string" where
  "jsonInt n = (if n < 0 then CHR ''-'' # decimal (nat (- n)) else decimal (nat n))"

fun jsonNum :: "jsnum \<Rightarrow> string" where
  "jsonNum (Num n) = jsonInt n"
| "jsonNum NaN = ''null''"

fun fractionDigits :: "nat \<Rightarrow> rat \<Rightarrow> string" where
  "fractionDigits 0 r = []"
| "fractionDigits (Suc fuel) r =
     (if r = 0 then []
      else digitChar (nat \<lfloor>r * 10\<rfloor>) # fractionDigits fuel (r * 10 - of_int \<lfloor>r * 10\<rfloor>))"

definition jsonRat :: "rat \<Rightarrow> string" where
  "jsonRat x =
     (if x = of_int \<lfloor>x\<rfloor> then jsonInt \<lfloor>x\<rfloor>
      else (if x < 0 then ''-'' else []) @ decimal (nat \<lfloor>\<bar>x\<bar>\<rfloor>) @ ''.''
             @ fractionDigits 20 (\<bar>x\<bar> - of_int \<lfloor>\<bar>x\<bar>\<rfloor>))"

definition jsonArray :: "string list \<Rightarrow> string" where
  "jsonArray items = ''['' @ joinWith '','' items @ '']''"

definition jsonObject :: "(string \<times> string) list \<Rightarrow> string" where
  "jsonObject props =
     ''{'' @ joinWith '','' (map (\<lambda>(k, v). jsonString k @ '':'' @ v) props) @ ''}''"

text \<open>\<open>a || ''\<close> for a string-or-null value.\<close>

definition orEmpty :: "string option \<Rightarrow> string" where
  "orEmpty a = (if truthy a then the a else [])"

text \<open>
  Lines 71-95: the payload, its properties in the order of the object literal, each with
  its JSON text.
\<close>

definition promptHashPayload :: "options \<Rightarrow> (string \<times> string) list" where
  "promptHashPayload opts =
     [(''prompt'', jsonString (orEmpty (prompt opts))),
      (''model'', jsonString (orEmpty (model opts))),
      (''workflow'', if video opts
                     then (case videoWorkflow opts of None \<Rightarrow> ''null'' | Some w \<Rightarrow> jsonString w)
                     else jsonString ''image''),
      (''width'', jsonNum (width opts)),
      (''height'', jsonNum (height opts)),
      (''azimuth'', jsonString (orEmpty (azimuth opts))),
      (''elevation'', jsonString (orEmpty (elevation opts))),
      (''distance'', jsonString (orEmpty (distance opts))),
      (''angleDescription'', jsonString (orEmpty (angleDescription opts))),
      (''outputFormat'', jsonString (orEmpty (outputFormat opts))),
      (''sampler'', jsonString (orEmpty (sampler opts))),
      (''scheduler'', jsonString (orEmpty (scheduler opts))),
      (''loras'', jsonArray (map jsonString (loras opts))),
      (''loraStrengths'', jsonArray (map jsonRat (loraStrengths opts))),
      (''refImage'', jsonString (orEmpty (refImage opts))),
      (''refImageEnd'', jsonString (orEmpty (refImageEnd opts))),
      (''refAudio'', jsonString (orEmpty (refAudio opts))),
      (''refVideo'', jsonString (orEmpty (refVideo opts))),
      (''contextImages'', jsonArray (map jsonString (contextImages opts))),
      (''autoResizeVideoAssets'',
         (case autoResizeVideoAssets opts of
            None \<Rightarrow> ''null'' | Some b \<Rightarrow> if b then ''true'' else ''false'')),
      (''tokenType'', jsonString (orEmpty (tokenType opts))),
      (''steps'', (case steps opts of None \<Rightarrow> ''null'' | Some n \<Rightarrow> jsonNum n)),
      (''guidance'', (case guidance opts of None \<Rightarrow> ''null'' | Some g \<Rightarrow> jsonRat g))]"

text \<open>\<open>readUInt32BE(0)\<close>: the first four bytes, most significant first.\<close>

definition readUInt32BE :: "nat list \<Rightarrow> nat" where
  "readUInt32BE bytes = foldl (\<lambda>acc b. 256 * acc + b) 0 (take 4 bytes)"

definition bytesOf :: "string \<Rightarrow> nat list" where
  "bytesOf s = map of_char s"

text \<open>Lines 96-97.\<close>

definition computePromptHashSeed :: "options \<Rightarrow> nat" where
  "computePromptHashSeed opts =
     readUInt32BE (sha256 (bytesOf (jsonObject (promptHashPayload opts))))"

section \<open>From the checks to the request (lines 858-883 and 1461-1516)\<close>

text \<open>
  Lines 858-883.  \<open>lastRenderSeed\<close> is the seed found in \<open>last-render.json\<close> (\<open>None\<close>
  when there is no such file or no seed in it), \<open>randomSeed\<close> the number that
  \<open>generateRandomSeed\<close> draws.
\<close>

definition resolveSeed :: "plugin_config option \<Rightarrow> jsnum option \<Rightarrow> nat \<Rightarrow> options \<Rightarrow> options" where
  "resolveSeed config lastRenderSeed randomSeed opts =
     (let opts1 = (if lastSeed opts \<and> truthyNum lastRenderSeed
                   then opts\<lparr>seed := lastRenderSeed\<rparr> else opts)
      in if \<not> estimateVideoCost opts1 \<and> seed opts1 = None then
           (let strategy = orElse (seedStrategy opts1)
                             (orElse (case config of None \<Rightarrow> None
                                      | Some c \<Rightarrow> configSeedStrategy c)
                                (Some ''prompt-hash''));
                normalized = orElse (normalizeSeedStrategy strategy) (Some ''prompt-hash'')
            in opts1\<lparr>seedStrategy := normalized,
                     seed := Some (Num (int (if normalized = Some ''random'' then randomSeed
                                             else computePromptHashSeed opts1)))\<rparr>)
         else opts1)"

text \<open>
  Lines 1461-1514: the object that \<open>main\<close> hands to \<open>createVideoProject\<close> at line 1516.
\<close>

definition videoProjectConfig :: "plugin_config option \<Rightarrow> options \<Rightarrow> video_config" where
  "videoProjectConfig config opts =
     (let modelDefaults = getModelDefaults (model opts) config;
          steps' = (case steps opts of Some s \<Rightarrow> Some s
                    | None \<Rightarrow> Option.bind modelDefaults md_steps);
          guidance' = (case guidance opts of Some g \<Rightarrow> Some g
                       | None \<Rightarrow> Option.bind modelDefaults md_guidance)
      in \<lparr> v_modelId = model opts,
            v_positivePrompt = prompt opts,
            v_negativePrompt = [],
            v_stylePrompt = [],
            v_numberOfMedia = count opts,
            v_referenceImage = (if truthy (refImage opts) then refImage opts else None),
            v_referenceImageEnd = (if truthy (refImageEnd opts) then refImageEnd opts else None),
            v_referenceAudio = (if truthy (refAudio opts) then refAudio opts else None),
            v_referenceVideo = (if truthy (refVideo opts) then refVideo opts else None),
            v_fps = fps opts,
            v_width = width opts,
            v_height = height opts,
            v_tokenType = (if truthy (tokenType opts) then the (tokenType opts) else ''spark''),
            v_waitForCompletion = False,
            v_outputFormat = (if truthy (outputFormat opts) then outputFormat opts else None),
            v_autoResizeVideoAssets = autoResizeVideoAssets opts,
            v_frames = (if truthyNum (frames opts) then frames opts else None),
            v_duration = (if truthyNum (frames opts) then None else Some (duration opts)),
            v_seed = seed opts,
            v_steps = (if truthyNum steps' then steps' else None),
            v_guidance = guidance' \<rparr>)"

text \<open>
  What a run has left behind at some point: the lines on standard output and on the
  error stream, the exit status if the process has ended, and the jobs handed to the
  client.
\<close>

record process_result =
  p_stdout :: "string list"
  p_stderr :: "string list"
  p_exit :: "nat option"
  p_submitted :: "job list"

text \<open>
  The script from line 579 to the call of \<open>main()\<close> at line 1749.  A failed check
  writes its lines to the error stream and ends the process with status 1, whatever
  \<open>options.json\<close> says, before anything is handed to the client; otherwise \<open>main\<close> is
  called with the options as the checks and the seed resolution have left them.  (The
  notices that lines 865-882 write to the error stream are left out.)
\<close>

definition failedCheck :: "failure \<Rightarrow> process_result" where
  "failedCheck lines = \<lparr>p_stdout = [], p_stderr = lines, p_exit = Some 1, p_submitted = []\<rparr>"

definition topLevel ::
  "(string \<Rightarrow> nat) \<Rightarrow> plugin_config option \<Rightarrow> cli_set \<Rightarrow> jsnum option \<Rightarrow> nat \<Rightarrow> options \<Rightarrow>
   process_result + options" where
  "topLevel getMaxContextImages config cliSet lastRenderSeed randomSeed opts =
     (case checkOptions getMaxContextImages config cliSet opts of
        Inl lines \<Rightarrow> Inl (failedCheck lines)
      | Inr checked \<Rightarrow> Inr (resolveSeed config lastRenderSeed randomSeed checked))"

section \<open>Predicates on states and traces used in the statements below\<close>

text \<open>Both handlers of call \<open>call\<close> stand at the end of the registry, after \<open>ls\<close>.\<close>

definition registered :: "nat \<Rightarrow> registry \<Rightarrow> edit_state \<Rightarrow> bool" where
  "registered call ls st \<longleftrightarrow>
     listeners st = ls @ [(JOB_COMPLETED, EditOnCompleted call), (JOB_FAILED, EditOnFailed call)]"

text \<open>
  The invariant of \<open>runImageEditProjectWithEvents\<close>: either nothing has settled and the
  handlers and the timer are in place, or \<open>cleanup\<close> has run.
\<close>

definition edit_inv :: "nat \<Rightarrow> registry \<Rightarrow> edit_state \<Rightarrow> bool" where
  "edit_inv call ls st \<longleftrightarrow>
     (registered call ls st \<and> timeoutArmed st \<and> completionPromise st = Pending \<and>
        (submitted st = Awaiting \<or> submitted st = Acked))
     \<or> (listeners st = ls \<and> \<not> timeoutArmed st)"

text \<open>The completions of a trace that carry the id \<open>p\<close>, in the order of arrival.\<close>

definition matching :: "string \<Rightarrow> event list \<Rightarrow> completion_data list" where
  "matching p evs = filter (\<lambda>d. d_projectId d = Some p) (completionsOf evs)"










text \<open>The world a run of the flow ends in.\<close>

definition flowWorld :: "flow_error \<times> world + world \<times> angle_result list \<Rightarrow> world" where
  "flowWorld r = (case r of Inl (e, w) \<Rightarrow> w | Inr (w, ar) \<Rightarrow> w)"

definition newJobs :: "world \<Rightarrow> world \<Rightarrow> job list" where
  "newJobs w w' = map fst (drop (length (w_jobs w)) (w_jobs w'))"

text \<open>The fields that decide which branch a run takes and whether it carries a frame count.\<close>

definition mode :: "options \<Rightarrow> bool \<times> bool \<times> jsnum option" where
  "mode opts = (video opts, multiAngle opts, frames opts)"

section \<open>Sample events\<close>

text \<open>
  Two units of the project \<open>proj-1\<close>, a unit of another project, a failure of
  \<open>proj-1\<close> and one of the other project; the concrete runs below are built from them.
\<close>

definition unitA :: completion_data where
  "unitA = \<lparr>d_projectId = Some ''proj-1'', d_imageUrl = Some ''https://cdn.example/a.jpg'',
             d_videoUrl = None, d_seed = Some (Num 7), d_jobIndex = Some (Num 0)\<rparr>"

definition unitB :: completion_data where
  "unitB = \<lparr>d_projectId = Some ''proj-1'', d_imageUrl = Some ''https://cdn.example/b.jpg'',
             d_videoUrl = None, d_seed = Some (Num 8), d_jobIndex = Some (Num 1)\<rparr>"

definition foreignUnit :: completion_data where
  "foreignUnit = \<lparr>d_projectId = Some ''proj-2'', d_imageUrl = Some ''https://cdn.example/x.jpg'',
                   d_videoUrl = None, d_seed = Some (Num 9), d_jobIndex = Some (Num 0)\<rparr>"

definition failureA :: failure_data where
  "failureA = \<lparr>f_projectId = Some ''proj-1'', f_error = Some ''worker crashed''\<rparr>"


text \<open>
  A 360 turntable run (\<open>--angles-360 --angles-360-video /tmp/turntable.mp4 -c subject.jpg
  --seed 123 "studio portrait"\<close>), a client for which everything works, and one whose
  second segment job is rejected.
\<close>

definition turntable :: options where
  "turntable = initialOptions
     \<lparr>prompt := Some ''studio portrait'', model := Some ''qwen_image_edit_2511_fp8_lightning'',
      outputFormat := Some ''jpg'', sampler := Some ''euler'', scheduler := Some ''simple'',
      guidance := Some 1, loras := [''multiple_angles''], loraStrengths := [9 / 10],
      multiAngle := True, angles360 := True, angleStrength := Some (9 / 10),
      angleDescription := Some ''studio portrait'', seed := Some (Num 123),
      timeout := Num 60000, angles360Video := Path ''/tmp/turntable.mp4'',
      contextImages := [''subject.jpg'']\<rparr>"

definition turntableOutput :: output_config where
  "turntableOutput = \<lparr>oc_dir = ''/tmp/sogni-angles-1'', oc_prefix = ''angles-360'', oc_ext = ''jpg''\<rparr>"

definition studio :: env where
  "studio =
     \<lparr> readable = (\<lambda>p. True),
       angleEvents = (\<lambda>k. [SubmitResolved (Some ''proj-1''), JobCompleted unitA]),
       downloadOk = (\<lambda>u. True),
       clipDir = ''/tmp/sogni-angles-clips-1'',
       segmentJob = (\<lambda>i. Inr (Some ''https://cdn.example/clip.mp4'')),
       ffmpegAvailable = True,
       ffmpegRuns = True \<rparr>"

definition emptyWorld :: world where
  "emptyWorld = \<lparr>w_files = [], w_jobs = [], w_concat = [], w_listeners = []\<rparr>"

definition brokenStudio :: env where
  "brokenStudio =
     studio\<lparr>segmentJob := (\<lambda>i. if i = 1 then Inl ''worker crashed''
                                else Inr (Some ''https://cdn.example/clip.mp4''))\<rparr>"

text \<open>A client whose third angle job fails after its submission has returned.\<close>

definition crashedStudio :: env where
  "crashedStudio =
     studio\<lparr>angleEvents := (\<lambda>k. if k = 2 then [SubmitResolved (Some ''proj-1''), JobFailed failureA]
                                 else [SubmitResolved (Some ''proj-1''), JobCompleted unitA])\<rparr>"

definition threeFrames :: "string list" where
  "threeFrames = [''/tmp/a/front.jpg'', ''/tmp/a/right.jpg'', ''/tmp/a/back.jpg'']"

text \<open>
  Runs that no flag of \<open>cliSet\<close> has touched, a client library whose edit models take up
  to three context images, and three command lines: \<open>--json -c a.png -c b.png -c c.png
  -c d.png "blend them"\<close>, \<open>--json --video --lora foo "a cat"\<close> and \<open>--json --video
  --width 500 --height 512 "ocean waves"\<close>.
\<close>

definition noFlags :: cli_set where
  "noFlags = \<lparr>cliSet_steps = False, cliSet_guidance = False, cliSet_timeout = False,
              timeoutFromConfig = False\<rparr>"

definition threeImages :: "string \<Rightarrow> nat" where
  "threeImages modelId = 3"

definition crowdedEdit :: options where
  "crowdedEdit = initialOptions
     \<lparr>json := True, prompt := Some ''blend them'',
      contextImages := [''a.png'', ''b.png'', ''c.png'', ''d.png'']\<rparr>"

definition loraVideo :: options where
  "loraVideo = initialOptions
     \<lparr>json := True, video := True, loras := [''foo''], prompt := Some ''a cat''\<rparr>"

definition oddSizeVideo :: options where
  "oddSizeVideo = initialOptions
     \<lparr>json := True, video := True, width := Num 500, height := Num 512,
      prompt := Some ''ocean waves''\<rparr>"

text \<open>
  The options of \<open>--angles-360 --angles-360-video /tmp/turntable.mp4 -c subject.jpg --seed 123
  "studio portrait"\<close> as the argument loop leaves them.
\<close>

definition turntableCli :: options where
  "turntableCli = initialOptions
     \<lparr>prompt := Some ''studio portrait'', multiAngle := True, angles360 := True,
      seed := Some (Num 123), angles360Video := Path ''/tmp/turntable.mp4'',
      contextImages := [''subject.jpg'']\<rparr>"
section \<open>Properties of the multi-angle LoRA normalisation\<close>

lemma indexOf_None: "indexOf xs v = None \<longleftrightarrow> v \<notin> set xs"
  by (induction xs) auto

lemma indexOf_Some_lt: "indexOf xs v = Some i \<Longrightarrow> i < length xs \<and> xs ! i = v"
  by (induction xs arbitrary: i) (auto split: if_splits)

lemma indexOf_Some_mem: "indexOf xs v = Some i \<Longrightarrow> v \<in> set xs"
  using indexOf_None [of xs v] by auto

lemma multiAngleIndex_in_range:
  "ensureAngleLora s opts = (i, opts') \<Longrightarrow>
     i < length (loras opts') \<and> loras opts' ! i = ''multiple_angles''"
  by (auto simp: ensureAngleLora_def Let_def indexOf_None nth_append
           dest: indexOf_Some_lt split: option.splits if_splits)

lemma loneStrength_fields:
  assumes "loneStrength opts = Inr opts1"
  shows "loras opts1 = loras opts"
    and "loraStrengths opts1 = (if loras opts = [] then [] else loraStrengths opts)"
    and "angleStrength opts1 =
           (if angleStrength opts = None \<and> loras opts = [] \<and> loraStrengths opts \<noteq> []
            then Some (loraStrengths opts ! 0) else angleStrength opts)"
  using assms by (auto simp: loneStrength_def split: if_splits)

lemma angleGuidance_fields:
  "loras (angleGuidance g opts) = loras opts"
  "loraStrengths (angleGuidance g opts) = loraStrengths opts"
  "angleStrength (angleGuidance g opts) = angleStrength opts"
  by (simp_all add: angleGuidance_def)

lemma defaultAngleStrength_fields:
  "loras (defaultAngleStrength opts) = loras opts"
  "loraStrengths (defaultAngleStrength opts) = loraStrengths opts"
  "angleStrength (defaultAngleStrength opts) =
     Some (case angleStrength opts of Some a \<Rightarrow> a | None \<Rightarrow> 9 / 10)"
  by (simp_all add: defaultAngleStrength_def split: option.splits)

lemma ensureAngleLora_fields:
  assumes "ensureAngleLora s opts = (i, opts')"
  shows "loras opts' =
           (if ''multiple_angles'' \<in> set (loras opts) then loras opts
            else loras opts @ [''multiple_angles''])"
    and "loraStrengths opts' =
           (if ''multiple_angles'' \<in> set (loras opts) \<or> loraStrengths opts = []
            then loraStrengths opts else loraStrengths opts @ [s])"
    and "angleStrength opts' = angleStrength opts"
  using assms
  by (auto simp: ensureAngleLora_def Let_def indexOf_None dest: indexOf_Some_mem
           split: option.splits if_splits)

lemma fillStrengths_fields:
  assumes "i < length (loras opts)"
  shows "loras (fillStrengths s i opts) = loras opts"
    and "angleStrength (fillStrengths s i opts) = angleStrength opts"
    and "loraStrengths (fillStrengths s i opts) =
           (if loraStrengths opts = []
            then map (\<lambda>id. if id = ''multiple_angles'' then s else 1) (loras opts)
            else loraStrengths opts)"
  using assms by (auto simp: fillStrengths_def)

lemma checkLoras_Inr:
  "checkLoras opts = Inr opts' \<Longrightarrow>
     opts' = opts \<and>
     (loraStrengths opts = [] \<or> length (loraStrengths opts) = length (loras opts))"
  by (auto simp: checkLoras_def split: if_splits)

lemma lightning_model: "str_includes ''qwen_image_edit_2511_fp8_lightning'' ''lightning''"
  by code_simp

text \<open>
  C10, as the code has it.  When the multi-angle normalisation succeeds: the id list
  contains \<open>multiple_angles\<close> (appended once if it was missing, otherwise the list is the
  user's, duplicates included); there are as many strengths as ids; the angle strength is
  the \<open>--angle-strength\<close> value, else a lone \<open>--lora-strength\<close> given without any id,
  else 0.9.  When no per-LoRA strengths were supplied, \<open>multiple_angles\<close> gets the angle
  strength and every other LoRA 1.0; when strengths were supplied for ids that lack
  \<open>multiple_angles\<close>, the angle strength is appended; when the user listed
  \<open>multiple_angles\<close> with strengths, the user's strengths stay as they are.
\<close>

theorem multiAngle_loras_normalized:
  assumes "normalizeAngleLoras g opts = Inr opts'"
  shows "''multiple_angles'' \<in> set (loras opts') \<and>
         loras opts' = (if ''multiple_angles'' \<in> set (loras opts) then loras opts
                        else loras opts @ [''multiple_angles'']) \<and>
         length (loraStrengths opts') = length (loras opts') \<and>
         angleStrength opts' =
           Some (case angleStrength opts of
                   Some a \<Rightarrow> a
                 | None \<Rightarrow> if loras opts = [] \<and> loraStrengths opts \<noteq> []
                            then loraStrengths opts ! 0 else 9 / 10) \<and>
         loraStrengths opts' =
           (if loraStrengths opts = [] \<or> loras opts = [] then
              map (\<lambda>id. if id = ''multiple_angles'' then the (angleStrength opts') else 1)
                  (loras opts')
            else if ''multiple_angles'' \<in> set (loras opts) then loraStrengths opts
            else loraStrengths opts @ [the (angleStrength opts')])"
proof -
  from assms obtain opts1 where l1: "loneStrength opts = Inr opts1"
    by (auto simp: normalizeAngleLoras_def multiAngleLoras_def split: sum.splits)
  define opts2 where "opts2 = defaultAngleStrength (angleGuidance g opts1)"
  define s where "s = (case angleStrength opts2 of Some s \<Rightarrow> s | None \<Rightarrow> 0)"
  obtain i opts3 where e: "ensureAngleLora s opts2 = (i, opts3)"
    by (cases "ensureAngleLora s opts2") auto
  define opts4 where "opts4 = fillStrengths s i opts3"
  from assms l1 e have c: "checkLoras opts4 = Inr opts'"
    by (simp add: normalizeAngleLoras_def multiAngleLoras_def Let_def opts2_def s_def opts4_def)
  note f1 = loneStrength_fields [OF l1]
  have f2: "loras opts2 = loras opts1" "loraStrengths opts2 = loraStrengths opts1"
    "angleStrength opts2 = Some (case angleStrength opts1 of Some a \<Rightarrow> a | None \<Rightarrow> 9 / 10)"
    by (simp_all add: opts2_def defaultAngleStrength_fields angleGuidance_fields)
  note f3 = ensureAngleLora_fields [OF e]
  have ir: "i < length (loras opts3)"
    using multiAngleIndex_in_range [OF e] by simp
  note f4 = fillStrengths_fields [OF ir, of s, folded opts4_def]
  from checkLoras_Inr [OF c] have eq: "opts' = opts4"
    and len: "loraStrengths opts4 = [] \<or> length (loraStrengths opts4) = length (loras opts4)"
    by simp_all
  have sval: "s = (case angleStrength opts of
                   Some a \<Rightarrow> a
                 | None \<Rightarrow> if loras opts = [] \<and> loraStrengths opts \<noteq> []
                            then loraStrengths opts ! 0 else 9 / 10)"
    by (simp add: s_def f2 f1 split: option.splits)
  have as: "angleStrength opts' = Some s"
    by (simp add: eq f4 f3 f2 s_def)
  have main: "''multiple_angles'' \<in> set (loras opts') \<and>
         loras opts' = (if ''multiple_angles'' \<in> set (loras opts) then loras opts
                        else loras opts @ [''multiple_angles'']) \<and>
         length (loraStrengths opts') = length (loras opts') \<and>
         loraStrengths opts' =
           (if loraStrengths opts = [] \<or> loras opts = [] then
              map (\<lambda>id. if id = ''multiple_angles'' then s else 1) (loras opts')
            else if ''multiple_angles'' \<in> set (loras opts) then loraStrengths opts
            else loraStrengths opts @ [s])"
    using len by (auto simp: eq f4 f3 f2 f1 split: if_splits)
  have a1: "angleStrength opts' =
           Some (case angleStrength opts of
                   Some a \<Rightarrow> a
                 | None \<Rightarrow> if loras opts = [] \<and> loraStrengths opts \<noteq> []
                            then loraStrengths opts ! 0 else 9 / 10)"
    using as sval by simp
  have a2: "the (angleStrength opts') = s"
    using as by simp
  from main a1 show ?thesis
    unfolding a2 by blast
qed

text \<open>
  The theorem at \<open>--multi-angle -c subject.jpg --lora film_grain\<close>: the options are those
  that reach line 659, and the run ends with the ids \<open>film_grain, multiple_angles\<close> and
  the strengths 1.0 and 0.9.
\<close>

theorem multiAngle_loras_normalized_witness:
  "map_sum id (\<lambda>r. (loras r, loraStrengths r, angleStrength r))
     (normalizeAngleLoras False
        (initialOptions\<lparr>multiAngle := True, contextImages := [''subject.jpg''],
           model := Some ''qwen_image_edit_2511_fp8_lightning'', outputFormat := Some ''jpg'',
           sampler := Some ''euler'', scheduler := Some ''simple'',
           loras := [''film_grain'']\<rparr>))
   = Inr ([''film_grain'', ''multiple_angles''], [1, 9 / 10], Some (9 / 10))"
proof -
  obtain opts' where h:
    "normalizeAngleLoras False
        (initialOptions\<lparr>multiAngle := True, contextImages := [''subject.jpg''],
           model := Some ''qwen_image_edit_2511_fp8_lightning'', outputFormat := Some ''jpg'',
           sampler := Some ''euler'', scheduler := Some ''simple'',
           loras := [''film_grain'']\<rparr>) = Inr opts'"
    by (simp add: normalizeAngleLoras_def multiAngleLoras_def loneStrength_def
          angleGuidance_def defaultAngleStrength_def ensureAngleLora_def fillStrengths_def
          checkLoras_def initialOptions_def lightning_model Let_def)
  from multiAngle_loras_normalized [OF h]
  have "loras opts' = [''film_grain'', ''multiple_angles''] \<and>
        loraStrengths opts' = [1, 9 / 10] \<and> angleStrength opts' = Some (9 / 10)"
    by (simp add: initialOptions_def)
  then show ?thesis
    unfolding h by simp
qed

text \<open>
  C10 as stated fails in two ways.  At
  \<open>--multi-angle -c subject.jpg --lora multiple_angles --lora-strength 0.5\<close> the strength
  at the position of \<open>multiple_angles\<close> stays 0.5 although the angle strength is 0.9; at
  \<open>--lora multiple_angles --lora multiple_angles\<close> the id is listed twice afterwards.
\<close>

theorem multiAngle_loras_counterexample:
  "map_sum id (\<lambda>r. (loras r, loraStrengths r, angleStrength r))
     (normalizeAngleLoras False
        (initialOptions\<lparr>multiAngle := True, contextImages := [''subject.jpg''],
           model := Some ''qwen_image_edit_2511_fp8_lightning'', outputFormat := Some ''jpg'',
           sampler := Some ''euler'', scheduler := Some ''simple'',
           loras := [''multiple_angles''], loraStrengths := [1 / 2]\<rparr>))
   = Inr ([''multiple_angles''], [1 / 2], Some (9 / 10))
   \<and>
   map_sum id (\<lambda>r. (loras r, loraStrengths r, angleStrength r))
     (normalizeAngleLoras False
        (initialOptions\<lparr>multiAngle := True, contextImages := [''subject.jpg''],
           model := Some ''qwen_image_edit_2511_fp8_lightning'', outputFormat := Some ''jpg'',
           sampler := Some ''euler'', scheduler := Some ''simple'',
           loras := [''multiple_angles'', ''multiple_angles'']\<rparr>))
   = Inr ([''multiple_angles'', ''multiple_angles''], [9 / 10, 9 / 10], Some (9 / 10))"
  by (simp add: normalizeAngleLoras_def multiAngleLoras_def loneStrength_def
        angleGuidance_def defaultAngleStrength_def ensureAngleLora_def fillStrengths_def
        checkLoras_def initialOptions_def lightning_model Let_def)

section \<open>Properties of the two orchestrations\<close>

subsection \<open>Listener bookkeeping\<close>

lemma remove_last_absent: "l \<notin> set ls \<Longrightarrow> removeClientListener l ls = ls"
  by (simp add: removeClientListener_def remove1_idem)

lemma remove_last_snoc: "removeClientListener l (ls @ [l]) = ls"
  by (simp add: removeClientListener_def)

lemma remove_last_snoc2: "l \<noteq> l' \<Longrightarrow> removeClientListener l (ls @ [l, l']) = ls @ [l']"
  by (simp add: removeClientListener_def)

lemma cleanup_registered:
  "registered call ls st \<Longrightarrow> listeners (cleanup call st) = ls \<and> \<not> timeoutArmed (cleanup call st)"
  by (simp add: registered_def cleanup_def remove_last_snoc2 remove_last_snoc)

lemma cleanup_done:
  assumes "(JOB_COMPLETED, EditOnCompleted call) \<notin> set ls" "(JOB_FAILED, EditOnFailed call) \<notin> set ls"
    "listeners st = ls"
  shows "listeners (cleanup call st) = ls \<and> \<not> timeoutArmed (cleanup call st)"
  using assms by (simp add: cleanup_def remove_last_absent)

lemma edit_inv_start: "edit_inv call ls (editStart call ls)"
  by (simp add: edit_inv_def editStart_def registered_def)

lemma edit_inv_step:
  assumes fresh: "(JOB_COMPLETED, EditOnCompleted call) \<notin> set ls" "(JOB_FAILED, EditOnFailed call) \<notin> set ls"
    and inv: "edit_inv call ls st"
  shows "edit_inv call ls (editStep call n t st ev)"
proof -
  from inv consider
    (live) "registered call ls st" "timeoutArmed st" "completionPromise st = Pending"
      "submitted st = Awaiting \<or> submitted st = Acked"
    | (gone) "listeners st = ls" "\<not> timeoutArmed st"
    by (auto simp: edit_inv_def)
  then show ?thesis
  proof cases
    case live
    have c: "listeners (cleanup call st') = ls \<and> \<not> timeoutArmed (cleanup call st')"
      if "listeners st' = listeners st" for st'
      using live(1) that cleanup_registered [of call ls st'] by (simp add: registered_def)
    show ?thesis
    proof (cases ev)
      case (JobCompleted d)
      then show ?thesis using live c
        by (auto simp: editStep_def onCompleted_def Let_def edit_inv_def resolvePromise_def registered_def)
    next
      case (JobFailed d)
      then show ?thesis using live c
        by (auto simp: editStep_def onFailed_def Let_def edit_inv_def rejectPromise_def registered_def)
    next
      case TimerFired
      then show ?thesis using live c
        by (auto simp: editStep_def edit_inv_def rejectPromise_def registered_def)
    next
      case (SubmitRejected e)
      then show ?thesis using live c
        by (auto simp: editStep_def edit_inv_def registered_def)
    qed (use live in \<open>auto simp: editStep_def edit_inv_def registered_def\<close>)
  next
    case gone
    have c: "listeners (cleanup call st') = ls \<and> \<not> timeoutArmed (cleanup call st')"
      if "listeners st' = ls" for st'
      using cleanup_done [OF fresh that] .
    show ?thesis
      by (cases ev) (use gone fresh c in \<open>auto simp: editStep_def edit_inv_def\<close>)
  qed
qed

lemma edit_inv_run:
  assumes "(JOB_COMPLETED, EditOnCompleted call) \<notin> set ls" "(JOB_FAILED, EditOnFailed call) \<notin> set ls"
    and "edit_inv call ls st"
  shows "edit_inv call ls (editRun call n t st evs)"
  using assms(3) unfolding editRun_def
  by (induction evs arbitrary: st) (simp_all add: edit_inv_step [OF assms(1,2)])

lemma edit_inv_settled:
  "edit_inv call ls st \<Longrightarrow> editOutcome st \<noteq> Pending \<Longrightarrow> listeners st = ls \<and> \<not> timeoutArmed st"
  by (auto simp: edit_inv_def editOutcome_def split: submission.splits)

subsection \<open>Runs with a known project id\<close>

lemma completionsOf_snoc:
  "completionsOf (evs @ [ev]) = completionsOf evs @ (case ev of JobCompleted d \<Rightarrow> [d] | _ \<Rightarrow> [])"
  by (induction evs rule: completionsOf.induct) (auto split: event.splits)

lemma editRun_snoc:
  "editRun call n t st (evs @ [ev]) = editStep call n t (editRun call n t st evs) ev"
  by (simp add: editRun_def)

text \<open>One step with a known id: nothing changes, or a matching completion was pushed.\<close>

lemma cleanup_fields:
  "results (cleanup call st) = results st" "completed (cleanup call st) = completed st"
  "projectId (cleanup call st) = projectId st" "submitted (cleanup call st) = submitted st"
  "completionPromise (cleanup call st) = completionPromise st"
  by (simp_all add: cleanup_def)

lemma resolvePromise_fields:
  "results (resolvePromise st) = results st" "completed (resolvePromise st) = completed st"
  "projectId (resolvePromise st) = projectId st" "submitted (resolvePromise st) = submitted st"
  "listeners (resolvePromise st) = listeners st" "timeoutArmed (resolvePromise st) = timeoutArmed st"
  "completionPromise (resolvePromise st) =
     (if completionPromise st = Pending then Resolved (results st, projectId st)
      else completionPromise st)"
  by (simp_all add: resolvePromise_def)

lemma rejectPromise_fields:
  "results (rejectPromise e st) = results st" "completed (rejectPromise e st) = completed st"
  "projectId (rejectPromise e st) = projectId st" "submitted (rejectPromise e st) = submitted st"
  "listeners (rejectPromise e st) = listeners st" "timeoutArmed (rejectPromise e st) = timeoutArmed st"
  "completionPromise (rejectPromise e st) =
     (if completionPromise st = Pending then Rejected e else completionPromise st)"
  by (simp_all add: rejectPromise_def)

lemma editStep_known:
  assumes "truthy (projectId st)" "submitted st \<noteq> Awaiting"
  shows "projectId (editStep call n t st ev) = projectId st \<and>
         submitted (editStep call n t st ev) = submitted st \<and>
         ((results (editStep call n t st ev) = results st \<and>
           completed (editStep call n t st ev) = completed st \<and>
           (completionPromise (editStep call n t st ev) = completionPromise st \<or>
            (\<exists>e. completionPromise (editStep call n t st ev) = Rejected e)))
          \<or> (\<exists>d. ev = JobCompleted d \<and> d_projectId d = projectId st \<and>
                results (editStep call n t st ev) = results st @ [editResult d] \<and>
                completed (editStep call n t st ev) = completed st + 1 \<and>
                (completionPromise (editStep call n t st ev) = completionPromise st \<or>
                 (completionPromise st = Pending \<and>
                  completionPromise (editStep call n t st ev) =
                    Resolved (results st @ [editResult d], projectId st)))))"
  using assms
  by (cases ev)
     (auto simp: editStep_def onCompleted_def onFailed_def Let_def cleanup_fields
        resolvePromise_fields rejectPromise_fields)

lemma subseq_snoc_both: "subseq ds xs \<Longrightarrow> subseq (ds @ [d]) (xs @ [d])"
  by (rule list_emb_append_mono) simp_all

lemma subseq_extend: "subseq ds xs \<Longrightarrow> subseq ds (xs @ ys)"
  by (rule list_emb_prefix)

lemma edit_known_run:
  assumes "truthy (projectId st)" "submitted st \<noteq> Awaiting" "completionPromise st = Pending"
  shows "projectId (editRun call n t st evs) = projectId st \<and>
         submitted (editRun call n t st evs) = submitted st \<and>
         (\<exists>ds. subseq ds (filter (\<lambda>d. d_projectId d = projectId st) (completionsOf evs)) \<and>
               results (editRun call n t st evs) = results st @ map editResult ds \<and>
               completed (editRun call n t st evs) = completed st + length ds) \<and>
         (\<forall>rs pid. completionPromise (editRun call n t st evs) = Resolved (rs, pid) \<longrightarrow>
               pid = projectId st \<and>
               (\<exists>ds. subseq ds (filter (\<lambda>d. d_projectId d = projectId st) (completionsOf evs)) \<and>
                     rs = results st @ map editResult ds))"
proof (induction evs rule: rev_induct)
  case Nil
  show ?case using assms(3) by (simp add: editRun_def)
next
  case (snoc ev evs)
  let ?st' = "editRun call n t st evs"
  let ?st'' = "editStep call n t ?st' ev"
  let ?M = "filter (\<lambda>d. d_projectId d = projectId st) (completionsOf evs)"
  let ?M' = "filter (\<lambda>d. d_projectId d = projectId st) (completionsOf (evs @ [ev]))"
  from snoc.IH obtain ds where
    p: "projectId ?st' = projectId st" and sb: "submitted ?st' = submitted st"
    and ds: "subseq ds ?M" "results ?st' = results st @ map editResult ds"
      "completed ?st' = completed st + length ds"
    and rs: "\<And>rs pid. completionPromise ?st' = Resolved (rs, pid) \<Longrightarrow>
               pid = projectId st \<and> (\<exists>ds. subseq ds ?M \<and> rs = results st @ map editResult ds)"
    by blast
  have ext: "\<exists>ys. ?M' = ?M @ ys"
    by (simp add: completionsOf_snoc)
  have known: "truthy (projectId ?st')" "submitted ?st' \<noteq> Awaiting"
    using assms p sb by simp_all
  note step = editStep_known [OF known, of call n t ev]
  from step have keep: "projectId ?st'' = projectId st" "submitted ?st'' = submitted st"
    using p sb by simp_all
  from step consider
    (same) "results ?st'' = results ?st'" "completed ?st'' = completed ?st'"
      "completionPromise ?st'' = completionPromise ?st' \<or> (\<exists>e. completionPromise ?st'' = Rejected e)"
    | (push) d where "ev = JobCompleted d" "d_projectId d = projectId st"
      "results ?st'' = results ?st' @ [editResult d]" "completed ?st'' = completed ?st' + 1"
      "completionPromise ?st'' = completionPromise ?st' \<or>
       completionPromise ?st'' = Resolved (results ?st' @ [editResult d], projectId ?st')"
    using p by auto
  then show ?case
  proof cases
    case same
    from ext ds(1) have s1: "subseq ds ?M'"
      by (auto intro: subseq_extend)
    have r1: "pid = projectId st \<and> (\<exists>ds. subseq ds ?M' \<and> rs = results st @ map editResult ds)"
      if "completionPromise ?st'' = Resolved (rs, pid)" for rs pid
    proof -
      from that same(3) have "completionPromise ?st' = Resolved (rs, pid)" by auto
      from rs [OF this] obtain ds' where "pid = projectId st" "subseq ds' ?M"
        "rs = results st @ map editResult ds'" by blast
      moreover from ext this(2) have "subseq ds' ?M'" by (auto intro: subseq_extend)
      ultimately show ?thesis by blast
    qed
    have "\<exists>ds. subseq ds ?M' \<and> results ?st'' = results st @ map editResult ds \<and>
               completed ?st'' = completed st + length ds"
      using same(1,2) ds(2,3) s1 by (intro exI [of _ ds]) simp
    moreover from r1 have "\<forall>rs pid. completionPromise ?st'' = Resolved (rs, pid) \<longrightarrow>
        pid = projectId st \<and> (\<exists>ds. subseq ds ?M' \<and> rs = results st @ map editResult ds)"
      by blast
    ultimately show ?thesis
      unfolding editRun_snoc using keep by (intro conjI) assumption+
  next
    case push
    have M': "?M' = ?M @ [d]"
      using push(1,2) by (simp add: completionsOf_snoc)
    have s1: "subseq (ds @ [d]) ?M'"
      unfolding M' using ds(1) by (rule subseq_snoc_both)
    have e1: "results ?st'' = results st @ map editResult (ds @ [d])"
      "completed ?st'' = completed st + length (ds @ [d])"
      using push(3,4) ds(2,3) by simp_all
    have r1: "pid = projectId st \<and> (\<exists>ds. subseq ds ?M' \<and> rs = results st @ map editResult ds)"
      if "completionPromise ?st'' = Resolved (rs, pid)" for rs pid
    proof -
      from push(5) that consider "completionPromise ?st' = Resolved (rs, pid)"
        | "rs = results ?st' @ [editResult d]" "pid = projectId ?st'"
        by auto
      then show ?thesis
      proof cases
        case 1
        from rs [OF this] obtain ds' where "pid = projectId st" "subseq ds' ?M"
          "rs = results st @ map editResult ds'" by blast
        moreover from this(2) have "subseq ds' ?M'" unfolding M' by (rule subseq_extend)
        ultimately show ?thesis by blast
      next
        case 2
        then show ?thesis using s1 e1(1) push(3) p by auto
      qed
    qed
    have "\<exists>ds. subseq ds ?M' \<and> results ?st'' = results st @ map editResult ds \<and>
               completed ?st'' = completed st + length ds"
      using e1 s1 by (intro exI [of _ "ds @ [d]"]) simp
    moreover from r1 have "\<forall>rs pid. completionPromise ?st'' = Resolved (rs, pid) \<longrightarrow>
        pid = projectId st \<and> (\<exists>ds. subseq ds ?M' \<and> rs = results st @ map editResult ds)"
      by blast
    ultimately show ?thesis
      unfolding editRun_snoc using keep by (intro conjI) assumption+
  qed
qed

subsection \<open>Undisturbed runs of runImageEditProjectWithEvents\<close>


lemma editRun_append:
  "editRun call n t st (xs @ ys) = editRun call n t (editRun call n t st xs) ys"
  by (simp add: editRun_def)

lemma completionsOf_Cons: "completionsOf (ev # evs) = completionsOf [ev] @ completionsOf evs"
  by (cases ev) simp_all


lemma matching_Cons: "matching p (ev # evs) = matching p [ev] @ matching p evs"
  unfolding matching_def by (subst completionsOf_Cons) simp








subsection \<open>Undisturbed runs of the orchestration in main\<close>











subsection \<open>C3: completions of another project\<close>

text \<open>
  C3, for \<open>runImageEditProjectWithEvents\<close>.  Once the project id is known, a
  \<open>JOB_COMPLETED\<close> event with another id leaves the whole state as it is, so it is not
  counted and not pushed.  Along any trace that starts with the id known and the submission
  over, the id stays, the entries pushed are completions of that id in their order of
  arrival, \<open>completed\<close> grows by their number, and a resolved promise carries such entries
  only.  While no id is known, the first completion that reaches the handler sets it.
\<close>

theorem edit_correlation_isolation:
  "(truthy (projectId st) \<and> d_projectId d \<noteq> projectId st \<longrightarrow>
      editStep call n t st (JobCompleted d) = st) \<and>
   (truthy (projectId st) \<and> submitted st \<noteq> Awaiting \<and> completionPromise st = Pending \<longrightarrow>
      projectId (editRun call n t st evs) = projectId st \<and>
      (\<exists>ds. subseq ds (filter (\<lambda>d. d_projectId d = projectId st) (completionsOf evs)) \<and>
            results (editRun call n t st evs) = results st @ map editResult ds \<and>
            completed (editRun call n t st evs) = completed st + length ds) \<and>
      (\<forall>rs pid. completionPromise (editRun call n t st evs) = Resolved (rs, pid) \<longrightarrow>
            pid = projectId st \<and>
            (\<exists>ds. subseq ds (filter (\<lambda>d. d_projectId d = projectId st) (completionsOf evs)) \<and>
                  rs = results st @ map editResult ds))) \<and>
   (\<not> truthy (projectId st) \<and> (JOB_COMPLETED, EditOnCompleted call) \<in> set (listeners st) \<longrightarrow>
      projectId (editStep call n t st (JobCompleted d)) = d_projectId d \<and>
      results (editStep call n t st (JobCompleted d)) = results st @ [editResult d] \<and>
      completed (editStep call n t st (JobCompleted d)) = completed st + 1)"
proof -
  have A: "truthy (projectId st) \<and> d_projectId d \<noteq> projectId st \<longrightarrow>
      editStep call n t st (JobCompleted d) = st"
    by (simp add: editStep_def onCompleted_def)
  have B: "truthy (projectId st) \<and> submitted st \<noteq> Awaiting \<and> completionPromise st = Pending \<longrightarrow>
      projectId (editRun call n t st evs) = projectId st \<and>
      (\<exists>ds. subseq ds (filter (\<lambda>d. d_projectId d = projectId st) (completionsOf evs)) \<and>
            results (editRun call n t st evs) = results st @ map editResult ds \<and>
            completed (editRun call n t st evs) = completed st + length ds) \<and>
      (\<forall>rs pid. completionPromise (editRun call n t st evs) = Resolved (rs, pid) \<longrightarrow>
            pid = projectId st \<and>
            (\<exists>ds. subseq ds (filter (\<lambda>d. d_projectId d = projectId st) (completionsOf evs)) \<and>
                  rs = results st @ map editResult ds))"
  proof (rule impI)
    assume "truthy (projectId st) \<and> submitted st \<noteq> Awaiting \<and> completionPromise st = Pending"
    then have k: "truthy (projectId st)" "submitted st \<noteq> Awaiting"
      "completionPromise st = Pending"
      by simp_all
    from edit_known_run [OF k, of call n t evs]
    show "projectId (editRun call n t st evs) = projectId st \<and>
      (\<exists>ds. subseq ds (filter (\<lambda>d. d_projectId d = projectId st) (completionsOf evs)) \<and>
            results (editRun call n t st evs) = results st @ map editResult ds \<and>
            completed (editRun call n t st evs) = completed st + length ds) \<and>
      (\<forall>rs pid. completionPromise (editRun call n t st evs) = Resolved (rs, pid) \<longrightarrow>
            pid = projectId st \<and>
            (\<exists>ds. subseq ds (filter (\<lambda>d. d_projectId d = projectId st) (completionsOf evs)) \<and>
                  rs = results st @ map editResult ds))"
      by (elim conjE) (intro conjI; assumption)
  qed
  have C: "\<not> truthy (projectId st) \<and> (JOB_COMPLETED, EditOnCompleted call) \<in> set (listeners st) \<longrightarrow>
      projectId (editStep call n t st (JobCompleted d)) = d_projectId d \<and>
      results (editStep call n t st (JobCompleted d)) = results st @ [editResult d] \<and>
      completed (editStep call n t st (JobCompleted d)) = completed st + 1"
    by (simp add: editStep_def onCompleted_def Let_def cleanup_fields resolvePromise_fields)
  show ?thesis
    by (rule conjI [OF A conjI [OF B C]])
qed

lemmas orch_defs =
  editRun_def editStep_def editStart_def onCompleted_def onFailed_def cleanup_def
  resolvePromise_def rejectPromise_def removeClientListener_def editOutcome_def editResult_def
  orElse_def jobError_def Let_def mainRun_def mainStep_def mainStart_def mainOnCompleted_def
  mainOnFailed_def settleM_def mainOutcome_def mainResult_def
  unitA_def unitB_def foreignUnit_def failureA_def

text \<open>
  The theorem on a run of call 0 that expects two units: after the submission has named
  \<open>proj-1\<close> and one unit has arrived, a unit of \<open>proj-2\<close> changes nothing, and of the
  trace \<open>proj-2, proj-1, proj-2\<close> only the unit of \<open>proj-1\<close> is pushed; before any id is
  known, the first unit sets it.
\<close>

theorem edit_correlation_isolation_witness:
  "truthy (projectId (editRun 0 (Num 2) (Num 60000) (editStart 0 [])
                        [SubmitResolved (Some ''proj-1''), JobCompleted unitA])) \<and>
   d_projectId foreignUnit \<noteq>
     projectId (editRun 0 (Num 2) (Num 60000) (editStart 0 [])
                  [SubmitResolved (Some ''proj-1''), JobCompleted unitA]) \<and>
   editStep 0 (Num 2) (Num 60000)
     (editRun 0 (Num 2) (Num 60000) (editStart 0 [])
        [SubmitResolved (Some ''proj-1''), JobCompleted unitA])
     (JobCompleted foreignUnit)
   = editRun 0 (Num 2) (Num 60000) (editStart 0 [])
       [SubmitResolved (Some ''proj-1''), JobCompleted unitA] \<and>
   results (editRun 0 (Num 2) (Num 60000)
              (editRun 0 (Num 2) (Num 60000) (editStart 0 []) [SubmitResolved (Some ''proj-1'')])
              [JobCompleted foreignUnit, JobCompleted unitA, JobCompleted foreignUnit])
   = [editResult unitA] \<and>
   \<not> truthy (projectId (editStart 0 [])) \<and>
   projectId (editStep 0 (Num 2) (Num 60000) (editStart 0 []) (JobCompleted unitA))
   = Some ''proj-1''"
  using edit_correlation_isolation
          [of "editRun 0 (Num 2) (Num 60000) (editStart 0 [])
                 [SubmitResolved (Some ''proj-1''), JobCompleted unitA]"
              foreignUnit 0 "Num 2" "Num 60000" "[]"]
        edit_correlation_isolation
          [of "editStart 0 []" unitA 0 "Num 2" "Num 60000" "[]"]
  by (simp add: orch_defs)

text \<open>
  C3 as stated covers every orchestration, and the one in \<open>main\<close> has no filter: it never
  looks at \<open>data.projectId\<close>.  After the submission of \<open>proj-1\<close>, with one unit expected, a
  completion of \<open>proj-2\<close> is counted, pushed, and settles the run.
\<close>

theorem main_counts_foreign_counterexample:
  "d_projectId foreignUnit \<noteq> Some ''proj-1'' \<and>
   mainRun (Num 1) (Num 30000) (mainStart False [])
     [SubmitResolved (Some ''proj-1''), JobCompleted foreignUnit]
   = \<lparr>resultsM = [mainResult foreignUnit], completedJobs = 1,
      completionPromiseM = Resolved (), timeoutArmedM = False,
      listenersM = [(JOB_COMPLETED, MainOnCompleted), (JOB_FAILED, MainOnFailed)],
      submittedM = Acked\<rparr>"
  by (simp add: orch_defs)

subsection \<open>C4: listeners after settlement\<close>

text \<open>
  C4, for \<open>runImageEditProjectWithEvents\<close>.  The two handlers are fresh closures, so they
  are not in the registry \<open>ls\<close> the call finds.  Whatever events arrive, once the promise
  handed to the caller has settled (resolved, rejected by a failure or by the timer, or
  rejected because the submission threw) the registry is \<open>ls\<close> again and the timer is
  cleared.
\<close>

theorem edit_listeners_deregistered:
  assumes "(JOB_COMPLETED, EditOnCompleted call) \<notin> set ls"
    and "(JOB_FAILED, EditOnFailed call) \<notin> set ls"
    and "editOutcome (editRun call n t (editStart call ls) evs) \<noteq> Pending"
  shows "listeners (editRun call n t (editStart call ls) evs) = ls \<and>
         \<not> timeoutArmed (editRun call n t (editStart call ls) evs)"
  using edit_inv_settled [OF edit_inv_run [OF assms(1,2) edit_inv_start] assms(3)] .

text \<open>
  The theorem on the four ways a run can end, on a client that already carries a progress
  listener: success, a failure event, the timer, and a submission that throws.
\<close>

theorem edit_listeners_deregistered_witness:
  "editOutcome (editRun 1 (Num 1) (Num 60000) (editStart 1 [(PROJECT_PROGRESS, MainOnProgress)])
      [SubmitResolved (Some ''proj-1''), JobCompleted unitA])
   = Resolved ([editResult unitA], Some ''proj-1'') \<and>
   listeners (editRun 1 (Num 1) (Num 60000) (editStart 1 [(PROJECT_PROGRESS, MainOnProgress)])
      [SubmitResolved (Some ''proj-1''), JobCompleted unitA])
   = [(PROJECT_PROGRESS, MainOnProgress)] \<and>
   editOutcome (editRun 1 (Num 1) (Num 60000) (editStart 1 [(PROJECT_PROGRESS, MainOnProgress)])
      [SubmitResolved (Some ''proj-1''), JobFailed failureA])
   = Rejected (JobError ''worker crashed'') \<and>
   listeners (editRun 1 (Num 1) (Num 60000) (editStart 1 [(PROJECT_PROGRESS, MainOnProgress)])
      [SubmitResolved (Some ''proj-1''), JobFailed failureA])
   = [(PROJECT_PROGRESS, MainOnProgress)] \<and>
   editOutcome (editRun 1 (Num 1) (Num 60000) (editStart 1 [(PROJECT_PROGRESS, MainOnProgress)])
      [SubmitResolved (Some ''proj-1''), TimerFired])
   = Rejected (TimeoutAfter (Num 60000)) \<and>
   listeners (editRun 1 (Num 1) (Num 60000) (editStart 1 [(PROJECT_PROGRESS, MainOnProgress)])
      [SubmitResolved (Some ''proj-1''), TimerFired])
   = [(PROJECT_PROGRESS, MainOnProgress)] \<and>
   editOutcome (editRun 1 (Num 1) (Num 60000) (editStart 1 [(PROJECT_PROGRESS, MainOnProgress)])
      [SubmitRejected ''socket closed''])
   = Rejected (Thrown ''socket closed'') \<and>
   listeners (editRun 1 (Num 1) (Num 60000) (editStart 1 [(PROJECT_PROGRESS, MainOnProgress)])
      [SubmitRejected ''socket closed''])
   = [(PROJECT_PROGRESS, MainOnProgress)]"
proof -
  have o1: "editOutcome (editRun 1 (Num 1) (Num 60000)
              (editStart 1 [(PROJECT_PROGRESS, MainOnProgress)])
              [SubmitResolved (Some ''proj-1''), JobCompleted unitA])
            = Resolved ([editResult unitA], Some ''proj-1'')"
    and o2: "editOutcome (editRun 1 (Num 1) (Num 60000)
              (editStart 1 [(PROJECT_PROGRESS, MainOnProgress)])
              [SubmitResolved (Some ''proj-1''), JobFailed failureA])
            = Rejected (JobError ''worker crashed'')"
    and o3: "editOutcome (editRun 1 (Num 1) (Num 60000)
              (editStart 1 [(PROJECT_PROGRESS, MainOnProgress)])
              [SubmitResolved (Some ''proj-1''), TimerFired])
            = Rejected (TimeoutAfter (Num 60000))"
    and o4: "editOutcome (editRun 1 (Num 1) (Num 60000)
              (editStart 1 [(PROJECT_PROGRESS, MainOnProgress)])
              [SubmitRejected ''socket closed''])
            = Rejected (Thrown ''socket closed'')"
    by (simp_all add: orch_defs)
  have f: "(JOB_COMPLETED, EditOnCompleted 1) \<notin> set [(PROJECT_PROGRESS, MainOnProgress)]"
    "(JOB_FAILED, EditOnFailed 1) \<notin> set [(PROJECT_PROGRESS, MainOnProgress)]"
    by simp_all
  note t = edit_listeners_deregistered [OF f, where n = "Num 1" and t = "Num 60000"]
  have "listeners (editRun 1 (Num 1) (Num 60000) (editStart 1 [(PROJECT_PROGRESS, MainOnProgress)])
          [SubmitResolved (Some ''proj-1''), JobCompleted unitA])
        = [(PROJECT_PROGRESS, MainOnProgress)]"
    using t [of "[SubmitResolved (Some ''proj-1''), JobCompleted unitA]"] o1 by simp
  moreover
  have "listeners (editRun 1 (Num 1) (Num 60000) (editStart 1 [(PROJECT_PROGRESS, MainOnProgress)])
          [SubmitResolved (Some ''proj-1''), JobFailed failureA])
        = [(PROJECT_PROGRESS, MainOnProgress)]"
    using t [of "[SubmitResolved (Some ''proj-1''), JobFailed failureA]"] o2 by simp
  moreover
  have "listeners (editRun 1 (Num 1) (Num 60000) (editStart 1 [(PROJECT_PROGRESS, MainOnProgress)])
          [SubmitResolved (Some ''proj-1''), TimerFired])
        = [(PROJECT_PROGRESS, MainOnProgress)]"
    using t [of "[SubmitResolved (Some ''proj-1''), TimerFired]"] o3 by simp
  moreover
  have "listeners (editRun 1 (Num 1) (Num 60000) (editStart 1 [(PROJECT_PROGRESS, MainOnProgress)])
          [SubmitRejected ''socket closed''])
        = [(PROJECT_PROGRESS, MainOnProgress)]"
    using t [of "[SubmitRejected ''socket closed'']"] o4 by simp
  ultimately show ?thesis
    using o1 o2 o3 o4 by (intro conjI) assumption+
qed

text \<open>
  C4 as stated covers every orchestration, and the one in \<open>main\<close> never takes a listener
  out: \<open>main\<close> runs one job and the process ends after it.  After a successful run, after a
  failure and after the timer the handlers are still in the registry.
\<close>

theorem main_listeners_stay_counterexample:
  "mainOutcome (mainRun (Num 1) (Num 30000) (mainStart False [])
      [SubmitResolved (Some ''proj-1''), JobCompleted unitA]) = Resolved () \<and>
   listenersM (mainRun (Num 1) (Num 30000) (mainStart False [])
      [SubmitResolved (Some ''proj-1''), JobCompleted unitA])
   = [(JOB_COMPLETED, MainOnCompleted), (JOB_FAILED, MainOnFailed)] \<and>
   mainOutcome (mainRun (Num 1) (Num 30000) (mainStart False [])
      [SubmitResolved (Some ''proj-1''), JobFailed failureA])
   = Rejected (JobError ''worker crashed'') \<and>
   listenersM (mainRun (Num 1) (Num 30000) (mainStart False [])
      [SubmitResolved (Some ''proj-1''), JobFailed failureA])
   = [(JOB_COMPLETED, MainOnCompleted), (JOB_FAILED, MainOnFailed)] \<and>
   mainOutcome (mainRun (Num 1) (Num 30000) (mainStart False [])
      [SubmitResolved (Some ''proj-1''), TimerFired])
   = Rejected (TimeoutAfter (Num 30000)) \<and>
   listenersM (mainRun (Num 1) (Num 30000) (mainStart False [])
      [SubmitResolved (Some ''proj-1''), TimerFired])
   = [(JOB_COMPLETED, MainOnCompleted), (JOB_FAILED, MainOnFailed)]"
  by (simp add: orch_defs)

subsection \<open>C5: enough completions settle the run\<close>




section \<open>Properties of the checks\<close>

lemma runChecks_append:
  "runChecks (fs @ gs) opts =
     (case runChecks fs opts of Inl e \<Rightarrow> Inl e | Inr opts' \<Rightarrow> runChecks gs opts')"
  by (induction fs arbitrary: opts) (auto split: sum.splits)

text \<open>What every check leaves alone is left alone by a list of checks.\<close>

lemma runChecks_keeps:
  assumes "\<forall>f\<in>set fs. \<forall>a b. f a = Inr b \<longrightarrow> proj b = proj a"
  shows "runChecks fs opts = Inr opts' \<Longrightarrow> proj opts' = proj opts"
  using assms
proof (induction fs arbitrary: opts)
  case Nil
  then show ?case by simp
next
  case (Cons f fs)
  from Cons.prems(1) obtain mid where m: "f opts = Inr mid" and r: "runChecks fs mid = Inr opts'"
    by (auto split: sum.splits)
  from Cons.prems(2) m have "proj mid = proj opts" by simp
  moreover from Cons.prems(2) have "\<forall>f\<in>set fs. \<forall>a b. f a = Inr b \<longrightarrow> proj b = proj a" by simp
  from Cons.IH [OF r this] have "proj opts' = proj mid" .
  ultimately show ?case by simp
qed

lemma mode_checkTokenType: "case checkTokenType a of Inl e \<Rightarrow> True | Inr b \<Rightarrow> mode b = mode a"
  by (simp add: checkTokenType_def mode_def Let_def split: sum.split option.split)

lemma mode_checkSeedStrategy: "case checkSeedStrategy a of Inl e \<Rightarrow> True | Inr b \<Rightarrow> mode b = mode a"
  by (simp add: checkSeedStrategy_def mode_def Let_def split: sum.split option.split)

lemma mode_checkSteps: "case checkSteps cliSet a of Inl e \<Rightarrow> True | Inr b \<Rightarrow> mode b = mode a"
  by (simp add: checkSteps_def mode_def Let_def split: sum.split option.split)

lemma mode_checkOutputFormat: "case checkOutputFormat a of Inl e \<Rightarrow> True | Inr b \<Rightarrow> mode b = mode a"
  by (simp add: checkOutputFormat_def mode_def Let_def split: sum.split option.split)

lemma mode_checkLoras: "case checkLoras a of Inl e \<Rightarrow> True | Inr b \<Rightarrow> mode b = mode a"
  by (simp add: checkLoras_def mode_def Let_def split: sum.split option.split)

lemma mode_checkImageOnly: "case checkImageOnly a of Inl e \<Rightarrow> True | Inr b \<Rightarrow> mode b = mode a"
  by (simp add: checkImageOnly_def mode_def Let_def split: sum.split option.split)

lemma mode_resolveWorkflow: "case resolveWorkflow config a of Inl e \<Rightarrow> True | Inr b \<Rightarrow> mode b = mode a"
  by (simp add: resolveWorkflow_def mode_def Let_def split: sum.split option.split)

lemma mode_resolveLastImage: "case resolveLastImage a of Inl e \<Rightarrow> True | Inr b \<Rightarrow> mode b = mode a"
  by (simp add: resolveLastImage_def mode_def Let_def split: sum.split option.split)

lemma mode_applyDefaults: "case applyDefaults config cliSet a of Inl e \<Rightarrow> True | Inr b \<Rightarrow> mode b = mode a"
  by (simp add: applyDefaults_def mode_def Let_def split: sum.split option.split)

lemma mode_checkPrompt: "case checkPrompt a of Inl e \<Rightarrow> True | Inr b \<Rightarrow> mode b = mode a"
  by (simp add: checkPrompt_def mode_def Let_def split: sum.split option.split)

lemma mode_checkWorkflowAssets: "case checkWorkflowAssets a of Inl e \<Rightarrow> True | Inr b \<Rightarrow> mode b = mode a"
  by (simp add: checkWorkflowAssets_def mode_def Let_def split: sum.split option.split)

lemma mode_checkContextImages: "case checkContextImages g a of Inl e \<Rightarrow> True | Inr b \<Rightarrow> mode b = mode a"
  by (simp add: checkContextImages_def mode_def Let_def split: sum.split option.split)

lemma mode_multiAngleRequirements: "case multiAngleRequirements a of Inl e \<Rightarrow> True | Inr b \<Rightarrow> mode b = mode a"
  by (simp add: multiAngleRequirements_def mode_def Let_def split: sum.split option.split)

lemma mode_multiAngleKeys: "case multiAngleKeys a of Inl e \<Rightarrow> True | Inr b \<Rightarrow> mode b = mode a"
  by (simp add: multiAngleKeys_def mode_def Let_def split: sum.split option.split)

lemma mode_multiAngleDefaults: "case multiAngleDefaults a of Inl e \<Rightarrow> True | Inr b \<Rightarrow> mode b = mode a"
  by (simp add: multiAngleDefaults_def mode_def Let_def split: sum.split option.split)

lemma mode_loneStrength: "case loneStrength a of Inl e \<Rightarrow> True | Inr b \<Rightarrow> mode b = mode a"
  by (simp add: loneStrength_def mode_def)

lemma mode_angleGuidance: "mode (angleGuidance cg a) = mode a"
  by (simp add: angleGuidance_def mode_def)

lemma mode_defaultAngleStrength: "mode (defaultAngleStrength a) = mode a"
  by (simp add: defaultAngleStrength_def mode_def)

lemma mode_ensureAngleLora: "mode (snd (ensureAngleLora s a)) = mode a"
  by (simp add: ensureAngleLora_def mode_def Let_def split: option.split)

lemma mode_fillStrengths: "mode (fillStrengths s i a) = mode a"
  by (simp add: fillStrengths_def mode_def)

lemma mode_multiAngleLoras:
  "case multiAngleLoras cg a of Inl e \<Rightarrow> True | Inr b \<Rightarrow> mode b = mode a"
proof (cases "loneStrength a")
  case (Inl e)
  then show ?thesis by (simp add: multiAngleLoras_def)
next
  case (Inr a1)
  with mode_loneStrength [of a] have m1: "mode a1 = mode a" by simp
  define a2 where "a2 = defaultAngleStrength (angleGuidance cg a1)"
  define s where "s = (case angleStrength a2 of Some s \<Rightarrow> s | None \<Rightarrow> 0)"
  have m2: "mode a2 = mode a1"
    by (simp add: a2_def mode_defaultAngleStrength mode_angleGuidance)
  obtain i a3 where e: "ensureAngleLora s a2 = (i, a3)" by (cases "ensureAngleLora s a2")
  with mode_ensureAngleLora [of s a2] have m3: "mode a3 = mode a2" by simp
  have "multiAngleLoras cg a = Inr (fillStrengths s i a3)"
    using Inr e by (simp add: multiAngleLoras_def Let_def a2_def s_def)
  then show ?thesis
    using m1 m2 m3 by (simp add: mode_fillStrengths)
qed

lemma keepsI:
  "(\<And>a. case f a of Inl e \<Rightarrow> True | Inr b \<Rightarrow> proj b = proj a) \<Longrightarrow>
     \<forall>a b. f a = Inr b \<longrightarrow> proj b = proj a"
proof (intro allI impI)
  fix a b
  assume h: "\<And>a. case f a of Inl e \<Rightarrow> True | Inr b \<Rightarrow> proj b = proj a" and "f a = Inr b"
  with h [of a] show "proj b = proj a" by simp
qed

lemma mode_multiAngleBlock:
  "case multiAngleBlock cliSet a of Inl e \<Rightarrow> True | Inr b \<Rightarrow> mode b = mode a"
proof (cases "multiAngleBlock cliSet a")
  case (Inl e)
  then show ?thesis by simp
next
  case (Inr b)
  have "mode b = mode a"
  proof (cases "multiAngle a")
    case False
    with Inr show ?thesis by (simp add: multiAngleBlock_def)
  next
    case True
    with Inr have r: "runChecks [multiAngleRequirements, multiAngleKeys, multiAngleDefaults,
                      multiAngleLoras (cliSet_guidance cliSet)] a = Inr b"
      by (simp add: multiAngleBlock_def)
    have "\<forall>f\<in>set [multiAngleRequirements, multiAngleKeys, multiAngleDefaults,
                      multiAngleLoras (cliSet_guidance cliSet)].
            \<forall>a b. f a = Inr b \<longrightarrow> mode b = mode a"
      using keepsI [where f = multiAngleRequirements and proj = mode, OF mode_multiAngleRequirements]
        keepsI [where f = multiAngleKeys and proj = mode, OF mode_multiAngleKeys]
        keepsI [where f = multiAngleDefaults and proj = mode, OF mode_multiAngleDefaults]
        keepsI [where f = "multiAngleLoras (cliSet_guidance cliSet)" and proj = mode,
                OF mode_multiAngleLoras]
      by simp
    from runChecks_keeps [OF this r] show ?thesis .
  qed
  with Inr show ?thesis by simp
qed


text \<open>
  Options that have passed the checks in multi-angle mode are not a video run and carry
  no frame count: line 608 refuses \<open>--video\<close>, and line 803 refuses \<open>--frames\<close>
  without it.
\<close>

lemma checked_multiAngle:
  assumes c: "checkOptions g config cliSet opts0 = Inr opts" and m: "multiAngle opts"
  shows "\<not> video opts \<and> \<not> truthyNum (frames opts)"
proof -
  let ?A = "[checkTokenType, checkSeedStrategy, checkSteps cliSet]"
  let ?B = "[checkOutputFormat, checkLoras, checkImageOnly, resolveWorkflow config,
             resolveLastImage, applyDefaults config cliSet]"
  let ?C = "[checkWorkflowAssets, checkContextImages g]"
  have split: "checkOptions g config cliSet =
      runChecks (?A @ [multiAngleBlock cliSet] @ ?B @ [checkPrompt] @ ?C)"
    by (simp add: checkOptions_def)
  have kA: "\<forall>f\<in>set ?A. \<forall>a b. f a = Inr b \<longrightarrow> mode b = mode a"
    using keepsI [where f = checkTokenType and proj = mode, OF mode_checkTokenType]
      keepsI [where f = checkSeedStrategy and proj = mode, OF mode_checkSeedStrategy]
      keepsI [where f = "checkSteps cliSet" and proj = mode, OF mode_checkSteps]
    by simp
  have kB: "\<forall>f\<in>set ?B. \<forall>a b. f a = Inr b \<longrightarrow> mode b = mode a"
    using keepsI [where f = checkOutputFormat and proj = mode, OF mode_checkOutputFormat]
      keepsI [where f = checkLoras and proj = mode, OF mode_checkLoras]
      keepsI [where f = checkImageOnly and proj = mode, OF mode_checkImageOnly]
      keepsI [where f = "resolveWorkflow config" and proj = mode, OF mode_resolveWorkflow]
      keepsI [where f = resolveLastImage and proj = mode, OF mode_resolveLastImage]
      keepsI [where f = "applyDefaults config cliSet" and proj = mode, OF mode_applyDefaults]
    by simp
  have kC: "\<forall>f\<in>set ?C. \<forall>a b. f a = Inr b \<longrightarrow> mode b = mode a"
    using keepsI [where f = checkWorkflowAssets and proj = mode, OF mode_checkWorkflowAssets]
      keepsI [where f = "checkContextImages g" and proj = mode, OF mode_checkContextImages]
    by simp
  from c obtain o1 o2 o3 o4 where
    r1: "runChecks ?A opts0 = Inr o1" and r2: "multiAngleBlock cliSet o1 = Inr o2"
    and r3: "runChecks ?B o2 = Inr o3" and r4: "checkPrompt o3 = Inr o4"
    and r5: "runChecks ?C o4 = Inr opts"
    unfolding split runChecks_append by (auto split: sum.splits)
  have m5: "mode opts = mode o4" by (rule runChecks_keeps [OF kC r5])
  have m4: "mode o4 = mode o3" using mode_checkPrompt [of o3] r4 by simp
  have m3: "mode o3 = mode o2" by (rule runChecks_keeps [OF kB r3])
  have m2: "mode o2 = mode o1" using mode_multiAngleBlock [where cliSet = cliSet and a = o1] r2 by simp
  from m m5 m4 m3 m2 have ma: "multiAngle o1" and v: "video opts = video o1"
    and v3: "video o3 = video o1" and f3: "frames o3 = frames opts"
    by (simp_all add: mode_def)
  from r2 ma have "\<not> video o1"
    by (auto simp: multiAngleBlock_def multiAngleRequirements_def split: if_splits)
  moreover from r4 have "video o3 \<or> \<not> truthyNum (frames o3)"
    by (auto simp: checkPrompt_def split: if_splits)
  ultimately show ?thesis using v v3 f3 by simp
qed

subsection \<open>Evaluation of sample runs\<close>

lemma decimal_small:
  "decimal 1 = ''1''" "decimal 2 = ''2''" "decimal 3 = ''3''" "decimal 4 = ''4''"
  "decimal 5 = ''5''" "decimal 6 = ''6''" "decimal 7 = ''7''" "decimal 8 = ''8''"
  by code_simp+

lemma decimal_four: "decimal (Suc (Suc (Suc (Suc 0)))) = ''4''"
  by code_simp

lemmas check_defs =
  topLevel_def failedCheck_def checkOptions_def checkTokenType_def checkSeedStrategy_def
  checkSteps_def multiAngleBlock_def checkOutputFormat_def checkLoras_def checkImageOnly_def
  resolveWorkflow_def resolveLastImage_def applyDefaults_def checkPrompt_def
  checkWorkflowAssets_def checkContextImages_def normalizeVideoWorkflow_def
  inferVideoWorkflowFromModel_def inferVideoWorkflowFromAssets_def workflowRequiresImage_def
  VIDEO_WORKFLOW_DEFAULT_MODELS_def orElse_def Let_def initialOptions_def noFlags_def

subsection \<open>C2: what a failed check writes\<close>

text \<open>
  C2 at \<open>--json -c a.png -c b.png -c c.png -c d.png "blend them"\<close>, on a model that
  takes three context images (lines 845-856), and at \<open>--json --video --lora foo "a cat"\<close>
  (lines 720-723).  Both runs are in JSON mode and fail a check: the message goes to the
  error stream as plain text, nothing is written to standard output, so there is no
  payload and no error code; the status is 1 and no job has been handed to the client.
\<close>

theorem validation_failure_is_plain_text:
  "json crowdedEdit \<and>
   topLevel threeImages None noFlags None 0 crowdedEdit =
     Inl \<lparr>p_stdout = [],
          p_stderr = [''Error: Model qwen_image_edit_2511_fp8_lightning supports max 3 context images, got 4''],
          p_exit = Some 1, p_submitted = []\<rparr> \<and>
   json loraVideo \<and>
   topLevel threeImages None noFlags None 0 loraVideo =
     Inl \<lparr>p_stdout = [], p_stderr = [''Error: --lora options are image-only.''],
          p_exit = Some 1, p_submitted = []\<rparr>"
  by (simp add: check_defs crowdedEdit_def loraVideo_def threeImages_def decimal_small decimal_four)

subsection \<open>C1: the size of a video request\<close>

text \<open>
  C1 at \<open>--json --video --width 500 --height 512 "ocean waves"\<close>.  The run passes every
  check and reaches the video branch of \<open>main\<close> (it is a video run, neither a multi-angle
  run nor a cost estimate); the request built at lines 1469-1481 carries the width 500 and
  the height 512 as they were given, and 500 is not a multiple of 16.
\<close>

theorem video_size_unrounded:
  "map_sum id
     (\<lambda>opts. (video opts, multiAngle opts, estimateVideoCost opts, model opts,
               v_width (videoProjectConfig None opts), v_height (videoProjectConfig None opts)))
     (topLevel threeImages None noFlags None 0 oddSizeVideo) =
     Inr (True, False, False, Some ''wan_v2.2-14b-fp8_t2v_lightx2v'', Num 500, Num 512) \<and>
   \<not> (16::int) dvd 500"
  by (simp add: check_defs oddSizeVideo_def resolveSeed_def videoProjectConfig_def
        normalizeSeedStrategy_def toLowerCase_def lowerChar_def str_includes_def)

section \<open>Division in doubles\<close>

lemma pow2_powi: "pow2 e = 2 powi e"
  by (simp add: pow2_def power_int_def power_inverse [symmetric] inverse_eq_divide power_one_over)

lemma pow2_pos: "0 < pow2 e"
  by (simp add: pow2_powi)

lemma pow2_mono: "a \<le> b \<Longrightarrow> pow2 a \<le> pow2 b"
  by (simp add: pow2_powi power_int_increasing)

lemma pow2_less_cancel: "pow2 a < pow2 b \<Longrightarrow> a < b"
  using pow2_mono [of b a] by (cases "a < b") auto

lemma roundHalfEven_error: "\<bar>of_int (roundHalfEven m) - m\<bar> \<le> 1 / 2"
proof -
  have lo: "of_int \<lfloor>m\<rfloor> \<le> m" and hi: "m < of_int \<lfloor>m\<rfloor> + 1"
    by linarith+
  show ?thesis
    unfolding roundHalfEven_def using lo hi by (simp add: abs_le_iff; linarith)
qed

lemma roundHalfEven_of_int: "roundHalfEven (of_int n) = n"
  by (simp add: roundHalfEven_def)

lemma quotientExponent_le:
  assumes "0 < a" "0 < b"
  shows "pow2 (quotientExponent a b) \<le> of_int a / of_int b"
proof (cases "pow2 (bitlen a - bitlen b) \<le> of_int a / of_int b")
  case True
  then show ?thesis by (simp add: quotientExponent_def)
next
  case False
  from bitlen_bounds [OF assms(1)] have la: "2 ^ nat (bitlen a - 1) \<le> a" by simp
  from bitlen_bounds [OF assms(2)] have lb: "b < 2 ^ nat (bitlen b)" by simp
  have pa: "0 < bitlen a" using assms(1) bitlen_nonneg [of a] bitlen_eq_zero_iff [of a]
    by (cases "bitlen a = 0") auto
  have pb: "0 \<le> bitlen b" by (rule bitlen_nonneg)
  have a': "(2::rat) powi (bitlen a - 1) \<le> of_int a"
  proof -
    have "(2::rat) powi (bitlen a - 1) = of_int (2 ^ nat (bitlen a - 1))"
      using pa by (simp add: power_int_def)
    also have "\<dots> \<le> of_int a" using la by (simp only: of_int_le_iff)
    finally show ?thesis .
  qed
  have b': "of_int b < (2::rat) powi (bitlen b)"
  proof -
    have "(of_int b :: rat) < of_int (2 ^ nat (bitlen b))" using lb by (simp only: of_int_less_iff)
    also have "\<dots> = 2 powi (bitlen b)" using pb by (simp add: power_int_def)
    finally show ?thesis .
  qed
  have bpos: "(0::rat) < of_int b" using assms(2) by simp
  have "(2::rat) powi (bitlen a - bitlen b - 1) = 2 powi (bitlen a - 1) / 2 powi (bitlen b)"
    by (simp add: power_int_diff [symmetric] algebra_simps)
  also have "\<dots> \<le> of_int a / 2 powi (bitlen b)"
    using a' by (simp add: divide_right_mono)
  also have "\<dots> \<le> of_int a / of_int b"
    using b' bpos assms(1) by (intro divide_left_mono) (auto simp: less_imp_le)
  finally show ?thesis
    using False by (simp add: quotientExponent_def pow2_powi)
qed


lemma pow2_shift: "pow2 (q - 52) = pow2 q / 2 ^ 52"
  by (simp add: pow2_powi power_int_diff)

lemma jsDivide_split:
  assumes "a \<noteq> 0" "0 < k"
  defines "P \<equiv> pow2 (quotientExponent \<bar>a\<bar> (int k) - 52)"
  defines "x \<equiv> (of_int \<bar>a\<bar> / of_nat k :: rat)"
  shows "jsDivide a k = of_int (sgn a) * of_int (roundHalfEven (x / P)) * P"
    and "of_int a / of_nat k = of_int (sgn a) * x"
    and "0 < P" and "0 < x" and "P \<le> x / 2 ^ 52"
proof -
  show "jsDivide a k = of_int (sgn a) * of_int (roundHalfEven (x / P)) * P"
    using assms(1) by (simp add: jsDivide_def P_def x_def)
  have "(of_int a :: rat) = of_int (sgn a) * of_int \<bar>a\<bar>"
    by (simp add: abs_sgn mult.commute flip: of_int_mult)
  then show "of_int a / of_nat k = of_int (sgn a) * x"
    by (simp add: x_def)
  show "0 < P" by (simp add: P_def pow2_pos)
  show "0 < x" using assms(1,2) by (simp add: x_def)
  have apos: "0 < \<bar>a\<bar>" "0 < int k" using assms(1,2) by simp_all
  from quotientExponent_le [OF apos] have "pow2 (quotientExponent \<bar>a\<bar> (int k)) \<le> x"
    by (simp add: x_def)
  then show "P \<le> x / 2 ^ 52"
    unfolding P_def pow2_shift by (simp add: divide_right_mono)
qed

lemma jsDivide_error:
  assumes "a \<noteq> 0" "0 < k"
  shows "\<bar>jsDivide a k - of_int a / of_nat k\<bar> \<le> of_int \<bar>a\<bar> / of_nat k / 2 ^ 53"
proof -
  define P where "P = pow2 (quotientExponent \<bar>a\<bar> (int k) - 52)"
  define x where "x = (of_int \<bar>a\<bar> / of_nat k :: rat)"
  define r where "r = roundHalfEven (x / P)"
  note s = jsDivide_split [OF assms, folded P_def x_def]
  have xm: "x = x / P * P" using s(3) by simp
  have "jsDivide a k - of_int a / of_nat k = of_int (sgn a) * (of_int r * P - x)"
    unfolding s(1,2) r_def by (simp add: algebra_simps)
  also have "of_int r * P - x = (of_int r - x / P) * P"
    using s(3) by (simp add: algebra_simps)
  finally have "\<bar>jsDivide a k - of_int a / of_nat k\<bar> = \<bar>of_int (sgn a) :: rat\<bar> * (\<bar>of_int r - x / P\<bar> * P)"
    using s(3) by (simp add: abs_mult)
  also have "\<bar>of_int (sgn a) :: rat\<bar> = 1" using assms(1) by (simp add: sgn_if)
  also have "1 * (\<bar>of_int r - x / P\<bar> * P) \<le> 1 / 2 * P"
    using roundHalfEven_error [of "x / P"] s(3) unfolding r_def
    by (simp add: mult_right_mono)
  also have "\<dots> \<le> 1 / 2 * (x / 2 ^ 52)"
    using s(5) by simp
  also have "\<dots> = x / 2 ^ 53" by simp
  finally show ?thesis by (simp add: x_def)
qed

lemma jsDivide_exact:
  assumes "a \<noteq> 0" "0 < k"
    and "of_int \<bar>a\<bar> / of_nat k / pow2 (quotientExponent \<bar>a\<bar> (int k) - 52) = (of_int n :: rat)"
  shows "jsDivide a k = of_int a / of_nat k"
proof -
  define P where "P = pow2 (quotientExponent \<bar>a\<bar> (int k) - 52)"
  define x where "x = (of_int \<bar>a\<bar> / of_nat k :: rat)"
  note s = jsDivide_split [OF assms(1,2), folded P_def x_def]
  from assms(3) have m: "x / P = of_int n" by (simp add: x_def P_def)
  have "jsDivide a k = of_int (sgn a) * (x / P) * P"
    unfolding s(1) m by (simp add: roundHalfEven_of_int)
  also have "\<dots> = of_int (sgn a) * x" using s(3) by simp
  finally show ?thesis using s(2) by simp
qed

text \<open>
  Below \<open>2^52\<close> the rounding of the quotient does not reach the next multiple of one
  half, so \<open>Math.round\<close> gives what it gives for the exact quotient.
\<close>

lemma mathRound_jsDivide:
  assumes k: "0 < k" and small: "\<bar>a\<bar> < 2 ^ 52"
  shows "mathRound (jsDivide a k) = mathRound (of_int a / of_nat k)"
proof (cases "a = 0")
  case True
  then show ?thesis by (simp add: jsDivide_def)
next
  case False
  define y where "y = (of_int a / of_nat k :: rat)"
  define n where "n = \<lfloor>y + 1 / 2\<rfloor>"
  define K where "K = (of_nat k :: rat)"
  have Kpos: "0 < K" using k by (simp add: K_def)
  have K1: "1 \<le> K" using k by (simp add: K_def)
  have yK: "y * K = of_int a" using Kpos by (simp add: y_def K_def)
  have lo: "of_int n \<le> y + 1 / 2" and hi: "y + 1 / 2 < of_int n + 1"
    unfolding n_def by linarith+
  text \<open>The error of the division is below \<open>1 / (2 k)\<close>.\<close>
  have asmall: "(of_int \<bar>a\<bar> :: rat) < 2 ^ 52"
    using small by (metis of_int_less_numeral_power_cancel_iff)
  then have "(of_int \<bar>a\<bar> :: rat) * (2 * K) < 2 ^ 52 * (2 * K)"
    using Kpos by (intro mult_strict_right_mono) simp_all
  then have "(of_int \<bar>a\<bar> :: rat) / K / 2 ^ 53 < 1 / (2 * K)"
    using Kpos by (simp add: field_simps)
  with jsDivide_error [OF False k] have err: "\<bar>jsDivide a k - y\<bar> < 1 / (2 * K)"
    unfolding y_def K_def by (rule le_less_trans)
  text \<open>\<open>2 k (y + 1/2)\<close> is the integer \<open>2 a + k\<close>.\<close>
  have hi_int: "2 * a + int k < 2 * int k * (n + 1)"
  proof -
    have "(of_int (2 * a + int k) :: rat) = 2 * K * (y + 1 / 2)"
      using yK by (simp add: K_def algebra_simps)
    also have "\<dots> < 2 * K * (of_int n + 1)"
      using hi Kpos by (simp only: mult_less_cancel_left_pos)
    also have "\<dots> = of_int (2 * int k * (n + 1))" by (simp add: K_def)
    finally show ?thesis by (simp only: of_int_less_iff)
  qed
  have lo_int: "2 * int k * n \<le> 2 * a + int k"
  proof -
    have "(of_int (2 * int k * n) :: rat) = 2 * K * of_int n" by (simp add: K_def)
    also have "\<dots> \<le> 2 * K * (y + 1 / 2)"
      using lo Kpos by (simp only: mult_le_cancel_left_pos)
    also have "\<dots> = of_int (2 * a + int k)"
      using yK by (simp add: K_def algebra_simps)
    finally show ?thesis by (simp only: of_int_le_iff)
  qed
  have upper: "jsDivide a k + 1 / 2 < of_int n + 1"
  proof -
    from hi_int have "2 * a + int k + 1 \<le> 2 * int k * (n + 1)" by simp
    then have "(of_int (2 * a + int k + 1) :: rat) \<le> of_int (2 * int k * (n + 1))"
      by (simp only: of_int_le_iff)
    then have "2 * K * (y + 1 / 2) + 1 \<le> 2 * K * (of_int n + 1)"
      using yK by (simp add: K_def algebra_simps)
    then have "y + 1 / 2 + 1 / (2 * K) \<le> of_int n + 1"
      using Kpos by (simp add: field_simps)
    with err show ?thesis by (simp add: abs_less_iff)
  qed
  have lower: "of_int n \<le> jsDivide a k + 1 / 2"
  proof (cases "2 * int k * n = 2 * a + int k")
    case False
    with lo_int have "2 * int k * n + 1 \<le> 2 * a + int k" by simp
    then have "(of_int (2 * int k * n + 1) :: rat) \<le> of_int (2 * a + int k)"
      by (simp only: of_int_le_iff)
    then have "2 * K * of_int n + 1 \<le> 2 * K * (y + 1 / 2)"
      using yK by (simp add: K_def algebra_simps)
    then have "of_int n + 1 / (2 * K) \<le> y + 1 / 2"
      using Kpos by (simp add: field_simps)
    with err show ?thesis by (simp add: abs_less_iff)
  next
    case True
    text \<open>The quotient is \<open>n - 1/2\<close>, which is a double.\<close>
    have "(of_int (2 * int k * n) :: rat) = of_int (2 * a + int k)"
      using True by (simp only:)
    then have "2 * K * of_int n = 2 * K * (y + 1 / 2)"
      using yK by (simp add: K_def algebra_simps)
    then have yn: "y = of_int n - 1 / 2"
      using Kpos by simp
    define P where "P = pow2 (quotientExponent \<bar>a\<bar> (int k) - 52)"
    define x where "x = (of_int \<bar>a\<bar> / of_nat k :: rat)"
    note s = jsDivide_split [OF \<open>a \<noteq> 0\<close> k, folded P_def x_def]
    have xy: "x = \<bar>y\<bar>" using Kpos by (simp add: x_def y_def K_def abs_divide flip: of_int_abs)
    have x2: "x * 2 = of_int \<bar>2 * n - 1\<bar>"
      unfolding xy yn by (simp add: abs_if algebra_simps)
    have "x * 1 \<le> x * K"
      using K1 s(4) by (intro mult_left_mono) simp_all
    then have "x \<le> of_int \<bar>a\<bar>"
      using Kpos by (simp add: x_def K_def)
    also have "\<dots> < 2 ^ 52" by (rule asmall)
    finally have xs: "x < 2 ^ 52" .
    have apos: "0 < \<bar>a\<bar>" "0 < int k" using \<open>a \<noteq> 0\<close> k by simp_all
    from quotientExponent_le [OF apos] xs
    have "pow2 (quotientExponent \<bar>a\<bar> (int k)) < pow2 52"
      by (simp add: x_def pow2_def)
    from pow2_less_cancel [OF this] have neg: "quotientExponent \<bar>a\<bar> (int k) - 52 < 0" by simp
    define j where "j = nat (- (quotientExponent \<bar>a\<bar> (int k) - 52)) - 1"
    have P: "P = 1 / (2 * 2 ^ j)"
    proof -
      from neg have "nat (- (quotientExponent \<bar>a\<bar> (int k) - 52)) = Suc j"
        by (simp add: j_def)
      then show ?thesis using neg by (simp add: P_def pow2_def)
    qed
    have "x / P = x * 2 * 2 ^ j" by (simp add: P)
    also have "\<dots> = of_int (\<bar>2 * n - 1\<bar> * 2 ^ j)" unfolding x2 by simp
    finally have "x / P = of_int (\<bar>2 * n - 1\<bar> * 2 ^ j)" .
    from jsDivide_exact [OF \<open>a \<noteq> 0\<close> k this [unfolded x_def P_def]]
    have "jsDivide a k = y" by (simp add: y_def)
    then show ?thesis using yn by simp
  qed
  have "\<lfloor>jsDivide a k + 1 / 2\<rfloor> = n"
    using lower upper by (simp add: floor_unique)
  then show ?thesis by (simp add: mathRound_def n_def y_def)
qed

lemma mathRound_div:
  assumes "0 < k"
  shows "mathRound (of_int a / of_nat k) = (2 * a + int k) div (2 * int k)"
proof -
  have "(of_int a / of_nat k + 1 / 2 :: rat) = of_int (2 * a + int k) / of_int (2 * int k)"
    using assms by (simp add: field_simps)
  then show ?thesis
    unfolding mathRound_def by (simp only: floor_divide_of_int_eq)
qed

lemma mathRound_jsDivide_div:
  assumes "0 < k" "\<bar>a\<bar> < 2 ^ 52"
  shows "mathRound (jsDivide a k) = (2 * a + int k) div (2 * int k)"
  using mathRound_jsDivide [OF assms] mathRound_div [OF assms(1)] by simp

lemma large_duration: "mathRound (jsDivide 6755399441055745 3) = 2251799813685249"
  by code_simp

section \<open>Properties of runMultiAngleFlow\<close>

subsection \<open>The segment loop\<close>

lemma segmentStep_Inr:
  "segmentStep config env opts fr i (w, cp) = Inr (w', cp') \<Longrightarrow>
     w_jobs w' = w_jobs w @ [(VideoJob (clipConfig config opts fr i), Succeeded)] \<and>
     cp' = cp @ [clipPathOf env i] \<and>
     w_files w' = w_files w @ [clipPathOf env i] \<and>
     w_concat w' = w_concat w \<and> w_listeners w' = w_listeners w"
  by (auto simp: segmentStep_def Let_def split: sum.splits if_splits)

lemma segmentStep_Inl:
  "segmentStep config env opts fr i (w, cp) = Inl (e, w') \<Longrightarrow>
     (\<exists>st. w_jobs w' = w_jobs w @ [(VideoJob (clipConfig config opts fr i), st)] \<and>
           ((st = Failed \<and> (e = NoVideoUrl \<or> (\<exists>m. e = SegmentJobFailed m))) \<or>
            (st = Succeeded \<and> (\<exists>u. e = DownloadFailed u)))) \<and>
     w_files w' = w_files w \<and> w_concat w' = w_concat w \<and> w_listeners w' = w_listeners w"
  by (auto simp: segmentStep_def Let_def split: sum.splits if_splits)

lemma segmentLoop_Inr:
  "segmentLoop config env opts fr is (w, cp) = Inr (w', cp') \<Longrightarrow>
     w_jobs w' = w_jobs w @ map (\<lambda>i. (VideoJob (clipConfig config opts fr i), Succeeded)) is \<and>
     cp' = cp @ map (clipPathOf env) is \<and>
     w_files w' = w_files w @ map (clipPathOf env) is \<and>
     w_concat w' = w_concat w \<and> w_listeners w' = w_listeners w"
proof (induction "is" arbitrary: w cp)
  case Nil
  then show ?case by simp
next
  case (Cons i "is")
  from Cons.prems obtain w1 cp1 where
    s: "segmentStep config env opts fr i (w, cp) = Inr (w1, cp1)"
    and r: "segmentLoop config env opts fr is (w1, cp1) = Inr (w', cp')"
    by (auto split: sum.splits)
  from segmentStep_Inr [OF s] Cons.IH [OF r] show ?case by simp
qed

lemma segmentLoop_Inl:
  "segmentLoop config env opts fr is (w, cp) = Inl (e, w') \<Longrightarrow>
     \<exists>done i rest st.
       is = done @ i # rest \<and>
       w_jobs w' = w_jobs w @ map (\<lambda>i. (VideoJob (clipConfig config opts fr i), Succeeded)) done
                     @ [(VideoJob (clipConfig config opts fr i), st)] \<and>
       ((st = Failed \<and> (e = NoVideoUrl \<or> (\<exists>m. e = SegmentJobFailed m))) \<or>
        (st = Succeeded \<and> (\<exists>u. e = DownloadFailed u))) \<and>
       w_files w' = w_files w @ map (clipPathOf env) done \<and>
       w_concat w' = w_concat w \<and> w_listeners w' = w_listeners w"
proof (induction "is" arbitrary: w cp)
  case Nil
  then show ?case by simp
next
  case (Cons i "is")
  show ?case
  proof (cases "segmentStep config env opts fr i (w, cp)")
    case (Inl err)
    with Cons.prems have err: "err = (e, w')" by simp
    from segmentStep_Inl [OF Inl [unfolded err]] obtain st where
      "w_jobs w' = w_jobs w @ [(VideoJob (clipConfig config opts fr i), st)]"
      "(st = Failed \<and> (e = NoVideoUrl \<or> (\<exists>m. e = SegmentJobFailed m))) \<or>
       (st = Succeeded \<and> (\<exists>u. e = DownloadFailed u))"
      "w_files w' = w_files w" "w_concat w' = w_concat w" "w_listeners w' = w_listeners w"
      by blast
    then have "i # is = [] @ i # is \<and>
       w_jobs w' = w_jobs w @ map (\<lambda>i. (VideoJob (clipConfig config opts fr i), Succeeded)) []
                     @ [(VideoJob (clipConfig config opts fr i), st)] \<and>
       ((st = Failed \<and> (e = NoVideoUrl \<or> (\<exists>m. e = SegmentJobFailed m))) \<or>
        (st = Succeeded \<and> (\<exists>u. e = DownloadFailed u))) \<and>
       w_files w' = w_files w @ map (clipPathOf env) [] \<and>
       w_concat w' = w_concat w \<and> w_listeners w' = w_listeners w"
      by simp
    then show ?thesis by blast
  next
    case (Inr acc)
    obtain w1 cp1 where acc: "acc = (w1, cp1)" by (cases acc)
    from Cons.prems Inr acc have r: "segmentLoop config env opts fr is (w1, cp1) = Inl (e, w')"
      by simp
    from Cons.IH [OF r] obtain "done" j rest st where ih:
      "is = done @ j # rest"
      "w_jobs w' = w_jobs w1 @ map (\<lambda>i. (VideoJob (clipConfig config opts fr i), Succeeded)) done
                     @ [(VideoJob (clipConfig config opts fr j), st)]"
      "(st = Failed \<and> (e = NoVideoUrl \<or> (\<exists>m. e = SegmentJobFailed m))) \<or>
        (st = Succeeded \<and> (\<exists>u. e = DownloadFailed u))"
      "w_files w' = w_files w1 @ map (clipPathOf env) done"
      "w_concat w' = w_concat w1" "w_listeners w' = w_listeners w1"
      by blast
    from segmentStep_Inr [OF Inr [unfolded acc]] ih
    have "i # is = (i # done) @ j # rest \<and>
       w_jobs w' = w_jobs w @ map (\<lambda>i. (VideoJob (clipConfig config opts fr i), Succeeded)) (i # done)
                     @ [(VideoJob (clipConfig config opts fr j), st)] \<and>
       ((st = Failed \<and> (e = NoVideoUrl \<or> (\<exists>m. e = SegmentJobFailed m))) \<or>
        (st = Succeeded \<and> (\<exists>u. e = DownloadFailed u))) \<and>
       w_files w' = w_files w @ map (clipPathOf env) (i # done) \<and>
       w_concat w' = w_concat w \<and> w_listeners w' = w_listeners w"
      by simp
    then show ?thesis by blast
  qed
qed

subsection \<open>Stages of the flow\<close>




text \<open>The stages.\<close>

lemma upt_shift: "i # [Suc i..<Suc (i + n)] = [i..<Suc (i + n)]"
  by (simp add: upt_rec)










lemma buildConcat_Inr:
  "buildConcatVideoFromClips env p clips w = Inr w' \<Longrightarrow>
     w_jobs w' = w_jobs w \<and> prefix (w_files w) (w_files w') \<and>
     w_concat w' = w_concat w @ [(p, clips)]"
  by (auto simp: buildConcatVideoFromClips_def Let_def split: if_splits)

lemma buildConcat_Inl:
  "buildConcatVideoFromClips env p clips w = Inl (e, w') \<Longrightarrow>
     e = FfmpegFailed \<and> w_jobs w' = w_jobs w \<and> prefix (w_files w) (w_files w')"
  by (auto simp: buildConcatVideoFromClips_def Let_def split: if_splits)





subsection \<open>The files of an aborted run\<close>

lemma upt_split:
  "[0..<n] = xs @ i # ys \<Longrightarrow> xs = [0..<i] \<and> i < n"
proof -
  assume a: "[0..<n] = xs @ i # ys"
  then have len: "length xs < n"
    by (metis diff_zero length_append length_upt less_add_Suc1 list.size(4) add_Suc_right)
  from a have "[0..<n] ! length xs = i" by simp
  with len have i: "i = length xs" by simp
  from a have "take (length xs) [0..<n] = xs" by simp
  with len have "xs = [0..<length xs]" by (simp add: take_upt)
  with i len show ?thesis by simp
qed



lemma angleLoop_Nil_run: "angleLoop config env opts outputConfig k [] acc = Inr acc"
  by simp



subsection \<open>The requests of the segments\<close>

lemma clipConfig_refs:
  "v_referenceImage (clipConfig config opts fr i) = Some (fr ! i)"
  "v_referenceImageEnd (clipConfig config opts fr i) = Some (fr ! ((i + 1) mod length fr))"
  by (simp_all add: clipConfig_def Let_def)

text \<open>The frame branch of lines 1249-1250, which no run from the command line takes.\<close>

lemma clipConfig_frames:
  assumes "frames opts = Some (Num F)" "F \<noteq> 0"
  shows "v_frames (clipConfig config opts fr i) =
           Some (Num (max 17 (mathRound (jsDivide F (length fr)))))"
    and "v_duration (clipConfig config opts fr i) = None"
  using assms by (simp_all add: clipConfig_def Let_def segmentFrames_def)

lemma clipConfig_duration:
  assumes "\<not> truthyNum (frames opts)" "duration opts = Num D"
  shows "v_frames (clipConfig config opts fr i) = None"
    and "v_duration (clipConfig config opts fr i) =
           Some (Num (max 1 (mathRound (jsDivide D (length fr)))))"
proof -
  from assms(1) have sf: "segmentFrames opts (length fr) = None"
    by (cases "frames opts" rule: truthyNum.cases) (auto simp: segmentFrames_def)
  show "v_frames (clipConfig config opts fr i) = None"
    by (simp add: clipConfig_def Let_def sf)
  show "v_duration (clipConfig config opts fr i) =
           Some (Num (max 1 (mathRound (jsDivide D (length fr)))))"
    using assms by (simp add: clipConfig_def Let_def sf segmentDuration_def)
qed

lemma videoStage_jobs_Inr:
  assumes "truthy vp" "fr \<noteq> []" "videoStage config env opts vp fr w = Inr w'"
  shows "newJobs w w' = map (\<lambda>i. VideoJob (clipConfig config opts fr i)) [0..<length fr]"
proof -
  from assms obtain w1 cp where
    s: "segmentLoop config env opts fr [0..<length fr] (w, []) = Inr (w1, cp)"
    and b: "buildConcatVideoFromClips env (the vp) cp w1 = Inr w'"
    by (auto simp: videoStage_def split: if_splits sum.splits)
  from segmentLoop_Inr [OF s] buildConcat_Inr [OF b] show ?thesis
    by (simp add: newJobs_def comp_def)
qed

lemma videoStage_jobs_Inl:
  assumes "truthy vp" "fr \<noteq> []" "videoStage config env opts vp fr w = Inl (e, w')"
  shows "\<exists>m\<le>length fr. 0 < m \<and>
           newJobs w w' = map (\<lambda>i. VideoJob (clipConfig config opts fr i)) [0..<m]"
proof (cases "segmentLoop config env opts fr [0..<length fr] (w, [])")
  case (Inl err)
  with assms have s: "segmentLoop config env opts fr [0..<length fr] (w, []) = Inl (e, w')"
    by (simp add: videoStage_def split: if_splits)
  from segmentLoop_Inl [OF s] obtain "done" i rest st where
    sp: "[0..<length fr] = done @ i # rest"
    and j: "w_jobs w' = w_jobs w @ map (\<lambda>i. (VideoJob (clipConfig config opts fr i), Succeeded)) done
                     @ [(VideoJob (clipConfig config opts fr i), st)]"
    by blast
  from upt_split [OF sp] have d: "done = [0..<i]" "i < length fr" by simp_all
  have "newJobs w w' = map (\<lambda>i. VideoJob (clipConfig config opts fr i)) [0..<Suc i]"
    using j d by (simp add: newJobs_def comp_def)
  with d(2) show ?thesis
    by (intro exI [of _ "Suc i"]) simp
next
  case (Inr acc)
  obtain w1 cp where acc: "acc = (w1, cp)" by (cases acc)
  with Inr assms have b: "buildConcatVideoFromClips env (the vp) cp w1 = Inl (e, w')"
    by (simp add: videoStage_def split: if_splits)
  from segmentLoop_Inr [OF Inr [unfolded acc]] buildConcat_Inl [OF b]
  have "newJobs w w' = map (\<lambda>i. VideoJob (clipConfig config opts fr i)) [0..<length fr]"
    by (simp add: newJobs_def comp_def)
  with assms(2) show ?thesis
    by (intro exI [of _ "length fr"]) simp
qed

text \<open>The seed resolution leaves the mode of a run alone.\<close>

lemma mode_resolveSeed: "mode (resolveSeed config lastRenderSeed randomSeed opts) = mode opts"
  by (simp add: resolveSeed_def mode_def Let_def)

lemma topLevel_multiAngle:
  assumes "topLevel g config cliSet lastRenderSeed randomSeed opts0 = Inr opts"
    and "multiAngle opts"
  shows "\<not> video opts \<and> \<not> truthyNum (frames opts)"
proof -
  from assms(1) obtain checked where
    c: "checkOptions g config cliSet opts0 = Inr checked"
    and o: "opts = resolveSeed config lastRenderSeed randomSeed checked"
    by (auto simp: topLevel_def split: sum.splits)
  from mode_resolveSeed [of config lastRenderSeed randomSeed checked] o
  have m: "mode opts = mode checked" by simp
  with assms(2) have "multiAngle checked" by (simp add: mode_def)
  from checked_multiAngle [OF c this] m show ?thesis by (simp add: mode_def)
qed

subsection \<open>Evaluation of the sample runs\<close>

lemmas flow_defs =
  runMultiAngleFlow_def azimuthsOf_def angleStep_def angleEditConfig_def buildMultiAnglePrompt_def
  findPrompt_def MULTI_ANGLE_AZIMUTHS_def MULTI_ANGLE_ELEVATIONS_def MULTI_ANGLE_DISTANCES_def
  getModelDefaults_def angleFilePath_def joinPath_def normalizePath_def normalizeStep_def
  safeChar_def videoStage_def segmentStep_def clipConfig_def
  clipPathOf_def segmentFrames_def segmentDuration_def videoModelId_def videoPrompt_def
  VIDEO_WORKFLOW_DEFAULT_i2v_def buildConcatVideoFromClips_def stripMp4_def flowWorld_def
  newJobs_def unhandled_def mathRound_jsDivide_div

lemmas sample_defs = turntable_def turntableOutput_def studio_def brokenStudio_def
  crashedStudio_def emptyWorld_def initialOptions_def decimal_small lightning_model

lemma decimal_Suc_0: "decimal (Suc 0) = ''1''"
  by code_simp



lemmas angle_check_defs =
  multiAngleRequirements_def multiAngleKeys_def multiAngleDefaults_def multiAngleLoras_def
  loneStrength_def angleGuidance_def defaultAngleStrength_def ensureAngleLora_def
  fillStrengths_def normalizeMultiAngleValue_def MULTI_ANGLE_ELEVATION_ALIASES_def
  MULTI_ANGLE_DISTANCE_ALIASES_def MULTI_ANGLE_AZIMUTH_ALIASES_def MULTI_ANGLE_AZIMUTHS_def
  MULTI_ANGLE_ELEVATIONS_def MULTI_ANGLE_DISTANCES_def toLowerCase_def lowerChar_def trim_def
  collapseSpaces_def isSpace_def quoted_def joinKeys_def str_includes_def resolveSeed_def

text \<open>The sample options \<open>turntable\<close> are what the checks make of the command line.\<close>

lemma turntable_checked:
  "topLevel threeImages None noFlags None 0 turntableCli = Inr turntable"
  by (simp add: check_defs angle_check_defs turntableCli_def turntable_def threeImages_def)

lemma frames_refused:
  "topLevel threeImages None noFlags None 0 (turntableCli\<lparr>frames := Some (Num 100)\<rparr>) =
     Inl \<lparr>p_stdout = [],
          p_stderr = [''Error: Video-only options (--workflow/--frames/--ref-audio/--ref-video) require --video''],
          p_exit = Some 1, p_submitted = []\<rparr>"
  by (simp add: check_defs angle_check_defs turntableCli_def threeImages_def)

subsection \<open>C8: the segments of a 360 video\<close>

text \<open>
  C8.  With \<open>K\<close> frames (\<open>K\<close> is at least 1 when the loop is reached) the video stage
  hands exactly the \<open>K\<close> requests \<open>clipConfig 0 .. clipConfig (K-1)\<close> to the client, in
  this order, when it goes through; when it stops early the requests are the first \<open>m\<close>
  of them.  Request \<open>i\<close> starts at frame \<open>i\<close> and ends at frame \<open>(i + 1) mod K\<close>.  Without
  a frame count in the options it asks for \<open>max(1, Math.round(D / K))\<close> seconds and no
  frame count, where \<open>D / K\<close> is the quotient as JavaScript computes it, in double
  precision; for a duration below \<open>2^52\<close> in magnitude that is the exact quotient rounded
  to the nearest integer, a tie going up.  And there never is a frame count: options that
  have come through the checks of the script in multi-angle mode carry none, because
  \<open>--frames\<close> is refused without \<open>--video\<close> (line 803) and \<open>--video\<close> is refused with
  \<open>--multi-angle\<close> (line 608).
\<close>

theorem segments_of_360_video:
  assumes "truthy videoOutputPath" and "videoFrames \<noteq> []"
  shows
    "(\<forall>w'. videoStage config env opts videoOutputPath videoFrames w = Inr w' \<longrightarrow>
        newJobs w w' =
          map (\<lambda>i. VideoJob (clipConfig config opts videoFrames i)) [0..<length videoFrames]) \<and>
     (\<forall>e w'. videoStage config env opts videoOutputPath videoFrames w = Inl (e, w') \<longrightarrow>
        (\<exists>m\<le>length videoFrames. 0 < m \<and>
           newJobs w w' = map (\<lambda>i. VideoJob (clipConfig config opts videoFrames i)) [0..<m])) \<and>
     (\<forall>i<length videoFrames.
        v_referenceImage (clipConfig config opts videoFrames i) = Some (videoFrames ! i) \<and>
        v_referenceImageEnd (clipConfig config opts videoFrames i) =
          Some (videoFrames ! ((i + 1) mod length videoFrames)) \<and>
        (\<forall>D. \<not> truthyNum (frames opts) \<and> duration opts = Num D \<longrightarrow>
           v_frames (clipConfig config opts videoFrames i) = None \<and>
           v_duration (clipConfig config opts videoFrames i) =
             Some (Num (max 1 (mathRound (jsDivide D (length videoFrames))))) \<and>
           (\<bar>D\<bar> < 2 ^ 52 \<longrightarrow>
              mathRound (jsDivide D (length videoFrames)) =
                mathRound (of_int D / of_nat (length videoFrames))))) \<and>
     (\<forall>g cliSet lastRenderSeed randomSeed opts0.
        topLevel g config cliSet lastRenderSeed randomSeed opts0 = Inr opts \<and> multiAngle opts \<longrightarrow>
          \<not> truthyNum (frames opts))"
proof (intro conjI allI impI)
  fix w'
  assume "videoStage config env opts videoOutputPath videoFrames w = Inr w'"
  from videoStage_jobs_Inr [OF assms this]
  show "newJobs w w' =
          map (\<lambda>i. VideoJob (clipConfig config opts videoFrames i)) [0..<length videoFrames]" .
next
  fix e w'
  assume "videoStage config env opts videoOutputPath videoFrames w = Inl (e, w')"
  from videoStage_jobs_Inl [OF assms this]
  show "\<exists>m\<le>length videoFrames. 0 < m \<and>
           newJobs w w' = map (\<lambda>i. VideoJob (clipConfig config opts videoFrames i)) [0..<m]" .
next
  fix i
  show "v_referenceImage (clipConfig config opts videoFrames i) = Some (videoFrames ! i)"
    by (rule clipConfig_refs)
  show "v_referenceImageEnd (clipConfig config opts videoFrames i) =
          Some (videoFrames ! ((i + 1) mod length videoFrames))"
    by (rule clipConfig_refs)
next
  fix i D
  assume a: "\<not> truthyNum (frames opts) \<and> duration opts = Num D"
  then have a1: "\<not> truthyNum (frames opts)" and a2: "duration opts = Num D" by simp_all
  show "v_frames (clipConfig config opts videoFrames i) = None"
    by (rule clipConfig_duration(1) [OF a1 a2])
  show "v_duration (clipConfig config opts videoFrames i) =
             Some (Num (max 1 (mathRound (jsDivide D (length videoFrames)))))"
    by (rule clipConfig_duration(2) [OF a1 a2])
next
  fix i and D :: int
  assume "\<bar>D\<bar> < 2 ^ 52"
  moreover have "0 < length videoFrames" using assms(2) by simp
  ultimately show "mathRound (jsDivide D (length videoFrames)) =
                mathRound (of_int D / of_nat (length videoFrames))"
    by (intro mathRound_jsDivide)
next
  fix g cliSet lastRenderSeed randomSeed opts0
  assume "topLevel g config cliSet lastRenderSeed randomSeed opts0 = Inr opts \<and> multiAngle opts"
  then have "topLevel g config cliSet lastRenderSeed randomSeed opts0 = Inr opts" "multiAngle opts"
    by simp_all
  from topLevel_multiAngle [OF this] show "\<not> truthyNum (frames opts)" by simp
qed

text \<open>
  The theorem on the run \<open>--angles-360 --angles-360-video /tmp/turntable.mp4 -c
  subject.jpg --seed 123 "studio portrait"\<close>, whose options come through the checks
  without a frame count, with three frames on disk and the default duration of 5 seconds:
  three requests, front to right, right to back, back to front, 2 seconds each, which is
  5/3 rounded.
\<close>

theorem segments_of_360_video_witness:
  "(\<exists>w'. videoStage None studio turntable (Some ''/tmp/turntable.mp4'') threeFrames emptyWorld
           = Inr w' \<and>
         map (\<lambda>j. case j of
                    VideoJob c \<Rightarrow> (v_referenceImage c, v_referenceImageEnd c, v_frames c, v_duration c)
                  | EditJob c \<Rightarrow> (None, None, None, None))
             (newJobs emptyWorld w') =
           [(Some ''/tmp/a/front.jpg'', Some ''/tmp/a/right.jpg'', None, Some (Num 2)),
            (Some ''/tmp/a/right.jpg'', Some ''/tmp/a/back.jpg'', None, Some (Num 2)),
            (Some ''/tmp/a/back.jpg'', Some ''/tmp/a/front.jpg'', None, Some (Num 2))]) \<and>
   mathRound (jsDivide 5 (length threeFrames)) = mathRound (5 / 3) \<and>
   topLevel threeImages None noFlags None 0 turntableCli = Inr turntable \<and>
   multiAngle turntable \<and> \<not> truthyNum (frames turntable)"
proof -
  have p: "truthy (Some ''/tmp/turntable.mp4'')" and f: "threeFrames \<noteq> []"
    by (simp_all add: threeFrames_def)
  obtain w' where r:
    "videoStage None studio turntable (Some ''/tmp/turntable.mp4'') threeFrames emptyWorld = Inr w'"
    by (simp add: flow_defs sample_defs threeFrames_def decimal_Suc_0)
  note t = segments_of_360_video [OF p f, of None studio turntable emptyWorld]
  note j = t [THEN conjunct1, rule_format, OF r]
  have d: "\<not> truthyNum (frames turntable) \<and> duration turntable = Num 5"
    by (simp add: turntable_def initialOptions_def)
  have small: "\<bar>5::int\<bar> < 2 ^ 52" by simp
  have c0: "0 < length threeFrames" "1 < length threeFrames" "2 < length threeFrames"
    by (simp_all add: threeFrames_def)
  note per = t [THEN conjunct2, THEN conjunct2, THEN conjunct1, rule_format]
  note q0 = per [OF c0(1)] and q1 = per [OF c0(2)] and q2 = per [OF c0(3)]
  note e0 = q0 [THEN conjunct2, THEN conjunct2, rule_format, OF d]
    and e1 = q1 [THEN conjunct2, THEN conjunct2, rule_format, OF d]
    and e2 = q2 [THEN conjunct2, THEN conjunct2, rule_format, OF d]
  note exact = e0 [THEN conjunct2, THEN conjunct2, rule_format, OF small]
  have five: "mathRound (of_int 5 / of_nat (length threeFrames)) = 2"
    using mathRound_div [of 3 5] by (simp add: threeFrames_def)
  have two: "mathRound (jsDivide 5 (length threeFrames)) = 2"
    using exact five by simp
  have up: "[0..<length threeFrames] = [0, 1, 2]"
    by (simp add: threeFrames_def upt_rec)
  from q0 q1 q2 e0 e1 e2 two have vals:
    "v_referenceImage (clipConfig None turntable threeFrames 0) = Some ''/tmp/a/front.jpg''"
    "v_referenceImageEnd (clipConfig None turntable threeFrames 0) = Some ''/tmp/a/right.jpg''"
    "v_referenceImage (clipConfig None turntable threeFrames 1) = Some ''/tmp/a/right.jpg''"
    "v_referenceImageEnd (clipConfig None turntable threeFrames 1) = Some ''/tmp/a/back.jpg''"
    "v_referenceImage (clipConfig None turntable threeFrames 2) = Some ''/tmp/a/back.jpg''"
    "v_referenceImageEnd (clipConfig None turntable threeFrames 2) = Some ''/tmp/a/front.jpg''"
    "v_frames (clipConfig None turntable threeFrames 0) = None"
    "v_frames (clipConfig None turntable threeFrames 1) = None"
    "v_frames (clipConfig None turntable threeFrames 2) = None"
    "v_duration (clipConfig None turntable threeFrames 0) = Some (Num 2)"
    "v_duration (clipConfig None turntable threeFrames 1) = Some (Num 2)"
    "v_duration (clipConfig None turntable threeFrames 2) = Some (Num 2)"
    by (simp_all add: threeFrames_def)
  have first: "\<exists>w'. videoStage None studio turntable (Some ''/tmp/turntable.mp4'') threeFrames
             emptyWorld = Inr w' \<and>
         map (\<lambda>j. case j of
                    VideoJob c \<Rightarrow> (v_referenceImage c, v_referenceImageEnd c, v_frames c, v_duration c)
                  | EditJob c \<Rightarrow> (None, None, None, None))
             (newJobs emptyWorld w') =
           [(Some ''/tmp/a/front.jpg'', Some ''/tmp/a/right.jpg'', None, Some (Num 2)),
            (Some ''/tmp/a/right.jpg'', Some ''/tmp/a/back.jpg'', None, Some (Num 2)),
            (Some ''/tmp/a/back.jpg'', Some ''/tmp/a/front.jpg'', None, Some (Num 2))]"
    using r j up vals by (intro exI [of _ w']) simp
  have second: "mathRound (jsDivide 5 (length threeFrames)) = mathRound (5 / 3)"
    using two five by (simp add: threeFrames_def)
  have ma: "multiAngle turntable" by (simp add: turntable_def initialOptions_def)
  have nf: "\<not> truthyNum (frames turntable)"
    by (rule t [THEN conjunct2, THEN conjunct2, THEN conjunct2, rule_format,
                OF conjI [OF turntable_checked ma]])
  from first second turntable_checked ma nf show ?thesis by (intro conjI)
qed

text \<open>
  C8 as stated fails in two ways.  \<open>round(D / K)\<close> of the exact quotient is not what the
  code sends for a very long duration: at \<open>--duration 6755399441055745\<close>, which the
  checks let through, with three frames the quotient in double precision is \<open>2251799813685248.5\<close>, so the request asks
  for \<open>2251799813685249\<close> seconds, while the exact quotient rounds to
  \<open>2251799813685248\<close>.  And a frame budget cannot be requested: with \<open>--frames 100\<close>
  added, the run ends at line 803 before the flow starts.
\<close>

theorem segment_request_counterexample:
  "v_duration (clipConfig None (turntable\<lparr>duration := Num 6755399441055745\<rparr>) threeFrames 0) =
     Some (Num 2251799813685249) \<and>
   max 1 (mathRound (6755399441055745 / of_nat (length threeFrames))) = 2251799813685248 \<and>
   topLevel threeImages None noFlags None 0 (turntableCli\<lparr>duration := Num 6755399441055745\<rparr>) =
     Inr (turntable\<lparr>duration := Num 6755399441055745\<rparr>) \<and>
   topLevel threeImages None noFlags None 0 (turntableCli\<lparr>frames := Some (Num 100)\<rparr>) =
     Inl \<lparr>p_stdout = [],
          p_stderr = [''Error: Video-only options (--workflow/--frames/--ref-audio/--ref-video) require --video''],
          p_exit = Some 1, p_submitted = []\<rparr>"
proof -
  have l: "length threeFrames = 3" by (simp add: threeFrames_def)
  have nf: "\<not> truthyNum (frames (turntable\<lparr>duration := Num 6755399441055745\<rparr>))"
    and du: "duration (turntable\<lparr>duration := Num 6755399441055745\<rparr>) = Num 6755399441055745"
    by (simp_all add: turntable_def initialOptions_def)
  have 1: "v_duration (clipConfig None (turntable\<lparr>duration := Num 6755399441055745\<rparr>) threeFrames 0) =
     Some (Num 2251799813685249)"
    unfolding clipConfig_duration(2) [OF nf du] l large_duration by simp
  have "mathRound (of_int 6755399441055745 / of_nat 3) = 2251799813685248"
    using mathRound_div [of 3 6755399441055745] by simp
  then have 2: "max 1 (mathRound (6755399441055745 / of_nat (length threeFrames))) = 2251799813685248"
    unfolding l by simp
  have 3: "topLevel threeImages None noFlags None 0
             (turntableCli\<lparr>duration := Num 6755399441055745\<rparr>) =
           Inr (turntable\<lparr>duration := Num 6755399441055745\<rparr>)"
    by (simp add: check_defs angle_check_defs turntableCli_def turntable_def threeImages_def)
  from 1 2 3 frames_refused show ?thesis by (intro conjI)
qed

subsection \<open>C9: a failed job ends the compound run\<close>



end
